theory Spec2Isabelle
  imports Main "HOL-Library.AList"
begin

section \<open>Go strings\<close>

text \<open>
  A Go string is a sequence of bytes; \<^typ>\<open>string\<close> is a list of 8-bit characters.
  \<open>strings.HasPrefix\<close> and \<open>strings.Contains\<close> compare bytes and are written out.
  \<open>strings.ToUpper\<close> and \<open>strings.TrimSpace\<close> follow the Unicode tables; the functions
  that call them take them as the parameters \<open>ToUpper\<close> and \<open>TrimSpace\<close>, so every
  theorem below holds for the library's own functions. \<open>toUpperASCII\<close> and
  \<open>trimSpaceASCII\<close> are what the library computes on ASCII text; they serve the
  concrete runs.
\<close>

fun HasPrefix :: "string \<Rightarrow> string \<Rightarrow> bool" where
  "HasPrefix s [] = True"
| "HasPrefix [] (p # ps) = False"
| "HasPrefix (c # cs) (p # ps) = (c = p \<and> HasPrefix cs ps)"

fun Contains :: "string \<Rightarrow> string \<Rightarrow> bool" where
  "Contains [] substr = (substr = [])"
| "Contains (c # cs) substr = (HasPrefix (c # cs) substr \<or> Contains cs substr)"

definition upperByte :: "char \<Rightarrow> char" where
  "upperByte c =
     (case map_of (zip ''abcdefghijklmnopqrstuvwxyz'' ''ABCDEFGHIJKLMNOPQRSTUVWXYZ'') c of
        Some u \<Rightarrow> u
      | None \<Rightarrow> c)"

definition toUpperASCII :: "string \<Rightarrow> string" where
  "toUpperASCII s = map upperByte s"

definition isSpaceByte :: "char \<Rightarrow> bool" where
  "isSpaceByte c = (c \<in> set [CHR '' '', CHR 0x09, CHR 0x0A, CHR 0x0B, CHR 0x0C, CHR 0x0D])"

definition trimSpaceASCII :: "string \<Rightarrow> string" where
  "trimSpaceASCII s = rev (dropWhile isSpaceByte (rev (dropWhile isSpaceByte s)))"

fun Join :: "string list \<Rightarrow> string \<Rightarrow> string" where
  "Join [] sep = []"
| "Join [x] sep = x"
| "Join (x # y # rest) sep = x @ sep @ Join (y # rest) sep"

section \<open>Schema sanitizer (request_transformer.go)\<close>

text \<open>
  A schema is the tree \<open>encoding/json\<close> decodes into \<open>map[string]any\<close>: objects, arrays
  and scalars. An object is the list of its entries; a Go map holds a key once and has no
  order, so an entry list stands for the map it lists. Numbers are carried along
  untouched, so their type is a parameter. The sanitizer's one-time log line for a removed
  validation keyword changes no value and is left out, with the \<open>path\<close> argument that
  only feeds it.
\<close>

datatype 'n json =
    JNull
  | JBool bool
  | JNum 'n
  | JStr string
  | JArr "'n json list"
  | JObj "(string \<times> 'n json) list"

definition excludedSchemaKeys :: "string list" where
  "excludedSchemaKeys =
    [''$schema'', ''$id'', ''$ref'',
     ''minLength'', ''maxLength'', ''pattern'',
     ''minimum'', ''maximum'', ''exclusiveMinimum'', ''exclusiveMaximum'', ''multipleOf'',
     ''uniqueItems'', ''minItems'', ''maxItems'',
     ''oneOf'', ''anyOf'', ''allOf'', ''not'', ''if'', ''then'', ''else'', ''$defs'', ''definitions'',
     ''minProperties'', ''maxProperties'', ''patternProperties'', ''propertyNames'',
     ''dependencies'', ''dependentSchemas'', ''dependentRequired'',
     ''default'', ''const'', ''examples'', ''deprecated'', ''readOnly'', ''writeOnly'',
     ''contentMediaType'', ''contentEncoding'',
     ''strict'']"

fun firstNonNullType :: "'n json list \<Rightarrow> string option" where
  "firstNonNullType [] = None"
| "firstNonNullType (JStr ts # rest) = (if ts \<noteq> ''null'' then Some ts else firstNonNullType rest)"
| "firstNonNullType (_ # rest) = firstNonNullType rest"

fun cleanTypeValue :: "(string \<Rightarrow> string) \<Rightarrow> 'n json \<Rightarrow> 'n json" where
  "cleanTypeValue ToUpper (JStr v) = JStr (ToUpper v)"
| "cleanTypeValue ToUpper (JArr v) =
     (case firstNonNullType v of Some ts \<Rightarrow> JStr (ToUpper ts) | None \<Rightarrow> JStr ''STRING'')"
| "cleanTypeValue ToUpper v = v"

fun cleanSchemaValue :: "(string \<Rightarrow> string) \<Rightarrow> 'n json \<Rightarrow> 'n json"
  and cleanSchemaMap :: "(string \<Rightarrow> string) \<Rightarrow> (string \<times> 'n json) list \<Rightarrow> (string \<times> 'n json) list"
  and cleanSchemaArray :: "(string \<Rightarrow> string) \<Rightarrow> 'n json list \<Rightarrow> 'n json list"
where
  "cleanSchemaValue ToUpper (JObj v) = JObj (cleanSchemaMap ToUpper v)"
| "cleanSchemaValue ToUpper (JArr v) = JArr (cleanSchemaArray ToUpper v)"
| "cleanSchemaValue ToUpper JNull = JNull"
| "cleanSchemaValue ToUpper (JBool b) = JBool b"
| "cleanSchemaValue ToUpper (JNum n) = JNum n"
| "cleanSchemaValue ToUpper (JStr s) = JStr s"
| "cleanSchemaMap ToUpper [] = []"
| "cleanSchemaMap ToUpper ((k, val) # rest) =
     (if k \<in> set excludedSchemaKeys then cleanSchemaMap ToUpper rest
      else if k = ''type'' then (k, cleanTypeValue ToUpper val) # cleanSchemaMap ToUpper rest
      else if k = ''format'' then
        (case val of
           JStr formatStr \<Rightarrow>
             if formatStr = ''date-time'' \<or> formatStr = ''date'' \<or> formatStr = ''time''
             then (k, val) # cleanSchemaMap ToUpper rest
             else cleanSchemaMap ToUpper rest
         | _ \<Rightarrow> cleanSchemaMap ToUpper rest)
      else if k = ''additionalProperties'' then
        (case val of
           JBool boolVal \<Rightarrow> (k, JBool boolVal) # cleanSchemaMap ToUpper rest
         | _ \<Rightarrow> (k, JBool False) # cleanSchemaMap ToUpper rest)
      else (k, cleanSchemaValue ToUpper val) # cleanSchemaMap ToUpper rest)"
| "cleanSchemaArray ToUpper [] = []"
| "cleanSchemaArray ToUpper (item # rest) = cleanSchemaValue ToUpper item # cleanSchemaArray ToUpper rest"

definition hasKey :: "(string \<times> 'v) list \<Rightarrow> string \<Rightarrow> bool" where
  "hasKey m k = (case map_of m k of None \<Rightarrow> False | Some _ \<Rightarrow> True)"

definition cleanJSONSchema ::
  "(string \<Rightarrow> string) \<Rightarrow> (string \<times> 'n json) list option \<Rightarrow> (string \<times> 'n json) list option" where
  "cleanJSONSchema ToUpper schema =
    (case schema of
       None \<Rightarrow> None
     | Some m \<Rightarrow>
        (case cleanSchemaValue ToUpper (JObj m) of
           JObj result \<Rightarrow>
             let result1 = (if \<not> hasKey result ''type''
                            then AList.update ''type'' (JStr ''OBJECT'') result else result);
                 result2 = (if \<not> hasKey result1 ''properties''
                            then AList.update ''properties'' (JObj []) result1 else result1)
             in Some
               (case map_of result2 ''required'' of
                  Some (JArr required) \<Rightarrow>
                    (case map_of result2 ''properties'' of
                       Some (JObj props) \<Rightarrow>
                         let validRequired =
                               filter (\<lambda>r. case r of JStr reqName \<Rightarrow> hasKey props reqName
                                                     | _ \<Rightarrow> False) required
                         in if validRequired \<noteq> []
                            then AList.update ''required'' (JArr validRequired) result2
                            else AList.delete ''required'' result2
                     | _ \<Rightarrow> result2)
                | _ \<Rightarrow> result2)
         | _ \<Rightarrow> None))"

section \<open>Request transformer (request_transformer.go)\<close>

text \<open>
  The struct declarations of the Claude and Gemini wire types are not among the source
  files; the records below have the fields the transformer reads and writes. A
  \<open>json.RawMessage\<close> field is given by what decoding it yields: a message's content is a
  string, an array of content blocks, or neither (\<open>ContentInvalid\<close>, for which
  \<open>buildParts\<close> returns its error); a tool result's content is absent, a string, an array
  of objects (each with or without a string under \<open>text\<close>), or other JSON returned as
  its text. The input of a tool call is passed through untouched and has the type
  parameter \<open>'a\<close>; sampling parameters have the type parameter \<open>'f\<close>.
\<close>

record ImageSource =
  sourceType :: string
  MediaType :: string
  sourceData :: string

datatype raw_content =
    RawAbsent
  | RawString string
  | RawArray "string option list"
  | RawOther string

record 'a ContentBlock =
  blockType :: string
  blockText :: string
  blockThinking :: string
  blockSignature :: string
  blockSource :: "ImageSource option"
  blockID :: string
  blockName :: string
  blockInput :: 'a
  blockToolUseID :: string
  blockContent :: raw_content
  blockIsError :: bool

datatype 'a message_content =
    ContentText string
  | ContentBlocks "'a ContentBlock list"
  | ContentInvalid

record 'a ClaudeMessage =
  msgRole :: string
  msgContent :: "'a message_content"

record GeminiInlineData =
  MimeType :: string
  Data :: string

record 'a GeminiFunctionCall =
  callName :: string
  Args :: 'a
  callID :: string

record GeminiFunctionResponse =
  responseName :: string
  Response :: string
  responseID :: string

record 'a GeminiPart =
  Text :: string
  Thought :: bool
  ThoughtSignature :: string
  InlineData :: "GeminiInlineData option"
  FunctionCall :: "'a GeminiFunctionCall option"
  FunctionResponse :: "GeminiFunctionResponse option"

record 'a GeminiContent =
  Role :: string
  Parts :: "'a GeminiPart list"

record ThinkingConfig =
  thinkingType :: string
  BudgetTokens :: int

record ('a, 'f) ClaudeRequest =
  Model :: string
  Messages :: "'a ClaudeMessage list"
  Thinking :: "ThinkingConfig option"
  Temperature :: "'f option"
  TopP :: "'f option"
  TopK :: "int option"
  Stream :: bool

record GeminiThinkingConfig =
  IncludeThoughts :: bool
  ThinkingBudget :: int

record 'f GeminiGenerationConfig =
  MaxOutputTokens :: int
  StopSequences :: "string list"
  GenThinkingConfig :: "GeminiThinkingConfig option"
  GenTemperature :: "'f option"
  GenTopP :: "'f option"
  GenTopK :: "int option"

record ('a, 'f) GeminiRequest =
  Contents :: "'a GeminiContent list"
  GenerationConfig :: "'f GeminiGenerationConfig option"

record ('a, 'f) V1InternalRequest =
  v1Model :: string
  Request :: "('a, 'f) GeminiRequest"

datatype transform_error =
    ParseContentBlocks
  | BuildPartsForMessage nat transform_error
  | BuildContents transform_error

definition dummyThoughtSignature :: string where
  "dummyThoughtSignature = ''skip_thought_signature_validator''"

text \<open>The zero value of \<open>GeminiPart\<close>; a composite literal sets the fields it names.\<close>

definition zeroPart :: "'a GeminiPart" where
  "zeroPart = \<lparr>Text = '''', Thought = False, ThoughtSignature = '''', InlineData = None,
     FunctionCall = None, FunctionResponse = None\<rparr>"

definition parseToolResultContent :: "(string \<Rightarrow> string) \<Rightarrow> raw_content \<Rightarrow> bool \<Rightarrow> string" where
  "parseToolResultContent TrimSpace content isError =
     (case content of
        RawAbsent \<Rightarrow>
          if isError then ''Tool execution failed with no output.''
          else ''Command executed successfully.''
      | RawString str \<Rightarrow>
          if TrimSpace str = '''' then
            (if isError then ''Tool execution failed with no output.''
             else ''Command executed successfully.'')
          else str
      | RawArray arr \<Rightarrow>
          (let texts = List.map_filter (\<lambda>item. item) arr;
               result = Join texts [CHR 0x0A]
           in if TrimSpace result = '''' then
                (if isError then ''Tool execution failed with no output.''
                 else ''Command executed successfully.'')
              else result)
      | RawOther raw \<Rightarrow> raw)"

text \<open>
  One turn of the loop over the blocks in \<open>buildParts\<close>: the parts the block appends,
  whether it was a thinking block downgraded to text, and the id-to-name map after it.
\<close>

definition buildBlock ::
  "(string \<Rightarrow> string) \<Rightarrow> bool \<Rightarrow> (string \<rightharpoonup> string) \<Rightarrow> 'a ContentBlock \<Rightarrow>
     'a GeminiPart list \<times> bool \<times> (string \<rightharpoonup> string)" where
  "buildBlock TrimSpace allowDummyThought toolIDToName block =
     (if blockType block = ''text'' then
        (if blockText block \<noteq> ''(no content)'' \<and> TrimSpace (blockText block) \<noteq> ''''
         then ([zeroPart\<lparr>Text := blockText block\<rparr>], False, toolIDToName)
         else ([], False, toolIDToName))
      else if blockType block = ''thinking'' then
        (let part = zeroPart\<lparr>Text := blockThinking block, Thought := True\<rparr> in
         if blockSignature block \<noteq> '''' then
           ([part\<lparr>ThoughtSignature := blockSignature block\<rparr>], False, toolIDToName)
         else if \<not> allowDummyThought then
           (if TrimSpace (blockThinking block) \<noteq> ''''
            then ([zeroPart\<lparr>Text := blockThinking block\<rparr>], True, toolIDToName)
            else ([], True, toolIDToName))
         else ([part\<lparr>ThoughtSignature := dummyThoughtSignature\<rparr>], False, toolIDToName))
      else if blockType block = ''image'' then
        (case blockSource block of
           Some src \<Rightarrow>
             if sourceType src = ''base64''
             then ([zeroPart\<lparr>InlineData :=
                      Some \<lparr>MimeType = MediaType src, Data = sourceData src\<rparr>\<rparr>],
                   False, toolIDToName)
             else ([], False, toolIDToName)
         | None \<Rightarrow> ([], False, toolIDToName))
      else if blockType block = ''tool_use'' then
        (let toolIDToName' =
               (if blockID block \<noteq> '''' \<and> blockName block \<noteq> ''''
                then toolIDToName(blockID block \<mapsto> blockName block) else toolIDToName);
             part = zeroPart\<lparr>FunctionCall :=
                      Some \<lparr>callName = blockName block, Args = blockInput block,
                            callID = blockID block\<rparr>\<rparr>
         in if allowDummyThought then
              ([part\<lparr>ThoughtSignature := dummyThoughtSignature\<rparr>], False, toolIDToName')
            else if blockSignature block \<noteq> '''' \<and> blockSignature block \<noteq> dummyThoughtSignature then
              ([part\<lparr>ThoughtSignature := blockSignature block\<rparr>], False, toolIDToName')
            else ([part], False, toolIDToName'))
      else if blockType block = ''tool_result'' then
        (let funcName =
               (if blockName block = '''' then
                  (case toolIDToName (blockToolUseID block) of
                     Some name \<Rightarrow> name
                   | None \<Rightarrow> blockToolUseID block)
                else blockName block);
             resultContent = parseToolResultContent TrimSpace (blockContent block) (blockIsError block)
         in ([zeroPart\<lparr>FunctionResponse :=
                 Some \<lparr>responseName = funcName, Response = resultContent,
                       responseID = blockToolUseID block\<rparr>\<rparr>],
             False, toolIDToName))
      else ([], False, toolIDToName))"

fun buildPartsLoop ::
  "(string \<Rightarrow> string) \<Rightarrow> bool \<Rightarrow> 'a ContentBlock list \<Rightarrow>
     'a GeminiPart list \<Rightarrow> bool \<Rightarrow> (string \<rightharpoonup> string) \<Rightarrow>
     'a GeminiPart list \<times> bool \<times> (string \<rightharpoonup> string)" where
  "buildPartsLoop TrimSpace allowDummyThought [] parts strippedThinking toolIDToName =
     (parts, strippedThinking, toolIDToName)"
| "buildPartsLoop TrimSpace allowDummyThought (block # blocks) parts strippedThinking toolIDToName =
     (case buildBlock TrimSpace allowDummyThought toolIDToName block of
        (new, stripped, toolIDToName') \<Rightarrow>
          buildPartsLoop TrimSpace allowDummyThought blocks (parts @ new)
            (strippedThinking \<or> stripped) toolIDToName')"

definition buildParts ::
  "(string \<Rightarrow> string) \<Rightarrow> 'a message_content \<Rightarrow> (string \<rightharpoonup> string) \<Rightarrow> bool \<Rightarrow>
     transform_error + ('a GeminiPart list \<times> bool \<times> (string \<rightharpoonup> string))" where
  "buildParts TrimSpace content toolIDToName allowDummyThought =
     (case content of
        ContentText textContent \<Rightarrow>
          if textContent \<noteq> ''(no content)'' \<and> TrimSpace textContent \<noteq> ''''
          then Inr ([zeroPart\<lparr>Text := TrimSpace textContent\<rparr>], False, toolIDToName)
          else Inr ([], False, toolIDToName)
      | ContentBlocks blocks \<Rightarrow>
          Inr (buildPartsLoop TrimSpace allowDummyThought blocks [] False toolIDToName)
      | ContentInvalid \<Rightarrow> Inl ParseContentBlocks)"

text \<open>
  The loop of \<open>buildContents\<close> over the messages from index \<open>i\<close> on. The message at hand
  is the last one, \<open>i == len(messages)-1\<close>, exactly when no message follows it.
\<close>

fun buildContentsLoop ::
  "(string \<Rightarrow> string) \<Rightarrow> nat \<Rightarrow> 'a ClaudeMessage list \<Rightarrow> (string \<rightharpoonup> string) \<Rightarrow> bool \<Rightarrow> bool \<Rightarrow>
     'a GeminiContent list \<Rightarrow> bool \<Rightarrow>
     transform_error + ('a GeminiContent list \<times> bool \<times> (string \<rightharpoonup> string))" where
  "buildContentsLoop TrimSpace i [] toolIDToName isThinkingEnabled allowDummyThought
       contents strippedThinking =
     Inr (contents, strippedThinking, toolIDToName)"
| "buildContentsLoop TrimSpace i (msg # rest) toolIDToName isThinkingEnabled allowDummyThought
       contents strippedThinking =
     (let role = (if msgRole msg = ''assistant'' then ''model'' else msgRole msg) in
      case buildParts TrimSpace (msgContent msg) toolIDToName allowDummyThought of
        Inl err \<Rightarrow> Inl (BuildPartsForMessage i err)
      | Inr (parts, strippedThisMsg, toolIDToName') \<Rightarrow>
          (let strippedThinking' = (strippedThinking \<or> strippedThisMsg);
               parts' =
                 (if allowDummyThought \<and> role = ''model'' \<and> isThinkingEnabled \<and> rest = [] then
                    (let hasThoughtPart = list_ex Thought parts in
                     if \<not> hasThoughtPart \<and> parts \<noteq> [] then
                       zeroPart\<lparr>Text := ''Thinking...'', Thought := True,
                                ThoughtSignature := dummyThoughtSignature\<rparr> # parts
                     else parts)
                  else parts)
           in if parts' = [] then
                buildContentsLoop TrimSpace (Suc i) rest toolIDToName' isThinkingEnabled
                  allowDummyThought contents strippedThinking'
              else
                buildContentsLoop TrimSpace (Suc i) rest toolIDToName' isThinkingEnabled
                  allowDummyThought (contents @ [\<lparr>Role = role, Parts = parts'\<rparr>])
                  strippedThinking'))"

definition buildContents ::
  "(string \<Rightarrow> string) \<Rightarrow> 'a ClaudeMessage list \<Rightarrow> (string \<rightharpoonup> string) \<Rightarrow> bool \<Rightarrow> bool \<Rightarrow>
     transform_error + ('a GeminiContent list \<times> bool \<times> (string \<rightharpoonup> string))" where
  "buildContents TrimSpace messages toolIDToName isThinkingEnabled allowDummyThought =
     buildContentsLoop TrimSpace 0 messages toolIDToName isThinkingEnabled allowDummyThought
       [] False"

text \<open>
  \<open>DefaultStopSequences\<close> is declared outside the source files and is a parameter.
\<close>

definition buildGenerationConfig ::
  "string list \<Rightarrow> ('a, 'f) ClaudeRequest \<Rightarrow> 'f GeminiGenerationConfig" where
  "buildGenerationConfig DefaultStopSequences req =
     (let config = \<lparr>MaxOutputTokens = 64000, StopSequences = DefaultStopSequences,
                     GenThinkingConfig = None, GenTemperature = None, GenTopP = None,
                     GenTopK = None\<rparr>;
          config1 =
            (case Thinking req of
               Some thinking \<Rightarrow>
                 if thinkingType thinking = ''enabled'' then
                   (let tc = \<lparr>IncludeThoughts = True, ThinkingBudget = 0\<rparr> in
                    if BudgetTokens thinking > 0 then
                      (let budget = BudgetTokens thinking;
                           budget' = (if Contains (Model req) ''gemini-2.5-flash'' \<and> budget > 24576
                                      then 24576 else budget)
                       in config\<lparr>GenThinkingConfig := Some (tc\<lparr>ThinkingBudget := budget'\<rparr>)\<rparr>)
                    else config\<lparr>GenThinkingConfig := Some tc\<rparr>)
                 else config
             | None \<Rightarrow> config);
          config2 = (if Temperature req \<noteq> None then config1\<lparr>GenTemperature := Temperature req\<rparr>
                     else config1);
          config3 = (if TopP req \<noteq> None then config2\<lparr>GenTopP := TopP req\<rparr> else config2);
          config4 = (if TopK req \<noteq> None then config3\<lparr>GenTopK := TopK req\<rparr> else config3)
      in config4)"

text \<open>
  The transformer up to \<open>json.Marshal\<close>: the value it serialises. Of the inner request,
  \<open>contents\<close> and \<open>generationConfig\<close> are modelled; the system instruction, the tools, the
  session id and the safety settings are built from other fields of the source request
  and do not enter either of the two.
\<close>

definition TransformClaudeToGeminiWithOptions ::
  "(string \<Rightarrow> string) \<Rightarrow> string list \<Rightarrow> ('a, 'f) ClaudeRequest \<Rightarrow> string \<Rightarrow> string \<Rightarrow>
     transform_error + ('a, 'f) V1InternalRequest" where
  "TransformClaudeToGeminiWithOptions TrimSpace DefaultStopSequences claudeReq projectID mappedModel =
     (let toolIDToName = Map.empty;
          isThinkingEnabled =
            (case Thinking claudeReq of Some t \<Rightarrow> thinkingType t = ''enabled'' | None \<Rightarrow> False);
          allowDummyThought = HasPrefix mappedModel ''gemini-''
      in case buildContents TrimSpace (Messages claudeReq) toolIDToName isThinkingEnabled
                allowDummyThought of
           Inl err \<Rightarrow> Inl (BuildContents err)
         | Inr (contents, strippedThinking, _) \<Rightarrow>
             (let reqForConfig = (if strippedThinking then claudeReq\<lparr>Thinking := None\<rparr>
                                  else claudeReq);
                  generationConfig = buildGenerationConfig DefaultStopSequences reqForConfig;
                  innerRequest = \<lparr>Contents = contents, GenerationConfig = Some generationConfig\<rparr>
              in Inr \<lparr>v1Model = mappedModel, Request = innerRequest\<rparr>))"

definition TransformClaudeToGemini ::
  "(string \<Rightarrow> string) \<Rightarrow> string list \<Rightarrow> ('a, 'f) ClaudeRequest \<Rightarrow> string \<Rightarrow> string \<Rightarrow>
     transform_error + ('a, 'f) V1InternalRequest" where
  "TransformClaudeToGemini TrimSpace DefaultStopSequences claudeReq projectID mappedModel =
     TransformClaudeToGeminiWithOptions TrimSpace DefaultStopSequences claudeReq projectID
       mappedModel"

section \<open>Forwarding engine (AntigravityGatewayService)\<close>

text \<open>
  The collaborators of the engine are given by what they answer. An account answers
  \<open>GetMappedModel\<close> and \<open>GetCredential\<close>. The service holds a token provider (absent, or
  answering \<open>GetAccessToken\<close> with a token or an error), a rate-limit service (present or
  \<open>nil\<close>) and the HTTP upstream, which answers its \<open>k\<close>-th call with a transport error
  or a response. \<open>requestBuilds\<close> says whether \<open>http.NewRequestWithContext\<close> succeeds.
  What a call does besides returning is recorded in \<open>effects\<close>: the number of upstream
  calls, the status codes handed to \<open>HandleUpstreamError\<close>, the attempts after which it
  slept, and what it wrote to the client. Wall-clock values (\<open>Duration\<close>) are left out.
\<close>

record ClaudeUsage =
  InputTokens :: int
  OutputTokens :: int
  CacheCreationInputTokens :: int
  CacheReadInputTokens :: int

record Account =
  GetMappedModel :: "string \<Rightarrow> string"
  GetCredential :: "string \<Rightarrow> string"

record 'b http_response =
  StatusCode :: int
  XRequestID :: string
  Body :: 'b

datatype 'b upstream_reply =
    TransportError
  | Reply "'b http_response"

record 'b AntigravityGatewayService =
  tokenProvider :: "string option option"
  rateLimitService :: bool
  httpUpstream :: "nat \<Rightarrow> 'b upstream_reply"
  requestBuilds :: bool

datatype client_write =
    WriteClaudeError int string string
  | WriteGoogleError int string string
  | WriteTotalTokens int int
  | WriteUpstreamData int
  | SetRequestIDHeader string

record effects =
  upstreamCalls :: nat
  notified :: "int list"
  backoffs :: "nat list"
  written :: "client_write list"

definition noEffects :: effects where
  "noEffects = \<lparr>upstreamCalls = 0, notified = [], backoffs = [], written = []\<rparr>"

record ForwardResult =
  RequestID :: string
  Usage :: ClaudeUsage
  ResultModel :: string
  ResultStream :: bool
  FirstTokenMs :: "int option"

datatype forward_error =
    ParseClaudeRequest
  | TokenProviderNotConfigured
  | GetAccessTokenFailed
  | ProjectIDNotFound
  | TransformRequest transform_error
  | WrapRequestFailed
  | NewRequestFailed
  | ErrorMessage string
  | UpstreamFailoverError int
  | UpstreamError int
  | AntigravityUpstreamError int
  | HandlerError string
  | NilResponse

datatype 'b loop_exit =
    Return forward_error
  | ReturnResult ForwardResult
  | Break "'b http_response"
  | LoopEnd

definition antigravityMaxRetries :: nat where
  "antigravityMaxRetries = 5"

definition antigravitySupportedModels :: "string list" where
  "antigravitySupportedModels =
    [''claude-opus-4-5-thinking'', ''claude-sonnet-4-5'', ''claude-sonnet-4-5-thinking'',
     ''gemini-2.5-flash'', ''gemini-2.5-flash-lite'', ''gemini-2.5-flash-thinking'',
     ''gemini-3-flash'', ''gemini-3-pro-low'', ''gemini-3-pro-high'', ''gemini-3-pro-preview'',
     ''gemini-3-pro-image'']"

definition antigravityModelMapping :: "(string \<times> string) list" where
  "antigravityModelMapping =
    [(''claude-3-5-sonnet-20241022'', ''claude-sonnet-4-5''),
     (''claude-3-5-sonnet-20240620'', ''claude-sonnet-4-5''),
     (''claude-sonnet-4-5-20250929'', ''claude-sonnet-4-5-thinking''),
     (''claude-opus-4'', ''claude-opus-4-5-thinking''),
     (''claude-opus-4-5-20251101'', ''claude-opus-4-5-thinking''),
     (''claude-haiku-4'', ''gemini-3-flash''),
     (''claude-haiku-4-5'', ''gemini-3-flash''),
     (''claude-3-haiku-20240307'', ''gemini-3-flash''),
     (''claude-haiku-4-5-20251001'', ''gemini-3-flash'')]"

definition getMappedModel :: "Account \<Rightarrow> string \<Rightarrow> string" where
  "getMappedModel account requestedModel =
     (let mapped = GetMappedModel account requestedModel in
      if mapped \<noteq> requestedModel then mapped
      else case map_of antigravityModelMapping requestedModel of
             Some mapped' \<Rightarrow> mapped'
           | None \<Rightarrow>
               if HasPrefix requestedModel ''gemini-'' then requestedModel
               else if requestedModel \<in> set antigravitySupportedModels then requestedModel
               else ''claude-sonnet-4-5'')"

definition shouldRetryUpstreamError :: "int \<Rightarrow> bool" where
  "shouldRetryUpstreamError statusCode =
     (statusCode = 429 \<or> statusCode = 500 \<or> statusCode = 502 \<or> statusCode = 503 \<or>
      statusCode = 504 \<or> statusCode = 529)"

definition shouldFailoverUpstreamError :: "int \<Rightarrow> bool" where
  "shouldFailoverUpstreamError statusCode =
     (if statusCode = 401 \<or> statusCode = 403 \<or> statusCode = 429 \<or> statusCode = 529 then True
      else statusCode \<ge> 500)"

definition handleUpstreamError :: "'b AntigravityGatewayService \<Rightarrow> int \<Rightarrow> effects \<Rightarrow> effects" where
  "handleUpstreamError s statusCode eff =
     (if \<not> rateLimitService s then eff
      else eff\<lparr>notified := notified eff @ [statusCode]\<rparr>)"

definition sleepAntigravityBackoff :: "nat \<Rightarrow> effects \<Rightarrow> effects" where
  "sleepAntigravityBackoff attempt eff = eff\<lparr>backoffs := backoffs eff @ [attempt]\<rparr>"

definition doUpstream :: "effects \<Rightarrow> effects" where
  "doUpstream eff = eff\<lparr>upstreamCalls := Suc (upstreamCalls eff)\<rparr>"

definition writeClaudeError ::
  "int \<Rightarrow> string \<Rightarrow> string \<Rightarrow> effects \<Rightarrow> forward_error \<times> effects" where
  "writeClaudeError status errType message eff =
     (ErrorMessage message, eff\<lparr>written := written eff @ [WriteClaudeError status errType message]\<rparr>)"

definition writeMappedClaudeError :: "int \<Rightarrow> effects \<Rightarrow> forward_error \<times> effects" where
  "writeMappedClaudeError upstreamStatus eff =
     (let (statusCode, errType, errMsg) =
        (if upstreamStatus = 400 then (400, ''invalid_request_error'', ''Invalid request'')
         else if upstreamStatus = 401 then (502, ''authentication_error'', ''Upstream authentication failed'')
         else if upstreamStatus = 403 then (502, ''permission_error'', ''Upstream access forbidden'')
         else if upstreamStatus = 429 then (429, ''rate_limit_error'', ''Upstream rate limit exceeded'')
         else if upstreamStatus = 529 then (503, ''overloaded_error'', ''Upstream service overloaded'')
         else (502, ''upstream_error'', ''Upstream request failed''))
      in (UpstreamError upstreamStatus,
          eff\<lparr>written := written eff @ [WriteClaudeError statusCode errType errMsg]\<rparr>))"

definition writeGoogleError :: "int \<Rightarrow> string \<Rightarrow> effects \<Rightarrow> forward_error \<times> effects" where
  "writeGoogleError status message eff =
     (let statusStr =
        (if status = 400 then ''INVALID_ARGUMENT''
         else if status = 404 then ''NOT_FOUND''
         else if status = 429 then ''RESOURCE_EXHAUSTED''
         else if status = 500 then ''INTERNAL''
         else if status = 502 \<or> status = 503 then ''UNAVAILABLE''
         else ''UNKNOWN'')
      in (ErrorMessage message,
          eff\<lparr>written := written eff @ [WriteGoogleError status message statusStr]\<rparr>))"

text \<open>
  The retry loop of \<open>Forward\<close>, from attempt \<open>attempt\<close> on. It ends by returning an
  error, or by \<open>break\<close> with the response that \<open>resp\<close> then holds.
\<close>

function ForwardLoop ::
  "'b AntigravityGatewayService \<Rightarrow> nat \<Rightarrow> effects \<Rightarrow> 'b loop_exit \<times> effects" where
  "ForwardLoop s attempt eff =
     (if attempt \<le> antigravityMaxRetries then
        if \<not> requestBuilds s then (Return NewRequestFailed, eff)
        else
          (let eff1 = doUpstream eff in
           case httpUpstream s (upstreamCalls eff1) of
             TransportError \<Rightarrow>
               if attempt < antigravityMaxRetries then
                 ForwardLoop s (Suc attempt) (sleepAntigravityBackoff attempt eff1)
               else
                 (case writeClaudeError 502 ''upstream_error''
                         ''Upstream request failed after retries'' eff1 of
                    (err, eff2) \<Rightarrow> (Return err, eff2))
           | Reply resp \<Rightarrow>
               if StatusCode resp \<ge> 400 \<and> shouldRetryUpstreamError (StatusCode resp) then
                 if attempt < antigravityMaxRetries then
                   ForwardLoop s (Suc attempt) (sleepAntigravityBackoff attempt eff1)
                 else
                   (let eff2 = (if StatusCode resp = 429
                                then handleUpstreamError s (StatusCode resp) eff1 else eff1)
                    in (Break resp, eff2))
               else (Break resp, eff1))
      else (LoopEnd, eff))"
  by pat_completeness auto
termination
  by (relation "measure (\<lambda>(s, attempt, eff). Suc antigravityMaxRetries - attempt)") auto

declare ForwardLoop.simps [simp del]

text \<open>
  The response paths of a successful exchange read the upstream body through functions
  of the \<open>antigravity\<close> package that are not among the source files, and write to the
  client; they are given by what they return, an error as its message.
\<close>

record 'b response_handlers =
  handleClaudeStreamingResponse :: "'b http_response \<Rightarrow> string \<Rightarrow> string + (ClaudeUsage \<times> int option)"
  handleClaudeNonStreamingResponse :: "'b http_response \<Rightarrow> string \<Rightarrow> string + ClaudeUsage"
  handleGeminiStreamingResponse :: "'b http_response \<Rightarrow> string + (ClaudeUsage option \<times> int option)"
  handleGeminiNonStreamingResponse :: "'b http_response \<Rightarrow> string + ClaudeUsage option"

definition Forward ::
  "(string \<Rightarrow> string) \<Rightarrow> string list \<Rightarrow> 'b AntigravityGatewayService \<Rightarrow>
     'b response_handlers \<Rightarrow> Account \<Rightarrow> ('a, 'f) ClaudeRequest option \<Rightarrow>
     (forward_error + ForwardResult) \<times> effects" where
  "Forward TrimSpace DefaultStopSequences s h account body =
     (case body of
        None \<Rightarrow> (Inl ParseClaudeRequest, noEffects)
      | Some claudeReq \<Rightarrow>
          if TrimSpace (Model claudeReq) = '''' then (Inl (ErrorMessage ''missing model''), noEffects)
          else
            (let originalModel = Model claudeReq;
                 mappedModel = getMappedModel account (Model claudeReq)
             in case tokenProvider s of
                  None \<Rightarrow> (Inl TokenProviderNotConfigured, noEffects)
                | Some None \<Rightarrow> (Inl GetAccessTokenFailed, noEffects)
                | Some (Some accessToken) \<Rightarrow>
                    (let projectID = TrimSpace (GetCredential account ''project_id'') in
                     if projectID = '''' then (Inl ProjectIDNotFound, noEffects)
                     else
                       case TransformClaudeToGemini TrimSpace DefaultStopSequences claudeReq
                              projectID mappedModel of
                         Inl err \<Rightarrow> (Inl (TransformRequest err), noEffects)
                       | Inr geminiBody \<Rightarrow>
                           (case ForwardLoop s 1 noEffects of
                              (Return err, eff) \<Rightarrow> (Inl err, eff)
                            | (ReturnResult res, eff) \<Rightarrow> (Inr res, eff)
                            | (LoopEnd, eff) \<Rightarrow> (Inl NilResponse, eff)
                            | (Break resp, eff) \<Rightarrow>
                                if StatusCode resp \<ge> 400 then
                                  (let eff1 = handleUpstreamError s (StatusCode resp) eff in
                                   if shouldFailoverUpstreamError (StatusCode resp) then
                                     (Inl (UpstreamFailoverError (StatusCode resp)), eff1)
                                   else
                                     (case writeMappedClaudeError (StatusCode resp) eff1 of
                                        (err, eff2) \<Rightarrow> (Inl err, eff2)))
                                else
                                  (let requestID = XRequestID resp;
                                       eff1 = (if requestID \<noteq> ''''
                                               then eff\<lparr>written := written eff @ [SetRequestIDHeader requestID]\<rparr>
                                               else eff)
                                   in if Stream claudeReq then
                                        (case handleClaudeStreamingResponse h resp originalModel of
                                           Inl err \<Rightarrow> (Inl (HandlerError err), eff1)
                                         | Inr (usage, firstTokenMs) \<Rightarrow>
                                             (Inr \<lparr>RequestID = requestID, Usage = usage,
                                                   ResultModel = originalModel,
                                                   ResultStream = Stream claudeReq,
                                                   FirstTokenMs = firstTokenMs\<rparr>, eff1))
                                      else
                                        (case handleClaudeNonStreamingResponse h resp originalModel of
                                           Inl err \<Rightarrow> (Inl (HandlerError err), eff1)
                                         | Inr usage \<Rightarrow>
                                             (Inr \<lparr>RequestID = requestID, Usage = usage,
                                                   ResultModel = originalModel,
                                                   ResultStream = Stream claudeReq,
                                                   FirstTokenMs = None\<rparr>, eff1)))))))"

text \<open>
  \<open>ForwardGemini\<close> receives the request body as bytes: empty, not JSON (so that
  \<open>wrapV1InternalRequest\<close> fails), or JSON. \<open>estimateGeminiCountTokens\<close> is declared
  outside the source files and is the parameter \<open>estimate\<close>.
\<close>

datatype 'j request_body =
    EmptyBody
  | MalformedBody
  | JSONBody 'j

definition zeroUsage :: ClaudeUsage where
  "zeroUsage = \<lparr>InputTokens = 0, OutputTokens = 0, CacheCreationInputTokens = 0,
     CacheReadInputTokens = 0\<rparr>"

definition countTokensFallback ::
  "('j request_body \<Rightarrow> int) \<Rightarrow> 'j request_body \<Rightarrow> string \<Rightarrow> string \<Rightarrow> effects \<Rightarrow>
     ForwardResult \<times> effects" where
  "countTokensFallback estimate body requestID originalModel eff =
     (let estimated = estimate body in
      (\<lparr>RequestID = requestID, Usage = zeroUsage, ResultModel = originalModel,
        ResultStream = False, FirstTokenMs = None\<rparr>,
       eff\<lparr>written := written eff @ [WriteTotalTokens 200 estimated]\<rparr>))"

function ForwardGeminiLoop ::
  "('j request_body \<Rightarrow> int) \<Rightarrow> 'b AntigravityGatewayService \<Rightarrow> string \<Rightarrow> string \<Rightarrow>
     'j request_body \<Rightarrow> nat \<Rightarrow> effects \<Rightarrow> 'b loop_exit \<times> effects" where
  "ForwardGeminiLoop estimate s originalModel action body attempt eff =
     (if attempt \<le> antigravityMaxRetries then
        if \<not> requestBuilds s then (Return NewRequestFailed, eff)
        else
          (let eff1 = doUpstream eff in
           case httpUpstream s (upstreamCalls eff1) of
             TransportError \<Rightarrow>
               if attempt < antigravityMaxRetries then
                 ForwardGeminiLoop estimate s originalModel action body (Suc attempt)
                   (sleepAntigravityBackoff attempt eff1)
               else if action = ''countTokens'' then
                 (case countTokensFallback estimate body '''' originalModel eff1 of
                    (res, eff2) \<Rightarrow> (ReturnResult res, eff2))
               else
                 (case writeGoogleError 502 ''Upstream request failed after retries'' eff1 of
                    (err, eff2) \<Rightarrow> (Return err, eff2))
           | Reply resp \<Rightarrow>
               if StatusCode resp \<ge> 400 \<and> shouldRetryUpstreamError (StatusCode resp) then
                 (let eff2 = (if StatusCode resp = 429
                              then handleUpstreamError s (StatusCode resp) eff1 else eff1)
                  in if attempt < antigravityMaxRetries then
                       ForwardGeminiLoop estimate s originalModel action body (Suc attempt)
                         (sleepAntigravityBackoff attempt eff2)
                     else if action = ''countTokens'' then
                       (case countTokensFallback estimate body '''' originalModel eff2 of
                          (res, eff3) \<Rightarrow> (ReturnResult res, eff3))
                     else (Break resp, eff2))
               else (Break resp, eff1))
      else (LoopEnd, eff))"
  by pat_completeness auto
termination
  by (relation "measure (\<lambda>(estimate, s, originalModel, action, body, attempt, eff).
        Suc antigravityMaxRetries - attempt)") auto

declare ForwardGeminiLoop.simps [simp del]

definition ForwardGemini ::
  "(string \<Rightarrow> string) \<Rightarrow> ('j request_body \<Rightarrow> int) \<Rightarrow> 'b AntigravityGatewayService \<Rightarrow>
     'b response_handlers \<Rightarrow> Account \<Rightarrow> string \<Rightarrow> string \<Rightarrow> bool \<Rightarrow> 'j request_body \<Rightarrow>
     (forward_error + ForwardResult) \<times> effects" where
  "ForwardGemini TrimSpace estimate s h account originalModel action stream body =
     (if TrimSpace originalModel = '''' then
        (case writeGoogleError 400 ''Missing model in URL'' noEffects of
           (err, eff) \<Rightarrow> (Inl err, eff))
      else if TrimSpace action = '''' then
        (case writeGoogleError 400 ''Missing action in URL'' noEffects of
           (err, eff) \<Rightarrow> (Inl err, eff))
      else if body = EmptyBody then
        (case writeGoogleError 400 ''Request body is empty'' noEffects of
           (err, eff) \<Rightarrow> (Inl err, eff))
      else if \<not> (action = ''generateContent'' \<or> action = ''streamGenerateContent'' \<or>
                 action = ''countTokens'') then
        (case writeGoogleError 404 (''Unsupported action: '' @ action) noEffects of
           (err, eff) \<Rightarrow> (Inl err, eff))
      else
        (let mappedModel = getMappedModel account originalModel in
         case tokenProvider s of
           None \<Rightarrow> (Inl TokenProviderNotConfigured, noEffects)
         | Some None \<Rightarrow> (Inl GetAccessTokenFailed, noEffects)
         | Some (Some accessToken) \<Rightarrow>
             (let projectID = TrimSpace (GetCredential account ''project_id'') in
              if projectID = '''' then (Inl ProjectIDNotFound, noEffects)
              else if body = MalformedBody then (Inl WrapRequestFailed, noEffects)
              else
                (let upstreamAction = (if action = ''generateContent'' \<and> stream
                                       then ''streamGenerateContent'' else action)
                 in case ForwardGeminiLoop estimate s originalModel action body 1 noEffects of
                      (Return err, eff) \<Rightarrow> (Inl err, eff)
                    | (ReturnResult res, eff) \<Rightarrow> (Inr res, eff)
                    | (LoopEnd, eff) \<Rightarrow> (Inl NilResponse, eff)
                    | (Break resp, eff) \<Rightarrow>
                        (let requestID = XRequestID resp;
                             eff1 = (if requestID \<noteq> ''''
                                     then eff\<lparr>written := written eff @ [SetRequestIDHeader requestID]\<rparr>
                                     else eff)
                         in if StatusCode resp \<ge> 400 then
                              (let eff2 = handleUpstreamError s (StatusCode resp) eff1 in
                               if action = ''countTokens'' then
                                 (case countTokensFallback estimate body requestID originalModel eff2 of
                                    (res, eff3) \<Rightarrow> (Inr res, eff3))
                               else if shouldFailoverUpstreamError (StatusCode resp) then
                                 (Inl (UpstreamFailoverError (StatusCode resp)), eff2)
                               else
                                 (Inl (AntigravityUpstreamError (StatusCode resp)),
                                  eff2\<lparr>written := written eff2 @ [WriteUpstreamData (StatusCode resp)]\<rparr>))
                            else if stream \<or> upstreamAction = ''streamGenerateContent'' then
                              (case handleGeminiStreamingResponse h resp of
                                 Inl err \<Rightarrow> (Inl (HandlerError err), eff1)
                               | Inr (usage, firstTokenMs) \<Rightarrow>
                                   (Inr \<lparr>RequestID = requestID,
                                         Usage = (case usage of None \<Rightarrow> zeroUsage | Some u \<Rightarrow> u),
                                         ResultModel = originalModel, ResultStream = stream,
                                         FirstTokenMs = firstTokenMs\<rparr>, eff1))
                            else
                              (case handleGeminiNonStreamingResponse h resp of
                                 Inl err \<Rightarrow> (Inl (HandlerError err), eff1)
                               | Inr usage \<Rightarrow>
                                   (Inr \<lparr>RequestID = requestID,
                                         Usage = (case usage of None \<Rightarrow> zeroUsage | Some u \<Rightarrow> u),
                                         ResultModel = originalModel, ResultStream = stream,
                                         FirstTokenMs = None\<rparr>, eff1)))))))"

section \<open>Streaming usage (parseClaudeSSEUsage)\<close>

text \<open>
  \<open>parseClaudeSSEUsage\<close> hands the payload of a \<open>data:\<close> line to \<open>json.Unmarshal\<close>
  twice, once for each of its two local structs, and reads a struct only if the call
  returned no error. \<open>json.Unmarshal\<close> is a library function: the two calls are the
  parameters \<open>UnmarshalStart\<close> and \<open>UnmarshalDelta\<close>, which answer \<open>None\<close> for an error
  and otherwise the struct, as its field \<open>Type\<close> and its four counters
  (\<open>Message.Usage\<close> of the first struct, \<open>Usage\<close> of the second). What is proved of
  \<open>parseClaudeSSEUsage\<close> holds for whatever the two calls answer.
\<close>

definition parseClaudeSSEUsage ::
  "('d \<Rightarrow> (string \<times> ClaudeUsage) option) \<Rightarrow> ('d \<Rightarrow> (string \<times> ClaudeUsage) option) \<Rightarrow>
     'd \<Rightarrow> ClaudeUsage \<Rightarrow> ClaudeUsage" where
  "parseClaudeSSEUsage UnmarshalStart UnmarshalDelta data usage =
     (let usage1 =
            (case UnmarshalStart data of
               Some (ty, msgUsage) \<Rightarrow>
                 if ty = ''message_start'' then
                   usage\<lparr>InputTokens := InputTokens msgUsage,
                         CacheCreationInputTokens := CacheCreationInputTokens msgUsage,
                         CacheReadInputTokens := CacheReadInputTokens msgUsage\<rparr>
                 else usage
             | None \<Rightarrow> usage)
      in case UnmarshalDelta data of
           Some (ty, deltaUsage) \<Rightarrow>
             if ty = ''message_delta'' then
               (let usage2 = usage1\<lparr>OutputTokens := OutputTokens deltaUsage\<rparr>;
                    usage3 = (if InputTokens usage2 = 0
                              then usage2\<lparr>InputTokens := InputTokens deltaUsage\<rparr> else usage2);
                    usage4 = (if CacheCreationInputTokens usage3 = 0
                              then usage3\<lparr>CacheCreationInputTokens := CacheCreationInputTokens deltaUsage\<rparr>
                              else usage3);
                    usage5 = (if CacheReadInputTokens usage4 = 0
                              then usage4\<lparr>CacheReadInputTokens := CacheReadInputTokens deltaUsage\<rparr>
                              else usage4)
                in usage5)
             else usage1
         | None \<Rightarrow> usage1)"

text \<open>
  The usage tracking of \<open>handleStreamingResponse\<close> over the lines it reads, each line as
  \<open>unwrapSSELine\<close> hands it on: without the prefix \<open>data: \<close>, or with it and then
  nothing, the sentinel \<open>[DONE]\<close>, or a payload. The snapshot starts at zero. A read or
  write error ends the loop early, so that the lines before it are the ones tracked.
\<close>

datatype 'd sse_payload =
    EmptyPayload
  | DonePayload
  | Payload 'd

datatype 'd sse_line =
    OtherLine string
  | DataLine "'d sse_payload"

fun trackUsage ::
  "('d \<Rightarrow> (string \<times> ClaudeUsage) option) \<Rightarrow> ('d \<Rightarrow> (string \<times> ClaudeUsage) option) \<Rightarrow>
     'd sse_line list \<Rightarrow> ClaudeUsage \<Rightarrow> ClaudeUsage" where
  "trackUsage UnmarshalStart UnmarshalDelta [] usage = usage"
| "trackUsage UnmarshalStart UnmarshalDelta (OtherLine l # rest) usage =
     trackUsage UnmarshalStart UnmarshalDelta rest usage"
| "trackUsage UnmarshalStart UnmarshalDelta (DataLine EmptyPayload # rest) usage =
     trackUsage UnmarshalStart UnmarshalDelta rest usage"
| "trackUsage UnmarshalStart UnmarshalDelta (DataLine DonePayload # rest) usage =
     trackUsage UnmarshalStart UnmarshalDelta rest usage"
| "trackUsage UnmarshalStart UnmarshalDelta (DataLine (Payload data) # rest) usage =
     trackUsage UnmarshalStart UnmarshalDelta rest
       (parseClaudeSSEUsage UnmarshalStart UnmarshalDelta data usage)"

definition streamedUsage ::
  "('d \<Rightarrow> (string \<times> ClaudeUsage) option) \<Rightarrow> ('d \<Rightarrow> (string \<times> ClaudeUsage) option) \<Rightarrow>
     'd sse_line list \<Rightarrow> ClaudeUsage" where
  "streamedUsage UnmarshalStart UnmarshalDelta lines =
     trackUsage UnmarshalStart UnmarshalDelta lines zeroUsage"

subsection \<open>What \<open>json.Unmarshal\<close> answers\<close>

text \<open>
  For the concrete runs, the two calls as \<open>encoding/json\<close> computes them. A payload is
  given as the JSON value its text denotes, \<open>None\<close> when the text is not JSON (a syntax
  error); an object is the list of its members in the order of the text, in which a key
  may occur more than once. A number literal either is an integer or has a fraction or
  an exponent.

  Decoding an object into a struct goes through the members in order. A member is stored
  into the field whose name (its \<open>json\<close> tag) is the key; if there is none, into the
  first field whose name equals the key under case folding; a member that matches no
  field is skipped, whatever its value. Case folding is \<open>strings.EqualFold\<close>, the
  parameter \<open>EqualFold\<close>; \<open>equalFoldASCII\<close> is what it computes on ASCII keys. Storing
  \<open>null\<close> leaves the field as it is. Storing an object into a field that is a struct
  decodes into the struct the field holds, so that a later member adds to what an
  earlier one stored, and overwrites it field by field. A \<open>string\<close> field takes a JSON
  string; an \<open>int\<close> field takes an integer literal within 64 bits; every other value is
  a type error. After a type error the decoder goes on, and returns the error at the
  end: the caller does not read the struct, and the answer is \<open>None\<close>. At the top, \<open>null\<close>
  leaves the struct at its zero value, and a value that is neither \<open>null\<close> nor an object
  is a type error.

  \<open>ClaudeUsage\<close> is declared outside the source files; its fields are read under the
  tags that the second struct of \<open>parseClaudeSSEUsage\<close> spells out for the same four
  counters.
\<close>

datatype jnumber = IntLit int | FracLit

definition equalFoldASCII :: "string \<Rightarrow> string \<Rightarrow> bool" where
  "equalFoldASCII s t = (toUpperASCII s = toUpperASCII t)"

definition fieldFor :: "(string \<Rightarrow> string \<Rightarrow> bool) \<Rightarrow> string list \<Rightarrow> string \<Rightarrow> string option" where
  "fieldFor EqualFold names key =
     (if key \<in> set names then Some key
      else find (\<lambda>name. EqualFold name key) names)"

definition storeString :: "jnumber json \<Rightarrow> string \<Rightarrow> string option" where
  "storeString v field =
     (case v of
        JNull \<Rightarrow> Some field
      | JStr s \<Rightarrow> Some s
      | _ \<Rightarrow> None)"

definition storeInt :: "jnumber json \<Rightarrow> int \<Rightarrow> int option" where
  "storeInt v field =
     (case v of
        JNull \<Rightarrow> Some field
      | JNum (IntLit i) \<Rightarrow>
          if - (2 ^ 63) \<le> i \<and> i < 2 ^ 63 then Some i else None
      | _ \<Rightarrow> None)"

text \<open>The struct of the four counters.\<close>

fun objectUsage ::
  "(string \<Rightarrow> string \<Rightarrow> bool) \<Rightarrow> (string \<times> jnumber json) list \<Rightarrow> ClaudeUsage \<Rightarrow>
     ClaudeUsage option" where
  "objectUsage EqualFold [] u = Some u"
| "objectUsage EqualFold ((key, v) # rest) u =
     (case fieldFor EqualFold
             [''input_tokens'', ''output_tokens'', ''cache_creation_input_tokens'',
              ''cache_read_input_tokens''] key of
        None \<Rightarrow> objectUsage EqualFold rest u
      | Some name \<Rightarrow>
          if name = ''input_tokens'' then
            (case storeInt v (InputTokens u) of
               None \<Rightarrow> None
             | Some i \<Rightarrow> objectUsage EqualFold rest (u\<lparr>InputTokens := i\<rparr>))
          else if name = ''output_tokens'' then
            (case storeInt v (OutputTokens u) of
               None \<Rightarrow> None
             | Some i \<Rightarrow> objectUsage EqualFold rest (u\<lparr>OutputTokens := i\<rparr>))
          else if name = ''cache_creation_input_tokens'' then
            (case storeInt v (CacheCreationInputTokens u) of
               None \<Rightarrow> None
             | Some i \<Rightarrow> objectUsage EqualFold rest (u\<lparr>CacheCreationInputTokens := i\<rparr>))
          else
            (case storeInt v (CacheReadInputTokens u) of
               None \<Rightarrow> None
             | Some i \<Rightarrow> objectUsage EqualFold rest (u\<lparr>CacheReadInputTokens := i\<rparr>)))"

definition storeUsage ::
  "(string \<Rightarrow> string \<Rightarrow> bool) \<Rightarrow> jnumber json \<Rightarrow> ClaudeUsage \<Rightarrow> ClaudeUsage option" where
  "storeUsage EqualFold v field =
     (case v of
        JNull \<Rightarrow> Some field
      | JObj m \<Rightarrow> objectUsage EqualFold m field
      | _ \<Rightarrow> None)"

text \<open>The struct \<open>Message\<close> of \<open>msgStart\<close>, with its one field \<open>Usage\<close>.\<close>

fun objectMessage ::
  "(string \<Rightarrow> string \<Rightarrow> bool) \<Rightarrow> (string \<times> jnumber json) list \<Rightarrow> ClaudeUsage \<Rightarrow>
     ClaudeUsage option" where
  "objectMessage EqualFold [] u = Some u"
| "objectMessage EqualFold ((key, v) # rest) u =
     (case fieldFor EqualFold [''usage''] key of
        None \<Rightarrow> objectMessage EqualFold rest u
      | Some name \<Rightarrow>
          (case storeUsage EqualFold v u of
             None \<Rightarrow> None
           | Some u' \<Rightarrow> objectMessage EqualFold rest u'))"

definition storeMessage ::
  "(string \<Rightarrow> string \<Rightarrow> bool) \<Rightarrow> jnumber json \<Rightarrow> ClaudeUsage \<Rightarrow> ClaudeUsage option" where
  "storeMessage EqualFold v field =
     (case v of
        JNull \<Rightarrow> Some field
      | JObj m \<Rightarrow> objectMessage EqualFold m field
      | _ \<Rightarrow> None)"

text \<open>The struct \<open>msgStart\<close>: \<open>Type\<close> and \<open>Message\<close>.\<close>

fun objectMsgStart ::
  "(string \<Rightarrow> string \<Rightarrow> bool) \<Rightarrow> (string \<times> jnumber json) list \<Rightarrow> string \<times> ClaudeUsage \<Rightarrow>
     (string \<times> ClaudeUsage) option" where
  "objectMsgStart EqualFold [] (ty, u) = Some (ty, u)"
| "objectMsgStart EqualFold ((key, v) # rest) (ty, u) =
     (case fieldFor EqualFold [''type'', ''message''] key of
        None \<Rightarrow> objectMsgStart EqualFold rest (ty, u)
      | Some name \<Rightarrow>
          if name = ''type'' then
            (case storeString v ty of
               None \<Rightarrow> None
             | Some ty' \<Rightarrow> objectMsgStart EqualFold rest (ty', u))
          else
            (case storeMessage EqualFold v u of
               None \<Rightarrow> None
             | Some u' \<Rightarrow> objectMsgStart EqualFold rest (ty, u')))"

definition decodeMsgStart ::
  "(string \<Rightarrow> string \<Rightarrow> bool) \<Rightarrow> jnumber json option \<Rightarrow> (string \<times> ClaudeUsage) option" where
  "decodeMsgStart EqualFold data =
     (case data of
        None \<Rightarrow> None
      | Some JNull \<Rightarrow> Some ('''', zeroUsage)
      | Some (JObj m) \<Rightarrow> objectMsgStart EqualFold m ('''', zeroUsage)
      | Some _ \<Rightarrow> None)"

text \<open>The struct \<open>msgDelta\<close>: \<open>Type\<close> and \<open>Usage\<close>.\<close>

fun objectMsgDelta ::
  "(string \<Rightarrow> string \<Rightarrow> bool) \<Rightarrow> (string \<times> jnumber json) list \<Rightarrow> string \<times> ClaudeUsage \<Rightarrow>
     (string \<times> ClaudeUsage) option" where
  "objectMsgDelta EqualFold [] (ty, u) = Some (ty, u)"
| "objectMsgDelta EqualFold ((key, v) # rest) (ty, u) =
     (case fieldFor EqualFold [''type'', ''usage''] key of
        None \<Rightarrow> objectMsgDelta EqualFold rest (ty, u)
      | Some name \<Rightarrow>
          if name = ''type'' then
            (case storeString v ty of
               None \<Rightarrow> None
             | Some ty' \<Rightarrow> objectMsgDelta EqualFold rest (ty', u))
          else
            (case storeUsage EqualFold v u of
               None \<Rightarrow> None
             | Some u' \<Rightarrow> objectMsgDelta EqualFold rest (ty, u')))"

definition decodeMsgDelta ::
  "(string \<Rightarrow> string \<Rightarrow> bool) \<Rightarrow> jnumber json option \<Rightarrow> (string \<times> ClaudeUsage) option" where
  "decodeMsgDelta EqualFold data =
     (case data of
        None \<Rightarrow> None
      | Some JNull \<Rightarrow> Some ('''', zeroUsage)
      | Some (JObj m) \<Rightarrow> objectMsgDelta EqualFold m ('''', zeroUsage)
      | Some _ \<Rightarrow> None)"

section \<open>Properties of a schema tree\<close>

text \<open>
  \<open>requiredWithinProperties m\<close>: if the object \<open>m\<close> has an array under \<open>required\<close>, the
  array is not empty and each name it lists is a key of the object under \<open>properties\<close>
  beside it. \<open>requiredSound v\<close>: this holds of every object in the tree \<open>v\<close>.
\<close>

definition requiredWithinProperties :: "(string \<times> 'n json) list \<Rightarrow> bool" where
  "requiredWithinProperties m =
     (case map_of m ''required'' of
        Some (JArr required) \<Rightarrow>
          required \<noteq> [] \<and>
          list_all (\<lambda>r. case r of
                          JStr name \<Rightarrow>
                            (case map_of m ''properties'' of
                               Some (JObj props) \<Rightarrow> hasKey props name
                             | _ \<Rightarrow> False)
                        | _ \<Rightarrow> True) required
      | _ \<Rightarrow> True)"

fun requiredSound :: "'n json \<Rightarrow> bool"
  and requiredSoundMap :: "(string \<times> 'n json) list \<Rightarrow> bool"
  and requiredSoundArray :: "'n json list \<Rightarrow> bool"
where
  "requiredSound (JObj m) = (requiredWithinProperties m \<and> requiredSoundMap m)"
| "requiredSound (JArr xs) = requiredSoundArray xs"
| "requiredSound JNull = True"
| "requiredSound (JBool b) = True"
| "requiredSound (JNum n) = True"
| "requiredSound (JStr s) = True"
| "requiredSoundMap [] = True"
| "requiredSoundMap ((k, v) # rest) = (requiredSound v \<and> requiredSoundMap rest)"
| "requiredSoundArray [] = True"
| "requiredSoundArray (x # xs) = (requiredSound x \<and> requiredSoundArray xs)"

section \<open>Properties of a message\<close>

text \<open>
  \<open>reducesToNothing\<close>: the blocks that claim C10 lists as leaving no part: a text block
  whose text is the sentinel or blank, an image whose source is missing or not base64,
  and a block of a type the transformer does not know. \<open>messageParts\<close>: the parts that
  \<open>buildParts\<close> makes of a message (none when it fails); how many there are does not
  depend on the id-to-name map.
\<close>

definition reducesToNothing :: "(string \<Rightarrow> string) \<Rightarrow> 'a ContentBlock \<Rightarrow> bool" where
  "reducesToNothing TrimSpace block =
     (if blockType block = ''text'' then
        blockText block = ''(no content)'' \<or> TrimSpace (blockText block) = ''''
      else if blockType block = ''image'' then
        (case blockSource block of None \<Rightarrow> True | Some src \<Rightarrow> sourceType src \<noteq> ''base64'')
      else blockType block \<noteq> ''thinking'' \<and> blockType block \<noteq> ''tool_use'' \<and>
           blockType block \<noteq> ''tool_result'')"

definition messageParts ::
  "(string \<Rightarrow> string) \<Rightarrow> bool \<Rightarrow> 'a ClaudeMessage \<Rightarrow> 'a GeminiPart list" where
  "messageParts TrimSpace allowDummyThought msg =
     (case buildParts TrimSpace (msgContent msg) Map.empty allowDummyThought of
        Inr (parts, _, _) \<Rightarrow> parts
      | Inl _ \<Rightarrow> [])"

definition targetRole :: "'a ClaudeMessage \<Rightarrow> string" where
  "targetRole msg = (if msgRole msg = ''assistant'' then ''model'' else msgRole msg)"

text \<open>
  \<open>withDummy final parts\<close>: what the loop of \<open>buildContents\<close> makes of the parts of a
  message, \<open>final\<close> being the condition under which it may prepend the synthetic
  thought part.
\<close>

definition withDummy :: "bool \<Rightarrow> 'a GeminiPart list \<Rightarrow> 'a GeminiPart list" where
  "withDummy final parts =
     (if final then
        (if \<not> list_ex Thought parts \<and> parts \<noteq> [] then
           zeroPart\<lparr>Text := ''Thinking...'', Thought := True,
                    ThoughtSignature := dummyThoughtSignature\<rparr> # parts
         else parts)
      else parts)"

section \<open>A stub upstream for concrete runs\<close>

text \<open>
  The inputs of the concrete runs below, as a test of the engine would set them up: an
  account without a model override and with a project id, a non-streaming request for
  \<open>claude-sonnet-4-5\<close>, a service whose upstream answers its \<open>k\<close>-th call with \<open>replies k\<close> and
  whose rate-limit service is present, and response paths that succeed.
\<close>

definition stubAccount :: Account where
  "stubAccount =
     \<lparr>GetMappedModel = (\<lambda>requestedModel. requestedModel),
      GetCredential = (\<lambda>key. if key = ''project_id'' then ''project-1'' else '''')\<rparr>"

definition stubRequest :: "(unit, unit) ClaudeRequest" where
  "stubRequest =
     \<lparr>Model = ''claude-sonnet-4-5'',
      Messages = [\<lparr>msgRole = ''user'', msgContent = ContentText ''hello''\<rparr>],
      Thinking = None, Temperature = None, TopP = None, TopK = None, Stream = False\<rparr>"

definition stubResponse :: "int \<Rightarrow> unit http_response" where
  "stubResponse status = \<lparr>StatusCode = status, XRequestID = '''', Body = ()\<rparr>"

definition stubService :: "(nat \<Rightarrow> unit upstream_reply) \<Rightarrow> unit AntigravityGatewayService" where
  "stubService replies =
     \<lparr>tokenProvider = Some (Some ''token''), rateLimitService = True,
      httpUpstream = replies, requestBuilds = True\<rparr>"

definition stubHandlers :: "unit response_handlers" where
  "stubHandlers =
     \<lparr>handleClaudeStreamingResponse = (\<lambda>resp originalModel. Inr (zeroUsage, Some 0)),
      handleClaudeNonStreamingResponse = (\<lambda>resp originalModel. Inr zeroUsage),
      handleGeminiStreamingResponse = (\<lambda>resp. Inr (Some zeroUsage, Some 0)),
      handleGeminiNonStreamingResponse = (\<lambda>resp. Inr (Some zeroUsage))\<rparr>"

text \<open>The zero value of \<open>ContentBlock\<close>, for writing blocks down field by field.\<close>

definition zeroBlock :: "unit ContentBlock" where
  "zeroBlock =
     \<lparr>blockType = '''', blockText = '''', blockThinking = '''', blockSignature = '''',
      blockSource = None, blockID = '''', blockName = '''', blockInput = (),
      blockToolUseID = '''', blockContent = RawAbsent, blockIsError = False\<rparr>"

section \<open>The library functions on ASCII text\<close>

lemma upperByte_idem: "upperByte (upperByte c) = upperByte c"
  by (simp add: upperByte_def)

lemma toUpperASCII_idem: "toUpperASCII (toUpperASCII s) = toUpperASCII s"
  by (simp add: toUpperASCII_def upperByte_idem)

lemma toUpperASCII_STRING: "toUpperASCII ''STRING'' = ''STRING''"
  by (simp add: toUpperASCII_def upperByte_def)

lemma toUpperASCII_OBJECT: "toUpperASCII ''OBJECT'' = ''OBJECT''"
  by (simp add: toUpperASCII_def upperByte_def)

section \<open>The schema sanitizer is idempotent\<close>

lemma cleanTypeValue_idem:
  assumes "\<And>s. up (up s) = up s" "up ''STRING'' = ''STRING''"
  shows "cleanTypeValue up (cleanTypeValue up v) = cleanTypeValue up v"
  using assms by (cases v) (auto split: option.splits)

lemma special_keys_not_excluded:
  "''type'' \<notin> set excludedSchemaKeys"
  "''format'' \<notin> set excludedSchemaKeys"
  "''additionalProperties'' \<notin> set excludedSchemaKeys"
  "''required'' \<notin> set excludedSchemaKeys"
  "''properties'' \<notin> set excludedSchemaKeys"
  by (simp_all add: excludedSchemaKeys_def)

lemma cleanSchemaMap_idem_step:
  assumes up: "\<And>s. up (up s) = up s" "up ''STRING'' = ''STRING''"
    and v: "cleanSchemaValue up (cleanSchemaValue up v) = cleanSchemaValue up v"
    and rest: "cleanSchemaMap up (cleanSchemaMap up rest) = cleanSchemaMap up rest"
  shows "cleanSchemaMap up (cleanSchemaMap up ((k, v) # rest)) = cleanSchemaMap up ((k, v) # rest)"
proof (cases "k \<in> set excludedSchemaKeys")
  case True
  then show ?thesis using rest by simp
next
  case nex: False
  show ?thesis
  proof (cases "k = ''type''")
    case True
    then show ?thesis using rest nex by (simp add: cleanTypeValue_idem[OF up])
  next
    case nt: False
    show ?thesis
    proof (cases "k = ''format''")
      case True
      then show ?thesis using rest nex nt by (cases v) simp_all
    next
      case nf: False
      show ?thesis
      proof (cases "k = ''additionalProperties''")
        case True
        then show ?thesis using rest nex nt nf by (cases v) simp_all
      next
        case False
        then show ?thesis using rest nex nt nf v by simp
      qed
    qed
  qed
qed

lemma cleanSchemaValue_idem:
  assumes up: "\<And>s. up (up s) = up s" "up ''STRING'' = ''STRING''"
  shows "cleanSchemaValue up (cleanSchemaValue up (v::'n json)) = cleanSchemaValue up v"
proof (induction v)
  case (JArr xs)
  have "cleanSchemaArray up (cleanSchemaArray up xs) = cleanSchemaArray up xs"
    using JArr by (induction xs) simp_all
  then show ?case by simp
next
  case (JObj m)
  have "cleanSchemaMap up (cleanSchemaMap up m) = cleanSchemaMap up m"
    using JObj
  proof (induction m)
    case Nil
    then show ?case by simp
  next
    case (Cons kv m)
    obtain k v where kv: "kv = (k, v)" by (cases kv)
    have "cleanSchemaValue up (cleanSchemaValue up v) = cleanSchemaValue up v"
      using Cons.prems[of kv v] kv by simp
    moreover have "cleanSchemaMap up (cleanSchemaMap up m) = cleanSchemaMap up m"
    proof (rule Cons.IH)
      fix xa xaa
      assume "xa \<in> set m" "xaa \<in> Basic_BNFs.snds xa"
      then show "cleanSchemaValue up (cleanSchemaValue up xaa) = cleanSchemaValue up xaa"
        using Cons.prems[of xa xaa] by simp
    qed
    ultimately show ?case
      unfolding kv by (rule cleanSchemaMap_idem_step[OF up])
  qed
  then show ?case by simp
qed simp_all

lemma cleanSchemaMap_update_type:
  "cleanSchemaMap up (AList.update ''type'' v al) =
     AList.update ''type'' (cleanTypeValue up v) (cleanSchemaMap up al)"
proof (induction al)
  case Nil
  show ?case by (simp add: special_keys_not_excluded)
next
  case (Cons kv al)
  obtain k w where kv: "kv = (k, w)" by (cases kv)
  show ?case
  proof (cases "k = ''type''")
    case True
    then show ?thesis using kv by (simp add: special_keys_not_excluded)
  next
    case False
    then show ?thesis using kv Cons.IH by (simp split: json.splits)
  qed
qed

lemma cleanSchemaMap_update_plain:
  assumes "k \<notin> set excludedSchemaKeys" "k \<noteq> ''type''" "k \<noteq> ''format''"
    "k \<noteq> ''additionalProperties''"
  shows "cleanSchemaMap up (AList.update k v al) =
     AList.update k (cleanSchemaValue up v) (cleanSchemaMap up al)"
proof (induction al)
  case Nil
  show ?case using assms by simp
next
  case (Cons kv al)
  obtain k' w where kv: "kv = (k', w)" by (cases kv)
  show ?case
  proof (cases "k' = k")
    case True
    then show ?thesis using kv assms by simp
  next
    case False
    then show ?thesis using kv Cons.IH assms by (simp split: json.splits)
  qed
qed

lemma cleanSchemaMap_delete:
  "cleanSchemaMap up (AList.delete k al) = AList.delete k (cleanSchemaMap up al)"
proof (induction al)
  case Nil
  show ?case by simp
next
  case (Cons kv al)
  obtain k' w where kv: "kv = (k', w)" by (cases kv)
  show ?case using kv Cons.IH by (simp split: json.splits)
qed

lemma cleanSchemaArray_strings:
  "list_all (\<lambda>r. case r of JStr n \<Rightarrow> True | _ \<Rightarrow> False) xs \<Longrightarrow> cleanSchemaArray up xs = xs"
  by (induction xs) (auto split: json.splits)

lemma validRequired_strings:
  "list_all (\<lambda>r. case r of JStr n \<Rightarrow> True | _ \<Rightarrow> False)
     (filter (\<lambda>r. case r of JStr reqName \<Rightarrow> hasKey props reqName | _ \<Rightarrow> False) required)"
  by (auto simp: list_all_iff split: json.splits)

lemma update_same: "map_of al k = Some v \<Longrightarrow> AList.update k v al = al"
  by (induction al) (auto split: if_splits)

lemma cleanJSONSchema_unfold:
  assumes clean: "cleanSchemaMap up X = X"
    and ty: "map_of X ''type'' = Some t"
    and pr: "map_of X ''properties'' = Some p"
  shows "cleanJSONSchema up (Some X) = Some
               (case map_of X ''required'' of
                  Some (JArr required) \<Rightarrow>
                    (case map_of X ''properties'' of
                       Some (JObj props) \<Rightarrow>
                         let validRequired =
                               filter (\<lambda>r. case r of JStr reqName \<Rightarrow> hasKey props reqName
                                                     | _ \<Rightarrow> False) required
                         in if validRequired \<noteq> []
                            then AList.update ''required'' (JArr validRequired) X
                            else AList.delete ''required'' X
                     | _ \<Rightarrow> X)
                | _ \<Rightarrow> X)"
  unfolding cleanJSONSchema_def using clean ty pr
  by (simp add: hasKey_def del: cleanSchemaMap.simps)

lemma cleanJSONSchema_fixed:
  assumes clean: "cleanSchemaMap up X = X"
    and ty: "map_of X ''type'' = Some t"
    and pr: "map_of X ''properties'' = Some p"
    and stable: "\<And>required props. map_of X ''required'' = Some (JArr required) \<Longrightarrow>
        p = JObj props \<Longrightarrow>
        required \<noteq> [] \<and> filter (\<lambda>r. case r of JStr reqName \<Rightarrow> hasKey props reqName | _ \<Rightarrow> False) required = required"
  shows "cleanJSONSchema up (Some X) = Some X"
proof (cases "map_of X ''required''")
  case None
  then show ?thesis by (simp add: cleanJSONSchema_unfold[OF clean ty pr])
next
  case (Some r)
  show ?thesis
  proof (cases r)
    case (JArr required)
    show ?thesis
    proof (cases p)
      case (JObj props)
      have "required \<noteq> [] \<and> filter (\<lambda>r. case r of JStr reqName \<Rightarrow> hasKey props reqName | _ \<Rightarrow> False) required = required"
        using stable Some JArr JObj by simp
      moreover have "AList.update ''required'' (JArr required) X = X"
        using Some JArr by (simp add: update_same)
      ultimately show ?thesis
        using Some JArr JObj pr by (simp add: cleanJSONSchema_unfold[OF clean ty pr])
    qed (use Some JArr pr in \<open>simp_all add: cleanJSONSchema_unfold[OF clean ty pr]\<close>)
  qed (use Some in \<open>simp_all add: cleanJSONSchema_unfold[OF clean ty pr]\<close>)
qed

lemma hasKey_iff: "hasKey m k \<longleftrightarrow> map_of m k \<noteq> None"
  by (simp add: hasKey_def split: option.splits)

lemma filter_valid_idem:
  "filter P (filter P xs) = filter P xs"
  by simp

text \<open>
  Claim C8. Cleaning a cleaned schema changes nothing:
  \<open>Clean(Clean(s)) = Clean(s)\<close> for every schema \<open>s\<close>, the \<open>nil\<close> schema included.
  Of \<open>strings.ToUpper\<close> the proof uses that upper-casing twice is upper-casing once
  and that it leaves the two type names the sanitizer writes itself as they are.
\<close>

theorem cleanJSONSchema_idempotent:
  assumes up: "\<And>s. ToUpper (ToUpper s) = ToUpper s"
    "ToUpper ''STRING'' = ''STRING''" "ToUpper ''OBJECT'' = ''OBJECT''"
  shows "cleanJSONSchema ToUpper (cleanJSONSchema ToUpper s) = cleanJSONSchema ToUpper s"
proof (cases s)
  case None
  then show ?thesis by (simp add: cleanJSONSchema_def)
next
  case (Some m)
  define R where "R = cleanSchemaMap ToUpper m"
  define R1 where "R1 = (if \<not> hasKey R ''type'' then AList.update ''type'' (JStr ''OBJECT'') R else R)"
  define R2 where "R2 = (if \<not> hasKey R1 ''properties'' then AList.update ''properties'' (JObj []) R1 else R1)"
  have cR: "cleanSchemaMap ToUpper R = R"
    unfolding R_def using cleanSchemaValue_idem[OF up(1,2), of "JObj m"] by simp
  have cR1: "cleanSchemaMap ToUpper R1 = R1"
    unfolding R1_def using cR up(3) by (simp add: cleanSchemaMap_update_type)
  have cR2: "cleanSchemaMap ToUpper R2 = R2"
    unfolding R2_def using cR1
    by (simp add: cleanSchemaMap_update_plain special_keys_not_excluded)
  have ty1: "map_of R1 ''type'' \<noteq> None"
    unfolding R1_def by (auto simp: hasKey_iff update_conv')
  have ty2: "map_of R2 ''type'' \<noteq> None"
    unfolding R2_def using ty1 by (auto simp: update_conv')
  have pr2: "map_of R2 ''properties'' \<noteq> None"
    unfolding R2_def by (auto simp: hasKey_iff update_conv')
  obtain t p where t: "map_of R2 ''type'' = Some t" and p: "map_of R2 ''properties'' = Some p"
    using ty2 pr2 by auto
  have first: "cleanJSONSchema ToUpper (Some m) = cleanJSONSchema ToUpper (Some R2)"
    unfolding cleanJSONSchema_unfold[OF cR2 t p]
    unfolding cleanJSONSchema_def R2_def R1_def R_def Let_def
    by (simp del: cleanSchemaMap.simps)
  let ?ok = "\<lambda>props r. case r of JStr reqName \<Rightarrow> hasKey props reqName | _ \<Rightarrow> False"
  have "cleanJSONSchema ToUpper (cleanJSONSchema ToUpper (Some R2)) = cleanJSONSchema ToUpper (Some R2)"
  proof (cases "\<exists>required props. map_of R2 ''required'' = Some (JArr required) \<and> p = JObj props")
    case False
    then have eq: "cleanJSONSchema ToUpper (Some R2) = Some R2"
      unfolding cleanJSONSchema_unfold[OF cR2 t p] using p
      by (auto split: option.splits json.splits)
    have "cleanJSONSchema ToUpper (Some R2) = Some R2"
      by (rule eq)
    then show ?thesis by simp
  next
    case True
    then obtain required props where
      req: "map_of R2 ''required'' = Some (JArr required)" and props: "p = JObj props"
      by blast
    define valid where "valid = filter (?ok props) required"
    show ?thesis
    proof (cases "valid = []")
      case True
      have eq: "cleanJSONSchema ToUpper (Some R2) = Some (AList.delete ''required'' R2)"
        unfolding cleanJSONSchema_unfold[OF cR2 t p] using req p props True
        by (simp add: valid_def)
      have "cleanJSONSchema ToUpper (Some (AList.delete ''required'' R2)) = Some (AList.delete ''required'' R2)"
      proof (rule cleanJSONSchema_fixed)
        show "cleanSchemaMap ToUpper (AList.delete ''required'' R2) = AList.delete ''required'' R2"
          using cR2 by (simp add: cleanSchemaMap_delete)
        show "map_of (AList.delete ''required'' R2) ''type'' = Some t"
          using t by (simp add: delete_conv')
        show "map_of (AList.delete ''required'' R2) ''properties'' = Some p"
          using p by (simp add: delete_conv')
      next
        fix required' props'
        assume "map_of (AList.delete ''required'' R2) ''required'' = Some (JArr required')"
        then show "required' \<noteq> [] \<and> filter (?ok props') required' = required'"
          by (simp add: delete_conv')
      qed
      then show ?thesis using eq by simp
    next
      case False
      have eq: "cleanJSONSchema ToUpper (Some R2) = Some (AList.update ''required'' (JArr valid) R2)"
        unfolding cleanJSONSchema_unfold[OF cR2 t p] using req p props False
        by (simp add: valid_def)
      have "cleanJSONSchema ToUpper (Some (AList.update ''required'' (JArr valid) R2)) =
          Some (AList.update ''required'' (JArr valid) R2)"
      proof (rule cleanJSONSchema_fixed)
        have "cleanSchemaArray ToUpper valid = valid"
          unfolding valid_def by (rule cleanSchemaArray_strings[OF validRequired_strings])
        then show "cleanSchemaMap ToUpper (AList.update ''required'' (JArr valid) R2) =
            AList.update ''required'' (JArr valid) R2"
          using cR2 by (simp add: cleanSchemaMap_update_plain special_keys_not_excluded)
        show "map_of (AList.update ''required'' (JArr valid) R2) ''type'' = Some t"
          using t by (simp add: update_conv')
        show "map_of (AList.update ''required'' (JArr valid) R2) ''properties'' = Some p"
          using p by (simp add: update_conv')
      next
        fix required' props'
        assume "map_of (AList.update ''required'' (JArr valid) R2) ''required'' = Some (JArr required')"
          and "p = JObj props'"
        then have eqs: "required' = valid" "props' = props"
          using props by (simp_all add: update_conv')
        have "filter (?ok props) valid = valid"
          unfolding valid_def by (rule filter_valid_idem)
        then show "required' \<noteq> [] \<and> filter (?ok props') required' = required'"
          unfolding eqs using False by simp
      qed
      then show ?thesis using eq by simp
    qed
  qed
  then show ?thesis using first Some by simp
qed

theorem cleanJSONSchema_idempotent_witness:
  "(\<forall>s. toUpperASCII (toUpperASCII s) = toUpperASCII s) \<and>
   toUpperASCII ''STRING'' = ''STRING'' \<and> toUpperASCII ''OBJECT'' = ''OBJECT'' \<and>
   cleanJSONSchema toUpperASCII
     (Some [(''$schema'', JStr ''http://json-schema.org/draft-07/schema#''),
            (''properties'',
               JObj [(''name'', JObj [(''type'', JArr [JStr ''null'', JStr ''string'']),
                                      (''minLength'', JNum (1::int)),
                                      (''format'', JStr ''email'')])]),
            (''required'', JArr [JStr ''name'', JStr ''age'']),
            (''additionalProperties'', JObj [])]) =
     Some [(''properties'', JObj [(''name'', JObj [(''type'', JStr ''STRING'')])]),
           (''required'', JArr [JStr ''name'']),
           (''additionalProperties'', JBool False),
           (''type'', JStr ''OBJECT'')] \<and>
   cleanJSONSchema toUpperASCII
     (cleanJSONSchema toUpperASCII
       (Some [(''$schema'', JStr ''http://json-schema.org/draft-07/schema#''),
            (''properties'',
               JObj [(''name'', JObj [(''type'', JArr [JStr ''null'', JStr ''string'']),
                                      (''minLength'', JNum (1::int)),
                                      (''format'', JStr ''email'')])]),
            (''required'', JArr [JStr ''name'', JStr ''age'']),
            (''additionalProperties'', JObj [])])) =
     Some [(''properties'', JObj [(''name'', JObj [(''type'', JStr ''STRING'')])]),
           (''required'', JArr [JStr ''name'']),
           (''additionalProperties'', JBool False),
           (''type'', JStr ''OBJECT'')]"
proof -
  have run: "cleanJSONSchema toUpperASCII
     (Some [(''$schema'', JStr ''http://json-schema.org/draft-07/schema#''),
            (''properties'',
               JObj [(''name'', JObj [(''type'', JArr [JStr ''null'', JStr ''string'']),
                                      (''minLength'', JNum (1::int)),
                                      (''format'', JStr ''email'')])]),
            (''required'', JArr [JStr ''name'', JStr ''age'']),
            (''additionalProperties'', JObj [])]) =
     Some [(''properties'', JObj [(''name'', JObj [(''type'', JStr ''STRING'')])]),
           (''required'', JArr [JStr ''name'']),
           (''additionalProperties'', JBool False),
           (''type'', JStr ''OBJECT'')]"
    by (simp add: cleanJSONSchema_def excludedSchemaKeys_def hasKey_def toUpperASCII_def
        upperByte_def)
  show ?thesis
    using cleanJSONSchema_idempotent[of toUpperASCII
        "Some [(''$schema'', JStr ''http://json-schema.org/draft-07/schema#''),
            (''properties'',
               JObj [(''name'', JObj [(''type'', JArr [JStr ''null'', JStr ''string'']),
                                      (''minLength'', JNum (1::int)),
                                      (''format'', JStr ''email'')])]),
            (''required'', JArr [JStr ''name'', JStr ''age'']),
            (''additionalProperties'', JObj [])]",
        OF toUpperASCII_idem toUpperASCII_STRING toUpperASCII_OBJECT]
    unfolding run
    by (simp add: toUpperASCII_idem toUpperASCII_STRING toUpperASCII_OBJECT)
qed





section \<open>Streaming usage\<close>

lemma fieldFor_type:
  assumes "\<not> E ''type'' ''message''" "\<not> E ''type'' ''usage''"
  shows "(fieldFor E [''type'', ''message''] key = Some ''type'') =
         (fieldFor E [''type'', ''usage''] key = Some ''type'')"
  using assms by (auto simp: fieldFor_def)

lemma objectMsg_types_agree:
  assumes E: "\<not> E ''type'' ''message''" "\<not> E ''type'' ''usage''"
  shows "objectMsgStart E m (ty, u1) = Some (t1, s) \<Longrightarrow>
         objectMsgDelta E m (ty, u2) = Some (t2, d) \<Longrightarrow> t1 = t2"
proof (induction m arbitrary: ty u1 u2)
  case Nil
  then show ?case by simp
next
  case (Cons kv m)
  obtain key v where kv: "kv = (key, v)" by (cases kv)
  note ft = fieldFor_type[where E = E and key = key, OF E]
  show ?case
  proof (cases "fieldFor E [''type'', ''message''] key = Some ''type''")
    case True
    then have d: "fieldFor E [''type'', ''usage''] key = Some ''type''" using ft by simp
    obtain ty' where st: "storeString v ty = Some ty'"
      using Cons.prems(1) True kv by (cases "storeString v ty") auto
    show ?thesis
      using Cons.prems True d kv st Cons.IH[of ty' u1 u2] by simp
  next
    case False
    then have d: "fieldFor E [''type'', ''usage''] key \<noteq> Some ''type''" using ft by simp
    have "\<exists>u1'. objectMsgStart E m (ty, u1') = Some (t1, s)"
      using Cons.prems(1) False kv
      by (auto split: option.splits if_splits)
    moreover have "\<exists>u2'. objectMsgDelta E m (ty, u2') = Some (t2, d)"
      using Cons.prems(2) d kv
      by (auto split: option.splits if_splits)
    ultimately show ?thesis using Cons.IH by blast
  qed
qed

lemma decode_types_agree:
  assumes "\<not> E ''type'' ''message''" "\<not> E ''type'' ''usage''"
    and "decodeMsgStart E data = Some (t1, s)" "decodeMsgDelta E data = Some (t2, d)"
  shows "t1 = t2"
  using assms(3,4) objectMsg_types_agree[where E = E, OF assms(1,2)]
  by (auto simp: decodeMsgStart_def decodeMsgDelta_def split: option.splits json.splits)

lemmas decode_eval = decodeMsgStart_def decodeMsgDelta_def storeUsage_def storeMessage_def
  storeInt_def storeString_def fieldFor_def equalFoldASCII_def toUpperASCII_def upperByte_def
  zeroUsage_def

text \<open>
  Claim C1, as stated, fails: a later event with a zero value does erase an output count.
  \<open>parseClaudeSSEUsage\<close> assigns \<open>usage.OutputTokens\<close> on every \<open>message_delta\<close>
  without looking at the value, so after an output of 5 a \<open>message_delta\<close> that carries
  no \<open>usage\<close> leaves 0. Nor does the first event win for the input count: a
  \<open>message_start\<close> assigns the input and cache fields without looking either.
\<close>

theorem streamedUsage_zero_erases_counterexample:
  "OutputTokens (streamedUsage (decodeMsgStart equalFoldASCII) (decodeMsgDelta equalFoldASCII)
      [DataLine (Payload (Some (JObj [(''type'', JStr ''message_start''), (''message'', JObj [(''usage'', JObj [(''input_tokens'', JNum (IntLit 10))])])]))),
       DataLine (Payload (Some (JObj [(''type'', JStr ''message_delta''), (''usage'', JObj [(''output_tokens'', JNum (IntLit 5))])])))]) = 5 \<and>
   OutputTokens (streamedUsage (decodeMsgStart equalFoldASCII) (decodeMsgDelta equalFoldASCII)
      [DataLine (Payload (Some (JObj [(''type'', JStr ''message_start''), (''message'', JObj [(''usage'', JObj [(''input_tokens'', JNum (IntLit 10))])])]))),
       DataLine (Payload (Some (JObj [(''type'', JStr ''message_delta''), (''usage'', JObj [(''output_tokens'', JNum (IntLit 5))])]))),
       DataLine (Payload (Some (JObj [(''type'', JStr ''message_delta''), (''delta'', JObj [(''stop_reason'', JStr ''end_turn'')])]))),
       DataLine DonePayload]) = 0 \<and>
   InputTokens (streamedUsage (decodeMsgStart equalFoldASCII) (decodeMsgDelta equalFoldASCII)
      [DataLine (Payload (Some (JObj [(''type'', JStr ''message_start''), (''message'', JObj [(''usage'', JObj [(''input_tokens'', JNum (IntLit 10))])])]))),
       DataLine (Payload (Some (JObj [(''type'', JStr ''message_start''), (''message'', JObj [(''usage'', JObj [(''input_tokens'', JNum (IntLit 0))])])])))]) = 0"
  by (simp add: streamedUsage_def parseClaudeSSEUsage_def decode_eval)

text \<open>
  Claim C1, amended. Whatever \<open>json.Unmarshal\<close> answers: a payload that decodes as a
  \<open>message_start\<close>, and not as a \<open>message_delta\<close>, sets the input and the two cache
  counts to the values it carries and leaves the output count; a payload that decodes as
  a \<open>message_delta\<close>, and not as a \<open>message_start\<close>, sets the output count to the
  value it carries, zero included, and sets an input or cache count only where the
  snapshot holds zero, so that it never changes a non-zero input or cache count; a
  payload that decodes as neither changes nothing. As \<open>encoding/json\<close> decodes the two
  structs, no payload decodes as both: they read \<open>Type\<close> from the same members of the
  payload, given that \<open>type\<close> equals neither \<open>message\<close> nor \<open>usage\<close> under case
  folding. The sequence
  \<open>[message_start{input=10}, message_delta{output=5}, message_delta{output=12}, DONE]\<close>
  from a zero snapshot ends with input 10 and output 12.
\<close>

theorem parseClaudeSSEUsage_overwrite_policy:
  "(UnmarshalStart data = Some (''message_start'', s) \<and>
    (\<forall>d'. UnmarshalDelta data \<noteq> Some (''message_delta'', d')) \<longrightarrow>
      parseClaudeSSEUsage UnmarshalStart UnmarshalDelta data usage =
        usage\<lparr>InputTokens := InputTokens s,
              CacheCreationInputTokens := CacheCreationInputTokens s,
              CacheReadInputTokens := CacheReadInputTokens s\<rparr>) \<and>
   (UnmarshalDelta data = Some (''message_delta'', d) \<and>
    (\<forall>s'. UnmarshalStart data \<noteq> Some (''message_start'', s')) \<longrightarrow>
      parseClaudeSSEUsage UnmarshalStart UnmarshalDelta data usage =
        usage\<lparr>OutputTokens := OutputTokens d,
              InputTokens := (if InputTokens usage = 0 then InputTokens d else InputTokens usage),
              CacheCreationInputTokens :=
                (if CacheCreationInputTokens usage = 0 then CacheCreationInputTokens d
                 else CacheCreationInputTokens usage),
              CacheReadInputTokens :=
                (if CacheReadInputTokens usage = 0 then CacheReadInputTokens d
                 else CacheReadInputTokens usage)\<rparr>) \<and>
   ((\<forall>s'. UnmarshalStart data \<noteq> Some (''message_start'', s')) \<and>
    (\<forall>d'. UnmarshalDelta data \<noteq> Some (''message_delta'', d')) \<longrightarrow>
      parseClaudeSSEUsage UnmarshalStart UnmarshalDelta data usage = usage) \<and>
   (\<not> EqualFold ''type'' ''message'' \<and> \<not> EqualFold ''type'' ''usage'' \<and>
    decodeMsgStart EqualFold payload = Some (''message_start'', s) \<longrightarrow>
      (\<forall>d'. decodeMsgDelta EqualFold payload \<noteq> Some (''message_delta'', d'))) \<and>
   (\<not> EqualFold ''type'' ''message'' \<and> \<not> EqualFold ''type'' ''usage'' \<and>
    decodeMsgDelta EqualFold payload = Some (''message_delta'', d) \<longrightarrow>
      (\<forall>s'. decodeMsgStart EqualFold payload \<noteq> Some (''message_start'', s'))) \<and>
   streamedUsage (decodeMsgStart equalFoldASCII) (decodeMsgDelta equalFoldASCII)
      [DataLine (Payload (Some (JObj [(''type'', JStr ''message_start''), (''message'', JObj [(''usage'', JObj [(''input_tokens'', JNum (IntLit 10))])])]))),
       DataLine (Payload (Some (JObj [(''type'', JStr ''message_delta''), (''usage'', JObj [(''output_tokens'', JNum (IntLit 5))])]))),
       DataLine (Payload (Some (JObj [(''type'', JStr ''message_delta''), (''usage'', JObj [(''output_tokens'', JNum (IntLit 12))])]))),
       DataLine DonePayload] =
     \<lparr>InputTokens = 10, OutputTokens = 12, CacheCreationInputTokens = 0,
      CacheReadInputTokens = 0\<rparr>"
proof (intro conjI)
  show "UnmarshalStart data = Some (''message_start'', s) \<and>
    (\<forall>d'. UnmarshalDelta data \<noteq> Some (''message_delta'', d')) \<longrightarrow>
      parseClaudeSSEUsage UnmarshalStart UnmarshalDelta data usage =
        usage\<lparr>InputTokens := InputTokens s,
              CacheCreationInputTokens := CacheCreationInputTokens s,
              CacheReadInputTokens := CacheReadInputTokens s\<rparr>"
    by (auto simp: parseClaudeSSEUsage_def Let_def split: option.splits)
  show "UnmarshalDelta data = Some (''message_delta'', d) \<and>
    (\<forall>s'. UnmarshalStart data \<noteq> Some (''message_start'', s')) \<longrightarrow>
      parseClaudeSSEUsage UnmarshalStart UnmarshalDelta data usage =
        usage\<lparr>OutputTokens := OutputTokens d,
              InputTokens := (if InputTokens usage = 0 then InputTokens d else InputTokens usage),
              CacheCreationInputTokens :=
                (if CacheCreationInputTokens usage = 0 then CacheCreationInputTokens d
                 else CacheCreationInputTokens usage),
              CacheReadInputTokens :=
                (if CacheReadInputTokens usage = 0 then CacheReadInputTokens d
                 else CacheReadInputTokens usage)\<rparr>"
    by (auto simp: parseClaudeSSEUsage_def Let_def split: option.splits)
  show "(\<forall>s'. UnmarshalStart data \<noteq> Some (''message_start'', s')) \<and>
    (\<forall>d'. UnmarshalDelta data \<noteq> Some (''message_delta'', d')) \<longrightarrow>
      parseClaudeSSEUsage UnmarshalStart UnmarshalDelta data usage = usage"
    by (auto simp: parseClaudeSSEUsage_def Let_def split: option.splits)
  show "\<not> EqualFold ''type'' ''message'' \<and> \<not> EqualFold ''type'' ''usage'' \<and>
    decodeMsgStart EqualFold payload = Some (''message_start'', s) \<longrightarrow>
      (\<forall>d'. decodeMsgDelta EqualFold payload \<noteq> Some (''message_delta'', d'))"
    using decode_types_agree[of EqualFold payload "''message_start''" s "''message_delta''"]
    by auto
  show "\<not> EqualFold ''type'' ''message'' \<and> \<not> EqualFold ''type'' ''usage'' \<and>
    decodeMsgDelta EqualFold payload = Some (''message_delta'', d) \<longrightarrow>
      (\<forall>s'. decodeMsgStart EqualFold payload \<noteq> Some (''message_start'', s'))"
    using decode_types_agree[of EqualFold payload "''message_start''" _ "''message_delta''" d]
    by auto
  show "streamedUsage (decodeMsgStart equalFoldASCII) (decodeMsgDelta equalFoldASCII)
      [DataLine (Payload (Some (JObj [(''type'', JStr ''message_start''), (''message'', JObj [(''usage'', JObj [(''input_tokens'', JNum (IntLit 10))])])]))),
       DataLine (Payload (Some (JObj [(''type'', JStr ''message_delta''), (''usage'', JObj [(''output_tokens'', JNum (IntLit 5))])]))),
       DataLine (Payload (Some (JObj [(''type'', JStr ''message_delta''), (''usage'', JObj [(''output_tokens'', JNum (IntLit 12))])]))),
       DataLine DonePayload] =
     \<lparr>InputTokens = 10, OutputTokens = 12, CacheCreationInputTokens = 0,
      CacheReadInputTokens = 0\<rparr>"
    by (simp add: streamedUsage_def parseClaudeSSEUsage_def decode_eval)
qed

theorem parseClaudeSSEUsage_overwrite_policy_witness:
  "decodeMsgStart equalFoldASCII
      (Some (JObj [(''type'', JStr ''message_start''), (''message'', JObj [(''usage'', JObj [(''input_tokens'', JNum (IntLit 10))])])])) =
     Some (''message_start'', \<lparr>InputTokens = 10, OutputTokens = 0,
        CacheCreationInputTokens = 0, CacheReadInputTokens = 0\<rparr>) \<and>
   parseClaudeSSEUsage (decodeMsgStart equalFoldASCII) (decodeMsgDelta equalFoldASCII)
      (Some (JObj [(''type'', JStr ''message_start''), (''message'', JObj [(''usage'', JObj [(''input_tokens'', JNum (IntLit 10))])])]))
      \<lparr>InputTokens = 3, OutputTokens = 4, CacheCreationInputTokens = 0,
       CacheReadInputTokens = 0\<rparr> =
     \<lparr>InputTokens = 10, OutputTokens = 4, CacheCreationInputTokens = 0,
      CacheReadInputTokens = 0\<rparr> \<and>
   decodeMsgDelta equalFoldASCII
      (Some (JObj [(''Type'', JStr ''message_delta''), (''Usage'', JObj [(''Output_Tokens'', JNum (IntLit 9)), (''INPUT_TOKENS'', JNum (IntLit 1)), (''cache_creation_input_tokens'', JNum (IntLit 2))])])) =
     Some (''message_delta'', \<lparr>InputTokens = 1, OutputTokens = 9,
        CacheCreationInputTokens = 2, CacheReadInputTokens = 0\<rparr>) \<and>
   parseClaudeSSEUsage (decodeMsgStart equalFoldASCII) (decodeMsgDelta equalFoldASCII)
      (Some (JObj [(''Type'', JStr ''message_delta''), (''Usage'', JObj [(''Output_Tokens'', JNum (IntLit 9)), (''INPUT_TOKENS'', JNum (IntLit 1)), (''cache_creation_input_tokens'', JNum (IntLit 2))])]))
      \<lparr>InputTokens = 0, OutputTokens = 4, CacheCreationInputTokens = 7,
       CacheReadInputTokens = 0\<rparr> =
     \<lparr>InputTokens = 1, OutputTokens = 9, CacheCreationInputTokens = 7,
      CacheReadInputTokens = 0\<rparr> \<and>
   decodeMsgDelta equalFoldASCII
      (Some (JObj [(''type'', JStr ''message_delta''), (''TYPE'', JStr ''ping''), (''usage'', JObj [(''output_tokens'', JNum (IntLit 9))])])) =
     Some (''ping'', \<lparr>InputTokens = 0, OutputTokens = 9,
        CacheCreationInputTokens = 0, CacheReadInputTokens = 0\<rparr>) \<and>
   parseClaudeSSEUsage (decodeMsgStart equalFoldASCII) (decodeMsgDelta equalFoldASCII)
      (Some (JObj [(''type'', JStr ''message_delta''), (''TYPE'', JStr ''ping''), (''usage'', JObj [(''output_tokens'', JNum (IntLit 9))])]))
      \<lparr>InputTokens = 3, OutputTokens = 4, CacheCreationInputTokens = 0,
       CacheReadInputTokens = 0\<rparr> =
     \<lparr>InputTokens = 3, OutputTokens = 4, CacheCreationInputTokens = 0,
      CacheReadInputTokens = 0\<rparr>"
proof -
  let ?start = "Some (JObj [(''type'', JStr ''message_start''), (''message'', JObj [(''usage'', JObj [(''input_tokens'', JNum (IntLit 10))])])])"
  let ?delta = "Some (JObj [(''Type'', JStr ''message_delta''), (''Usage'', JObj [(''Output_Tokens'', JNum (IntLit 9)), (''INPUT_TOKENS'', JNum (IntLit 1)), (''cache_creation_input_tokens'', JNum (IntLit 2))])])"
  let ?ping = "Some (JObj [(''type'', JStr ''message_delta''), (''TYPE'', JStr ''ping''), (''usage'', JObj [(''output_tokens'', JNum (IntLit 9))])])"
  let ?s = "\<lparr>InputTokens = 10, OutputTokens = 0, CacheCreationInputTokens = 0,
             CacheReadInputTokens = 0\<rparr>"
  let ?d = "\<lparr>InputTokens = 1, OutputTokens = 9, CacheCreationInputTokens = 2,
             CacheReadInputTokens = 0\<rparr>"
  let ?u = "\<lparr>InputTokens = 3, OutputTokens = 4, CacheCreationInputTokens = 0,
             CacheReadInputTokens = 0\<rparr>"
  let ?snap = "\<lparr>InputTokens = 0, OutputTokens = 4, CacheCreationInputTokens = 7,
             CacheReadInputTokens = 0\<rparr>"
  have fold: "\<not> equalFoldASCII ''type'' ''message''" "\<not> equalFoldASCII ''type'' ''usage''"
    by (simp_all add: decode_eval)
  have start: "decodeMsgStart equalFoldASCII ?start = Some (''message_start'', ?s)"
    by (simp add: decode_eval)
  have delta: "decodeMsgDelta equalFoldASCII ?delta = Some (''message_delta'', ?d)"
    by (simp add: decode_eval)
  have ping: "decodeMsgDelta equalFoldASCII ?ping =
      Some (''ping'', \<lparr>InputTokens = 0, OutputTokens = 9,
        CacheCreationInputTokens = 0, CacheReadInputTokens = 0\<rparr>)"
    "decodeMsgStart equalFoldASCII ?ping = Some (''ping'', zeroUsage)"
    by (simp_all add: decode_eval)
  note t1 = parseClaudeSSEUsage_overwrite_policy[where UnmarshalStart = "decodeMsgStart equalFoldASCII"
      and UnmarshalDelta = "decodeMsgDelta equalFoldASCII" and EqualFold = equalFoldASCII
      and data = ?start and payload = ?start and s = ?s and usage = ?u]
  note t2 = parseClaudeSSEUsage_overwrite_policy[where UnmarshalStart = "decodeMsgStart equalFoldASCII"
      and UnmarshalDelta = "decodeMsgDelta equalFoldASCII" and EqualFold = equalFoldASCII
      and data = ?delta and payload = ?delta and d = ?d and usage = ?snap]
  note t3 = parseClaudeSSEUsage_overwrite_policy[where UnmarshalStart = "decodeMsgStart equalFoldASCII"
      and UnmarshalDelta = "decodeMsgDelta equalFoldASCII"
      and data = ?ping and usage = ?u]
  have nodelta: "\<forall>d'. decodeMsgDelta equalFoldASCII ?start \<noteq> Some (''message_delta'', d')"
    using t1 fold start by blast
  have nostart: "\<forall>s'. decodeMsgStart equalFoldASCII ?delta \<noteq> Some (''message_start'', s')"
    using t2 fold delta by blast
  have r1: "parseClaudeSSEUsage (decodeMsgStart equalFoldASCII) (decodeMsgDelta equalFoldASCII)
      ?start ?u = ?u\<lparr>InputTokens := InputTokens ?s,
              CacheCreationInputTokens := CacheCreationInputTokens ?s,
              CacheReadInputTokens := CacheReadInputTokens ?s\<rparr>"
    using t1 start nodelta by blast
  have r2: "parseClaudeSSEUsage (decodeMsgStart equalFoldASCII) (decodeMsgDelta equalFoldASCII)
      ?delta ?snap = ?snap\<lparr>OutputTokens := OutputTokens ?d,
              InputTokens := (if InputTokens ?snap = 0 then InputTokens ?d else InputTokens ?snap),
              CacheCreationInputTokens :=
                (if CacheCreationInputTokens ?snap = 0 then CacheCreationInputTokens ?d
                 else CacheCreationInputTokens ?snap),
              CacheReadInputTokens :=
                (if CacheReadInputTokens ?snap = 0 then CacheReadInputTokens ?d
                 else CacheReadInputTokens ?snap)\<rparr>"
    using t2 delta nostart by blast
  have r3: "parseClaudeSSEUsage (decodeMsgStart equalFoldASCII) (decodeMsgDelta equalFoldASCII)
      ?ping ?u = ?u"
    using t3 ping by simp
  show ?thesis
    using start delta ping(1) r1 r2 r3 by simp
qed

section \<open>The retry loops\<close>

lemma upstreamCalls_simps [simp]:
  "upstreamCalls (doUpstream eff) = Suc (upstreamCalls eff)"
  "upstreamCalls (sleepAntigravityBackoff a eff) = upstreamCalls eff"
  "upstreamCalls (handleUpstreamError s st eff) = upstreamCalls eff"
  by (simp_all add: doUpstream_def sleepAntigravityBackoff_def handleUpstreamError_def)

lemma ForwardLoop_retry:
  assumes "attempt < antigravityMaxRetries" "requestBuilds s"
    and "httpUpstream s (Suc (upstreamCalls eff)) = Reply resp"
    and "StatusCode resp \<ge> 400" "shouldRetryUpstreamError (StatusCode resp)"
  shows "ForwardLoop s attempt eff =
         ForwardLoop s (Suc attempt) (sleepAntigravityBackoff attempt (doUpstream eff))"
  using assms by (subst ForwardLoop.simps) (simp add: Let_def)

lemma ForwardLoop_break:
  assumes "attempt \<le> antigravityMaxRetries" "requestBuilds s"
    and "httpUpstream s (Suc (upstreamCalls eff)) = Reply resp"
    and "\<not> (StatusCode resp \<ge> 400 \<and> shouldRetryUpstreamError (StatusCode resp))"
  shows "ForwardLoop s attempt eff = (Break resp, doUpstream eff)"
  using assms by (subst ForwardLoop.simps) (auto simp: Let_def)

lemma ForwardLoop_exhausted:
  assumes "attempt = antigravityMaxRetries" "requestBuilds s"
    and "httpUpstream s (Suc (upstreamCalls eff)) = Reply resp"
    and "StatusCode resp \<ge> 400" "shouldRetryUpstreamError (StatusCode resp)"
  shows "ForwardLoop s attempt eff =
         (Break resp, if StatusCode resp = 429
                      then handleUpstreamError s (StatusCode resp) (doUpstream eff)
                      else doUpstream eff)"
  using assms by (subst ForwardLoop.simps) (simp add: Let_def)

lemma ForwardLoop_503_then:
  assumes rb: "requestBuilds s"
    and first: "\<forall>k. 1 \<le> k \<and> k < antigravityMaxRetries \<longrightarrow>
                  (\<exists>r. httpUpstream s k = Reply r \<and> StatusCode r = 503)"
    and a: "attempt \<le> antigravityMaxRetries" "1 \<le> attempt"
    and c: "upstreamCalls eff = attempt - 1"
  shows "ForwardLoop s attempt eff =
         ForwardLoop s antigravityMaxRetries
           (eff\<lparr>upstreamCalls := antigravityMaxRetries - 1,
                 backoffs := backoffs eff @ [attempt..<antigravityMaxRetries]\<rparr>)"
  using a c
proof (induction "antigravityMaxRetries - attempt" arbitrary: attempt eff)
  case 0
  then have "attempt = antigravityMaxRetries" by simp
  moreover have "eff\<lparr>upstreamCalls := upstreamCalls eff, backoffs := backoffs eff @ []\<rparr> = eff"
    by simp
  ultimately show ?case using 0(4)[symmetric] by simp
next
  case (Suc n)
  then have lt: "attempt < antigravityMaxRetries" by simp
  obtain r where r: "httpUpstream s attempt = Reply r" "StatusCode r = 503"
    using first lt Suc.prems by blast
  have step: "ForwardLoop s attempt eff =
      ForwardLoop s (Suc attempt) (sleepAntigravityBackoff attempt (doUpstream eff))"
    using ForwardLoop_retry[OF lt rb, of eff r] r Suc.prems
    by (simp add: shouldRetryUpstreamError_def)
  have "ForwardLoop s (Suc attempt) (sleepAntigravityBackoff attempt (doUpstream eff)) =
      ForwardLoop s antigravityMaxRetries
        ((sleepAntigravityBackoff attempt (doUpstream eff))
           \<lparr>upstreamCalls := antigravityMaxRetries - 1,
            backoffs := backoffs (sleepAntigravityBackoff attempt (doUpstream eff)) @
               [Suc attempt..<antigravityMaxRetries]\<rparr>)"
  proof -
    have n: "n = antigravityMaxRetries - Suc attempt"
      using Suc.hyps(2) by linarith
    show ?thesis
      using Suc.hyps(1)[OF n, of "sleepAntigravityBackoff attempt (doUpstream eff)"]
        lt Suc.prems by simp
  qed
  also have "(sleepAntigravityBackoff attempt (doUpstream eff))
           \<lparr>upstreamCalls := antigravityMaxRetries - 1,
            backoffs := backoffs (sleepAntigravityBackoff attempt (doUpstream eff)) @
               [Suc attempt..<antigravityMaxRetries]\<rparr> =
        eff\<lparr>upstreamCalls := antigravityMaxRetries - 1,
            backoffs := backoffs eff @ [attempt..<antigravityMaxRetries]\<rparr>"
    using lt by (simp add: sleepAntigravityBackoff_def doUpstream_def upt_conv_Cons)
  finally show ?case using step by simp
qed

lemma ForwardLoop_503_prefix:
  assumes rb: "requestBuilds s"
    and first: "\<forall>k. 1 \<le> k \<and> k < antigravityMaxRetries \<longrightarrow>
                  (\<exists>r. httpUpstream s k = Reply r \<and> StatusCode r = 503)"
  shows "ForwardLoop s 1 noEffects =
         ForwardLoop s antigravityMaxRetries
           \<lparr>upstreamCalls = antigravityMaxRetries - 1, notified = [],
            backoffs = [1..<antigravityMaxRetries], written = []\<rparr>"
  using ForwardLoop_503_then[OF rb first, of 1 noEffects]
  by (simp add: noEffects_def antigravityMaxRetries_def)

text \<open>
  Claim C2. Let a call of \<open>Forward\<close> pass its checks before the retry loop (the body
  parses, the model is not blank, a token and a project id are there, the request
  transforms and builds), and let the upstream answer 503 to each of the first
  \<open>N - 1\<close> calls, \<open>N = antigravityMaxRetries = 5\<close>. If it answers the \<open>N\<close>-th call
  with 200 and the response path succeeds, \<open>Forward\<close> returns its result and has made
  exactly \<open>N\<close> upstream calls. If it answers the \<open>N\<close>-th call with 503 too,
  \<open>Forward\<close> has made exactly \<open>N\<close> upstream calls and returns
  \<open>UpstreamFailoverError\<close>, the error that tells the caller to try another account.
\<close>

theorem Forward_retries_503:
  assumes body: "body = Some claudeReq"
    and model: "TrimSpace (Model claudeReq) \<noteq> ''''"
    and token: "tokenProvider s = Some (Some accessToken)"
    and project: "TrimSpace (GetCredential account ''project_id'') \<noteq> ''''"
    and transform: "TransformClaudeToGemini TrimSpace DefaultStopSequences claudeReq
        (TrimSpace (GetCredential account ''project_id''))
        (getMappedModel account (Model claudeReq)) = Inr geminiBody"
    and rb: "requestBuilds s"
    and first: "\<forall>k. 1 \<le> k \<and> k < antigravityMaxRetries \<longrightarrow>
                  (\<exists>r. httpUpstream s k = Reply r \<and> StatusCode r = 503)"
    and last: "httpUpstream s antigravityMaxRetries = Reply resp"
  shows "(StatusCode resp = 200 \<and>
          (if Stream claudeReq
           then handleClaudeStreamingResponse h resp (Model claudeReq) = Inr (usage, firstTokenMs)
           else handleClaudeNonStreamingResponse h resp (Model claudeReq) = Inr usage \<and>
                firstTokenMs = None) \<longrightarrow>
            fst (Forward TrimSpace DefaultStopSequences s h account body) =
              Inr \<lparr>RequestID = XRequestID resp, Usage = usage, ResultModel = Model claudeReq,
                   ResultStream = Stream claudeReq, FirstTokenMs = firstTokenMs\<rparr> \<and>
            upstreamCalls (snd (Forward TrimSpace DefaultStopSequences s h account body)) =
              antigravityMaxRetries) \<and>
         (StatusCode resp = 503 \<longrightarrow>
            fst (Forward TrimSpace DefaultStopSequences s h account body) =
              Inl (UpstreamFailoverError 503) \<and>
            upstreamCalls (snd (Forward TrimSpace DefaultStopSequences s h account body)) =
              antigravityMaxRetries)"
proof -
  let ?eff = "\<lparr>upstreamCalls = antigravityMaxRetries - 1, notified = [],
            backoffs = [1..<antigravityMaxRetries], written = []\<rparr>"
  have pre: "ForwardLoop s 1 noEffects = ForwardLoop s antigravityMaxRetries ?eff"
    by (rule ForwardLoop_503_prefix[OF rb first])
  have up: "httpUpstream s (Suc (upstreamCalls ?eff)) = Reply resp"
    using last by (simp add: antigravityMaxRetries_def)
  have ok: "StatusCode resp = 200 \<Longrightarrow> ForwardLoop s 1 noEffects = (Break resp, doUpstream ?eff)"
    unfolding pre by (rule ForwardLoop_break[OF _ rb up]) simp_all
  have bad: "StatusCode resp = 503 \<Longrightarrow> ForwardLoop s 1 noEffects = (Break resp, doUpstream ?eff)"
    unfolding pre using ForwardLoop_exhausted[OF _ rb up]
    by (simp add: shouldRetryUpstreamError_def)
  have calls: "upstreamCalls (doUpstream ?eff) = antigravityMaxRetries"
    by (simp add: antigravityMaxRetries_def)
  show ?thesis
  proof (intro conjI impI)
    assume a: "StatusCode resp = 200 \<and>
          (if Stream claudeReq
           then handleClaudeStreamingResponse h resp (Model claudeReq) = Inr (usage, firstTokenMs)
           else handleClaudeNonStreamingResponse h resp (Model claudeReq) = Inr usage \<and>
                firstTokenMs = None)"
    then have run: "Forward TrimSpace DefaultStopSequences s h account body =
       (Inr \<lparr>RequestID = XRequestID resp, Usage = usage, ResultModel = Model claudeReq,
                   ResultStream = Stream claudeReq, FirstTokenMs = firstTokenMs\<rparr>,
        if XRequestID resp \<noteq> ''''
        then (doUpstream ?eff)\<lparr>written := written (doUpstream ?eff) @ [SetRequestIDHeader (XRequestID resp)]\<rparr>
        else doUpstream ?eff)"
      using body model token project transform ok
      by (simp add: Forward_def Let_def split: if_splits)
    show "fst (Forward TrimSpace DefaultStopSequences s h account body) =
              Inr \<lparr>RequestID = XRequestID resp, Usage = usage, ResultModel = Model claudeReq,
                   ResultStream = Stream claudeReq, FirstTokenMs = firstTokenMs\<rparr>"
      unfolding run by simp
    show "upstreamCalls (snd (Forward TrimSpace DefaultStopSequences s h account body)) =
              antigravityMaxRetries"
      unfolding run using calls by simp
  next
    assume a: "StatusCode resp = 503"
    then have run: "Forward TrimSpace DefaultStopSequences s h account body =
       (Inl (UpstreamFailoverError 503), handleUpstreamError s 503 (doUpstream ?eff))"
      using body model token project transform bad
      by (simp add: Forward_def Let_def shouldFailoverUpstreamError_def)
    show "fst (Forward TrimSpace DefaultStopSequences s h account body) =
              Inl (UpstreamFailoverError 503)"
      unfolding run by simp
    show "upstreamCalls (snd (Forward TrimSpace DefaultStopSequences s h account body)) =
              antigravityMaxRetries"
      unfolding run using calls by simp
  qed
qed

lemma shouldRetry_ge_400: "shouldRetryUpstreamError st \<Longrightarrow> st \<ge> 400"
  by (auto simp: shouldRetryUpstreamError_def)

lemma ForwardLoop_retry_transport:
  assumes "attempt < antigravityMaxRetries" "requestBuilds s"
    and "httpUpstream s (Suc (upstreamCalls eff)) = TransportError"
  shows "ForwardLoop s attempt eff =
         ForwardLoop s (Suc attempt) (sleepAntigravityBackoff attempt (doUpstream eff))"
  using assms by (subst ForwardLoop.simps) (simp add: Let_def)

lemma ForwardLoop_transport_exhausted:
  assumes "attempt = antigravityMaxRetries" "requestBuilds s"
    and "httpUpstream s (Suc (upstreamCalls eff)) = TransportError"
  shows "ForwardLoop s attempt eff =
         (Return (ErrorMessage ''Upstream request failed after retries''),
          (doUpstream eff)\<lparr>written := written (doUpstream eff) @
             [WriteClaudeError 502 ''upstream_error'' ''Upstream request failed after retries'']\<rparr>)"
  using assms by (subst ForwardLoop.simps) (simp add: Let_def writeClaudeError_def)

lemma ForwardLoop_retried_then:
  assumes rb: "requestBuilds s"
    and first: "\<forall>k. 1 \<le> k \<and> k < n \<longrightarrow>
                  httpUpstream s k = TransportError \<or>
                  (\<exists>r. httpUpstream s k = Reply r \<and> shouldRetryUpstreamError (StatusCode r))"
    and n: "n \<le> antigravityMaxRetries"
    and a: "attempt \<le> n" "1 \<le> attempt"
    and c: "upstreamCalls eff = attempt - 1"
  shows "ForwardLoop s attempt eff =
         ForwardLoop s n
           (eff\<lparr>upstreamCalls := n - 1, backoffs := backoffs eff @ [attempt..<n]\<rparr>)"
  using a c
proof (induction "n - attempt" arbitrary: attempt eff)
  case 0
  then have "attempt = n" by simp
  moreover have "eff\<lparr>upstreamCalls := upstreamCalls eff, backoffs := backoffs eff @ []\<rparr> = eff"
    by simp
  ultimately show ?case using 0(4)[symmetric] by simp
next
  case (Suc d)
  then have lt: "attempt < n" by simp
  then have ltmax: "attempt < antigravityMaxRetries" using n by simp
  have up: "Suc (upstreamCalls eff) = attempt" using Suc.prems by simp
  have step: "ForwardLoop s attempt eff =
      ForwardLoop s (Suc attempt) (sleepAntigravityBackoff attempt (doUpstream eff))"
  proof (cases "httpUpstream s attempt")
    case TransportError
    then show ?thesis
      using ForwardLoop_retry_transport[OF ltmax rb, of eff] up by simp
  next
    case (Reply r)
    then have "shouldRetryUpstreamError (StatusCode r)"
      using first lt Suc.prems by auto
    then show ?thesis
      using ForwardLoop_retry[OF ltmax rb, of eff r] Reply up shouldRetry_ge_400 by simp
  qed
  have "ForwardLoop s (Suc attempt) (sleepAntigravityBackoff attempt (doUpstream eff)) =
      ForwardLoop s n
        ((sleepAntigravityBackoff attempt (doUpstream eff))
           \<lparr>upstreamCalls := n - 1,
            backoffs := backoffs (sleepAntigravityBackoff attempt (doUpstream eff)) @
               [Suc attempt..<n]\<rparr>)"
  proof -
    have d: "d = n - Suc attempt"
      using Suc.hyps(2) by linarith
    show ?thesis
      using Suc.hyps(1)[OF d, of "sleepAntigravityBackoff attempt (doUpstream eff)"]
        lt Suc.prems by simp
  qed
  also have "(sleepAntigravityBackoff attempt (doUpstream eff))
           \<lparr>upstreamCalls := n - 1,
            backoffs := backoffs (sleepAntigravityBackoff attempt (doUpstream eff)) @
               [Suc attempt..<n]\<rparr> =
        eff\<lparr>upstreamCalls := n - 1, backoffs := backoffs eff @ [attempt..<n]\<rparr>"
    using lt by (simp add: sleepAntigravityBackoff_def doUpstream_def upt_conv_Cons)
  finally show ?case using step by simp
qed

lemma ForwardLoop_retried_prefix:
  assumes rb: "requestBuilds s"
    and first: "\<forall>k. 1 \<le> k \<and> k < n \<longrightarrow>
                  httpUpstream s k = TransportError \<or>
                  (\<exists>r. httpUpstream s k = Reply r \<and> shouldRetryUpstreamError (StatusCode r))"
    and n: "1 \<le> n" "n \<le> antigravityMaxRetries"
  shows "ForwardLoop s 1 noEffects =
         ForwardLoop s n
           \<lparr>upstreamCalls = n - 1, notified = [], backoffs = [1..<n], written = []\<rparr>"
  using ForwardLoop_retried_then[OF rb first n(2) n(1), of noEffects]
  by (simp add: noEffects_def)

text \<open>
  Claim C7, amended. Let a call of \<open>Forward\<close> pass its checks before the retry loop, and
  let each of its first \<open>n - 1\<close> upstream calls end in a transport error or in a
  retryable status, 429 included. These attempts are retried and none of them is
  reported to \<open>HandleUpstreamError\<close>: what the rate-limit service hears, if the engine
  has one, depends on the \<open>n\<close>-th call alone, the one that ends the loop. If that
  call is answered with a status that is not retryable, the service hears the status
  once if it is 400 or more, and nothing otherwise. If it is the last attempt,
  \<open>n = antigravityMaxRetries\<close>, and is answered with a retryable status, the service
  hears a 429 twice, in the loop and after it, and each of 500, 502, 503, 504 and 529
  once, after the loop. If the last attempt ends in a transport error, the service
  hears nothing. So the retryable statuses other than 429 are reported only on final
  exhaustion, and so is 429.
\<close>

theorem Forward_notifies_only_when_loop_ends:
  assumes body: "body = Some claudeReq"
    and model: "TrimSpace (Model claudeReq) \<noteq> ''''"
    and token: "tokenProvider s = Some (Some accessToken)"
    and project: "TrimSpace (GetCredential account ''project_id'') \<noteq> ''''"
    and transform: "TransformClaudeToGemini TrimSpace DefaultStopSequences claudeReq
        (TrimSpace (GetCredential account ''project_id''))
        (getMappedModel account (Model claudeReq)) = Inr geminiBody"
    and rb: "requestBuilds s"
    and n: "1 \<le> n" "n \<le> antigravityMaxRetries"
    and first: "\<forall>k. 1 \<le> k \<and> k < n \<longrightarrow>
                  httpUpstream s k = TransportError \<or>
                  (\<exists>r. httpUpstream s k = Reply r \<and> shouldRetryUpstreamError (StatusCode r))"
  shows "(\<forall>resp. httpUpstream s n = Reply resp \<and> \<not> shouldRetryUpstreamError (StatusCode resp) \<longrightarrow>
            notified (snd (Forward TrimSpace DefaultStopSequences s h account body)) =
              (if rateLimitService s \<and> StatusCode resp \<ge> 400 then [StatusCode resp] else []) \<and>
            upstreamCalls (snd (Forward TrimSpace DefaultStopSequences s h account body)) = n) \<and>
         (\<forall>resp. n = antigravityMaxRetries \<and> httpUpstream s n = Reply resp \<and>
                 shouldRetryUpstreamError (StatusCode resp) \<longrightarrow>
            notified (snd (Forward TrimSpace DefaultStopSequences s h account body)) =
              (if rateLimitService s
               then (if StatusCode resp = 429 then [429, 429] else [StatusCode resp])
               else []) \<and>
            upstreamCalls (snd (Forward TrimSpace DefaultStopSequences s h account body)) = n) \<and>
         (n = antigravityMaxRetries \<and> httpUpstream s n = TransportError \<longrightarrow>
            notified (snd (Forward TrimSpace DefaultStopSequences s h account body)) = [] \<and>
            upstreamCalls (snd (Forward TrimSpace DefaultStopSequences s h account body)) = n)"
proof -
  let ?eff = "\<lparr>upstreamCalls = n - 1, notified = [], backoffs = [1..<n], written = []\<rparr>"
  let ?run = "Forward TrimSpace DefaultStopSequences s h account body"
  have pre: "ForwardLoop s 1 noEffects = ForwardLoop s n ?eff"
    by (rule ForwardLoop_retried_prefix[OF rb first n])
  have up: "Suc (upstreamCalls ?eff) = n"
    using n by simp
  have run: "?run =
      (case ForwardLoop s n ?eff of
         (Return err, eff) \<Rightarrow> (Inl err, eff)
       | (ReturnResult res, eff) \<Rightarrow> (Inr res, eff)
       | (LoopEnd, eff) \<Rightarrow> (Inl NilResponse, eff)
       | (Break resp, eff) \<Rightarrow>
           if StatusCode resp \<ge> 400 then
             (let eff1 = handleUpstreamError s (StatusCode resp) eff in
              if shouldFailoverUpstreamError (StatusCode resp) then
                (Inl (UpstreamFailoverError (StatusCode resp)), eff1)
              else
                (case writeMappedClaudeError (StatusCode resp) eff1 of
                   (err, eff2) \<Rightarrow> (Inl err, eff2)))
           else
             (let requestID = XRequestID resp;
                  eff1 = (if requestID \<noteq> ''''
                          then eff\<lparr>written := written eff @ [SetRequestIDHeader requestID]\<rparr>
                          else eff)
              in if Stream claudeReq then
                   (case handleClaudeStreamingResponse h resp (Model claudeReq) of
                      Inl err \<Rightarrow> (Inl (HandlerError err), eff1)
                    | Inr (usage, firstTokenMs) \<Rightarrow>
                        (Inr \<lparr>RequestID = requestID, Usage = usage,
                              ResultModel = Model claudeReq,
                              ResultStream = Stream claudeReq,
                              FirstTokenMs = firstTokenMs\<rparr>, eff1))
                 else
                   (case handleClaudeNonStreamingResponse h resp (Model claudeReq) of
                      Inl err \<Rightarrow> (Inl (HandlerError err), eff1)
                    | Inr usage \<Rightarrow>
                        (Inr \<lparr>RequestID = requestID, Usage = usage,
                              ResultModel = Model claudeReq,
                              ResultStream = Stream claudeReq,
                              FirstTokenMs = None\<rparr>, eff1))))"
    using body model token project transform pre
    by (simp add: Forward_def Let_def)
  show ?thesis
  proof (intro conjI allI impI)
    fix resp
    assume a: "httpUpstream s n = Reply resp \<and> \<not> shouldRetryUpstreamError (StatusCode resp)"
    have "httpUpstream s n = Reply resp"
      using a by blast
    then have reply: "httpUpstream s (Suc (upstreamCalls ?eff)) = Reply resp"
      using n(1) by simp
    have stop: "\<not> (StatusCode resp \<ge> 400 \<and> shouldRetryUpstreamError (StatusCode resp))"
      using a by simp
    have loop: "ForwardLoop s n ?eff = (Break resp, doUpstream ?eff)"
      by (rule ForwardLoop_break[OF n(2) rb reply stop])
    show "notified (snd ?run) =
        (if rateLimitService s \<and> StatusCode resp \<ge> 400 then [StatusCode resp] else [])"
      unfolding run loop
      by (simp add: Let_def handleUpstreamError_def writeMappedClaudeError_def doUpstream_def
          split: sum.splits prod.splits)
    show "upstreamCalls (snd ?run) = n"
      unfolding run loop using n
      by (simp add: Let_def handleUpstreamError_def writeMappedClaudeError_def doUpstream_def
          split: sum.splits prod.splits)
  next
    fix resp
    assume a: "n = antigravityMaxRetries \<and> httpUpstream s n = Reply resp \<and>
                 shouldRetryUpstreamError (StatusCode resp)"
    have ge: "StatusCode resp \<ge> 400" using a shouldRetry_ge_400 by blast
    have nmax: "n = antigravityMaxRetries" and retry: "shouldRetryUpstreamError (StatusCode resp)"
      using a by blast+
    have "httpUpstream s n = Reply resp"
      using a by blast
    then have reply: "httpUpstream s (Suc (upstreamCalls ?eff)) = Reply resp"
      using n(1) by simp
    have loop: "ForwardLoop s n ?eff =
        (Break resp, if StatusCode resp = 429
                      then handleUpstreamError s (StatusCode resp) (doUpstream ?eff)
                      else doUpstream ?eff)"
      by (rule ForwardLoop_exhausted[OF nmax rb reply ge retry])
    show "notified (snd ?run) =
        (if rateLimitService s
         then (if StatusCode resp = 429 then [429, 429] else [StatusCode resp])
         else [])"
      unfolding run loop using ge
      by (simp add: Let_def handleUpstreamError_def writeMappedClaudeError_def doUpstream_def
          split: sum.splits prod.splits)
    show "upstreamCalls (snd ?run) = n"
      unfolding run loop using ge n
      by (simp add: Let_def handleUpstreamError_def writeMappedClaudeError_def doUpstream_def
          split: sum.splits prod.splits)
  next
    assume a: "n = antigravityMaxRetries \<and> httpUpstream s n = TransportError"
    have loop: "ForwardLoop s n ?eff =
         (Return (ErrorMessage ''Upstream request failed after retries''),
          (doUpstream ?eff)\<lparr>written := written (doUpstream ?eff) @
             [WriteClaudeError 502 ''upstream_error'' ''Upstream request failed after retries'']\<rparr>)"
    proof -
      have nmax: "n = antigravityMaxRetries" using a by blast
      have "httpUpstream s n = TransportError"
        using a by blast
      then have reply: "httpUpstream s (Suc (upstreamCalls ?eff)) = TransportError"
        using n(1) by simp
      show ?thesis by (rule ForwardLoop_transport_exhausted[OF nmax rb reply])
    qed
    show "notified (snd ?run) = []"
      unfolding run loop by (simp add: doUpstream_def)
    show "upstreamCalls (snd ?run) = n"
      unfolding run loop using n by (simp add: doUpstream_def)
  qed
qed

lemma GeminiLoop_countTokens:
  assumes rb: "requestBuilds s" and act: "action = ''countTokens''"
  shows "attempt \<le> antigravityMaxRetries \<Longrightarrow>
     ForwardGeminiLoop est s om action body attempt eff = (exit, eff') \<Longrightarrow>
     (\<exists>resp. exit = Break resp \<and> httpUpstream s (upstreamCalls eff') = Reply resp) \<or>
     (exit = ReturnResult \<lparr>RequestID = '''', Usage = zeroUsage, ResultModel = om,
                            ResultStream = False, FirstTokenMs = None\<rparr> \<and>
      written eff' \<noteq> [] \<and> last (written eff') = WriteTotalTokens 200 (est body))"
  using rb act
proof (induction est s om action body attempt eff rule: ForwardGeminiLoop.induct)
  case (1 estimate s originalModel action body attempt eff)
  let ?eff1 = "doUpstream eff"
  have le: "attempt \<le> antigravityMaxRetries" and rb: "requestBuilds s"
    and act: "action = ''countTokens''" using "1.prems" by simp_all
  note run = "1.prems"(2)[unfolded ForwardGeminiLoop.simps[of estimate s originalModel action body attempt eff]]
  show ?case
  proof (cases "httpUpstream s (upstreamCalls ?eff1)")
    case TransportError
    show ?thesis
    proof (cases "attempt < antigravityMaxRetries")
      case True
      have "ForwardGeminiLoop estimate s originalModel action body (Suc attempt)
              (sleepAntigravityBackoff attempt ?eff1) = (exit, eff')"
        using run le rb TransportError True by (simp add: Let_def)
      then show ?thesis
        using "1.IH"(1)[OF le _ refl TransportError True] rb act True by simp
    next
      case False
      then show ?thesis
        using run le rb TransportError act
        by (auto simp: Let_def countTokensFallback_def)
    qed
  next
    case (Reply resp)
    show ?thesis
    proof (cases "StatusCode resp \<ge> 400 \<and> shouldRetryUpstreamError (StatusCode resp)")
      case False
      then have "exit = Break resp" "eff' = ?eff1"
        using run le rb Reply by (auto simp: Let_def)
      then show ?thesis using Reply by simp
    next
      case retry: True
      let ?eff2 = "if StatusCode resp = 429
                   then handleUpstreamError s (StatusCode resp) ?eff1 else ?eff1"
      show ?thesis
      proof (cases "attempt < antigravityMaxRetries")
        case True
        have "ForwardGeminiLoop estimate s originalModel action body (Suc attempt)
              (sleepAntigravityBackoff attempt ?eff2) = (exit, eff')"
          using run le rb Reply True retry by (simp add: Let_def)
        then show ?thesis
          using "1.IH"(2)[OF le _ refl Reply retry refl True] rb act True by simp
      next
        case False
        then show ?thesis
          using run le rb Reply act retry
          by (auto simp: Let_def countTokensFallback_def)
      qed
    qed
  qed
qed

text \<open>
  Claim C9. Let a \<open>countTokens\<close> call of \<open>ForwardGemini\<close> pass its checks before the
  retry loop. If the last upstream call it made ended in a transport error or in a
  status of 400 or more, it returns a result, not an error, and the last thing it wrote
  to the client is status 200 with the locally estimated \<open>totalTokens\<close>.
\<close>

theorem ForwardGemini_countTokens_degrades:
  assumes model: "TrimSpace originalModel \<noteq> ''''"
    and action: "action = ''countTokens''" "TrimSpace action \<noteq> ''''"
    and body: "body = JSONBody j"
    and token: "tokenProvider s = Some (Some accessToken)"
    and project: "TrimSpace (GetCredential account ''project_id'') \<noteq> ''''"
    and rb: "requestBuilds s"
    and run: "ForwardGemini TrimSpace estimate s h account originalModel action stream body =
                (result, eff)"
    and failed: "httpUpstream s (upstreamCalls eff) = TransportError \<or>
                 (\<exists>resp. httpUpstream s (upstreamCalls eff) = Reply resp \<and> StatusCode resp \<ge> 400)"
  shows "(\<exists>requestID. result = Inr \<lparr>RequestID = requestID, Usage = zeroUsage,
            ResultModel = originalModel, ResultStream = False, FirstTokenMs = None\<rparr>) \<and>
         written eff \<noteq> [] \<and> last (written eff) = WriteTotalTokens 200 (estimate body)"
proof -
  obtain exit eff0 where loop:
    "ForwardGeminiLoop estimate s originalModel action body 1 noEffects = (exit, eff0)"
    by (cases "ForwardGeminiLoop estimate s originalModel action body 1 noEffects")
  have le: "1 \<le> antigravityMaxRetries" by (simp add: antigravityMaxRetries_def)
  from GeminiLoop_countTokens[OF rb action(1) le loop]
  show ?thesis
  proof
    assume "\<exists>resp. exit = Break resp \<and> httpUpstream s (upstreamCalls eff0) = Reply resp"
    then obtain resp where ex: "exit = Break resp"
      and reply: "httpUpstream s (upstreamCalls eff0) = Reply resp" by blast
    note unfolded = run[unfolded ForwardGemini_def]
    have calls: "upstreamCalls eff = upstreamCalls eff0"
      using unfolded model action body token project loop ex
      by (auto simp: Let_def countTokensFallback_def handleUpstreamError_def
          split: if_splits sum.splits prod.splits)
    have st: "StatusCode resp \<ge> 400"
      using failed reply calls by auto
    show ?thesis
      using unfolded model action body token project loop ex st
      by (auto simp: Let_def countTokensFallback_def)
  next
    assume "exit = ReturnResult \<lparr>RequestID = '''', Usage = zeroUsage, ResultModel = originalModel,
                            ResultStream = False, FirstTokenMs = None\<rparr> \<and>
      written eff0 \<noteq> [] \<and> last (written eff0) = WriteTotalTokens 200 (estimate body)"
    then show ?thesis
      using run model action body token project loop
      by (auto simp: ForwardGemini_def Let_def)
  qed
qed

section \<open>Concrete runs of the engine\<close>

lemma stub_facts:
  "Model stubRequest = ''claude-sonnet-4-5''"
  "Stream stubRequest = False"
  "GetCredential stubAccount ''project_id'' = ''project-1''"
  "getMappedModel stubAccount ''claude-sonnet-4-5'' = ''claude-sonnet-4-5''"
  "getMappedModel stubAccount ''gemini-3-flash'' = ''gemini-3-flash''"
  "trimSpaceASCII ''project-1'' = ''project-1''"
  "trimSpaceASCII ''claude-sonnet-4-5'' = ''claude-sonnet-4-5''"
  "trimSpaceASCII ''gemini-3-flash'' = ''gemini-3-flash''"
  "trimSpaceASCII ''countTokens'' = ''countTokens''"
  "trimSpaceASCII ''generateContent'' = ''generateContent''"
  "tokenProvider (stubService replies) = Some (Some ''token'')"
  "rateLimitService (stubService replies) = True"
  "requestBuilds (stubService replies) = True"
  "httpUpstream (stubService replies) k = replies k"
  "StatusCode (stubResponse status) = status"
  "XRequestID (stubResponse status) = ''''"
  "handleClaudeNonStreamingResponse stubHandlers resp originalModel = Inr zeroUsage"
  "handleGeminiNonStreamingResponse stubHandlers resp = Inr (Some zeroUsage)"
  by (simp_all add: stubAccount_def stubRequest_def stubResponse_def stubService_def
      stubHandlers_def getMappedModel_def antigravityModelMapping_def
      antigravitySupportedModels_def trimSpaceASCII_def isSpaceByte_def)

lemma stub_transform:
  "TransformClaudeToGemini trimSpaceASCII [] stubRequest ''project-1'' ''claude-sonnet-4-5'' =
   Inr \<lparr>v1Model = ''claude-sonnet-4-5'',
        Request = \<lparr>Contents = [\<lparr>Role = ''user'', Parts = [zeroPart\<lparr>Text := ''hello''\<rparr>]\<rparr>],
                   GenerationConfig = Some \<lparr>MaxOutputTokens = 64000, StopSequences = [],
                     GenThinkingConfig = None, GenTemperature = None, GenTopP = None,
                     GenTopK = None\<rparr>\<rparr>\<rparr>"
  by (simp add: stubRequest_def TransformClaudeToGemini_def TransformClaudeToGeminiWithOptions_def
      buildContents_def buildParts_def buildGenerationConfig_def trimSpaceASCII_def isSpaceByte_def)

lemmas loop_eval = stub_facts noEffects_def antigravityMaxRetries_def
  shouldRetryUpstreamError_def doUpstream_def sleepAntigravityBackoff_def Let_def
  handleUpstreamError_def

theorem Forward_retries_503_witness:
  "fst (Forward trimSpaceASCII []
          (stubService (\<lambda>k. Reply (stubResponse (if k < 5 then 503 else 200))))
          stubHandlers stubAccount (Some stubRequest)) =
     Inr \<lparr>RequestID = '''', Usage = zeroUsage, ResultModel = ''claude-sonnet-4-5'',
          ResultStream = False, FirstTokenMs = None\<rparr> \<and>
   upstreamCalls (snd (Forward trimSpaceASCII []
          (stubService (\<lambda>k. Reply (stubResponse (if k < 5 then 503 else 200))))
          stubHandlers stubAccount (Some stubRequest))) = 5 \<and>
   fst (Forward trimSpaceASCII [] (stubService (\<lambda>k. Reply (stubResponse 503)))
          stubHandlers stubAccount (Some stubRequest)) =
     Inl (UpstreamFailoverError 503) \<and>
   upstreamCalls (snd (Forward trimSpaceASCII [] (stubService (\<lambda>k. Reply (stubResponse 503)))
          stubHandlers stubAccount (Some stubRequest))) = 5"
proof -
  let ?up = "stubService (\<lambda>k. Reply (stubResponse (if k < 5 then 503 else 200)))"
  let ?down = "stubService (\<lambda>k. Reply (stubResponse 503))"
  have model: "trimSpaceASCII (Model stubRequest) \<noteq> ''''"
    by (simp add: stub_facts)
  have token: "tokenProvider ?up = Some (Some ''token'')"
    "tokenProvider ?down = Some (Some ''token'')"
    by (simp_all add: stub_facts)
  have project: "trimSpaceASCII (GetCredential stubAccount ''project_id'') \<noteq> ''''"
    by (simp add: stub_facts)
  have transform: "TransformClaudeToGemini trimSpaceASCII [] stubRequest
        (trimSpaceASCII (GetCredential stubAccount ''project_id''))
        (getMappedModel stubAccount (Model stubRequest)) =
      Inr \<lparr>v1Model = ''claude-sonnet-4-5'',
        Request = \<lparr>Contents = [\<lparr>Role = ''user'', Parts = [zeroPart\<lparr>Text := ''hello''\<rparr>]\<rparr>],
                   GenerationConfig = Some \<lparr>MaxOutputTokens = 64000, StopSequences = [],
                     GenThinkingConfig = None, GenTemperature = None, GenTopP = None,
                     GenTopK = None\<rparr>\<rparr>\<rparr>"
    by (simp add: stub_facts stub_transform)
  have builds: "requestBuilds ?up" "requestBuilds ?down"
    by (simp_all add: stub_facts)
  have first:
    "\<forall>k. 1 \<le> k \<and> k < antigravityMaxRetries \<longrightarrow>
       (\<exists>r. httpUpstream ?up k = Reply r \<and> StatusCode r = 503)"
    "\<forall>k. 1 \<le> k \<and> k < antigravityMaxRetries \<longrightarrow>
       (\<exists>r. httpUpstream ?down k = Reply r \<and> StatusCode r = 503)"
    by (simp_all add: stub_facts antigravityMaxRetries_def)
  have last: "httpUpstream ?up antigravityMaxRetries = Reply (stubResponse 200)"
    "httpUpstream ?down antigravityMaxRetries = Reply (stubResponse 503)"
    by (simp_all add: stub_facts antigravityMaxRetries_def)
  note up = Forward_retries_503[OF refl model token(1) project transform builds(1) first(1)
      last(1), where h = stubHandlers and usage = zeroUsage and firstTokenMs = None]
  note down = Forward_retries_503[OF refl model token(2) project transform builds(2) first(2)
      last(2), where h = stubHandlers and usage = zeroUsage and firstTokenMs = None]
  show ?thesis
    using up down by (simp add: stub_facts antigravityMaxRetries_def)
qed

text \<open>
  Claim C7, as stated, fails. In the loop of \<open>Forward\<close> the test
  \<open>attempt < antigravityMaxRetries\<close> comes first and continues, so a 429 that is
  retried never reaches \<open>handleUpstreamError\<close>: with 429 on the first call and 200 on
  the second, \<open>Forward\<close> succeeds and the rate-limit service has heard nothing.
\<close>

theorem Forward_retried_429_counterexample:
  "Forward trimSpaceASCII []
      (stubService (\<lambda>k. Reply (stubResponse (if k = 1 then 429 else 200))))
      stubHandlers stubAccount (Some stubRequest) =
     (Inr \<lparr>RequestID = '''', Usage = zeroUsage, ResultModel = ''claude-sonnet-4-5'',
            ResultStream = False, FirstTokenMs = None\<rparr>,
      \<lparr>upstreamCalls = 2, notified = [], backoffs = [1], written = []\<rparr>)"
proof -
  have a: "ForwardLoop (stubService (\<lambda>k. Reply (stubResponse (if k = 1 then 429 else 200))))
        1 noEffects =
     (Break (stubResponse 200),
      \<lparr>upstreamCalls = 2, notified = [], backoffs = [1], written = []\<rparr>)"
    by (simp add: ForwardLoop.simps loop_eval)
  show ?thesis
    using a
    by (simp add: Forward_def stub_facts stub_transform Let_def)
qed

theorem ForwardGemini_countTokens_degrades_witness:
  "ForwardGemini trimSpaceASCII (\<lambda>body. 7) (stubService (\<lambda>k. Reply (stubResponse 503)))
      stubHandlers stubAccount ''gemini-3-flash'' ''countTokens'' False (JSONBody ()) =
     (Inr \<lparr>RequestID = '''', Usage = zeroUsage, ResultModel = ''gemini-3-flash'',
            ResultStream = False, FirstTokenMs = None\<rparr>,
      \<lparr>upstreamCalls = 5, notified = [], backoffs = [1, 2, 3, 4],
       written = [WriteTotalTokens 200 7]\<rparr>) \<and>
   ForwardGemini trimSpaceASCII (\<lambda>body. 7) (stubService (\<lambda>k. TransportError))
      stubHandlers stubAccount ''gemini-3-flash'' ''countTokens'' False (JSONBody ()) =
     (Inr \<lparr>RequestID = '''', Usage = zeroUsage, ResultModel = ''gemini-3-flash'',
            ResultStream = False, FirstTokenMs = None\<rparr>,
      \<lparr>upstreamCalls = 5, notified = [], backoffs = [1, 2, 3, 4],
       written = [WriteTotalTokens 200 7]\<rparr>) \<and>
   ForwardGemini trimSpaceASCII (\<lambda>body. 7) (stubService (\<lambda>k. Reply (stubResponse 400)))
      stubHandlers stubAccount ''gemini-3-flash'' ''countTokens'' False (JSONBody ()) =
     (Inr \<lparr>RequestID = '''', Usage = zeroUsage, ResultModel = ''gemini-3-flash'',
            ResultStream = False, FirstTokenMs = None\<rparr>,
      \<lparr>upstreamCalls = 1, notified = [400], backoffs = [],
       written = [WriteTotalTokens 200 7]\<rparr>)"
proof -
  have a: "ForwardGeminiLoop (\<lambda>body. 7) (stubService (\<lambda>k. Reply (stubResponse 503)))
        ''gemini-3-flash'' ''countTokens'' (JSONBody ()) 1 noEffects =
     (ReturnResult \<lparr>RequestID = '''', Usage = zeroUsage, ResultModel = ''gemini-3-flash'',
            ResultStream = False, FirstTokenMs = None\<rparr>,
      \<lparr>upstreamCalls = 5, notified = [], backoffs = [1, 2, 3, 4],
       written = [WriteTotalTokens 200 7]\<rparr>)"
    by (simp add: ForwardGeminiLoop.simps loop_eval countTokensFallback_def)
  have b: "ForwardGeminiLoop (\<lambda>body. 7) (stubService (\<lambda>k. TransportError))
        ''gemini-3-flash'' ''countTokens'' (JSONBody ()) 1 noEffects =
     (ReturnResult \<lparr>RequestID = '''', Usage = zeroUsage, ResultModel = ''gemini-3-flash'',
            ResultStream = False, FirstTokenMs = None\<rparr>,
      \<lparr>upstreamCalls = 5, notified = [], backoffs = [1, 2, 3, 4],
       written = [WriteTotalTokens 200 7]\<rparr>)"
    by (simp add: ForwardGeminiLoop.simps loop_eval countTokensFallback_def)
  have c: "ForwardGeminiLoop (\<lambda>body. 7) (stubService (\<lambda>k. Reply (stubResponse 400)))
        ''gemini-3-flash'' ''countTokens'' (JSONBody ()) 1 noEffects =
     (Break (stubResponse 400),
      \<lparr>upstreamCalls = 1, notified = [], backoffs = [], written = []\<rparr>)"
    by (simp add: ForwardGeminiLoop.simps loop_eval)
  have runs:
    "ForwardGemini trimSpaceASCII (\<lambda>body. 7) (stubService (\<lambda>k. Reply (stubResponse 503)))
      stubHandlers stubAccount ''gemini-3-flash'' ''countTokens'' False (JSONBody ()) =
     (Inr \<lparr>RequestID = '''', Usage = zeroUsage, ResultModel = ''gemini-3-flash'',
            ResultStream = False, FirstTokenMs = None\<rparr>,
      \<lparr>upstreamCalls = 5, notified = [], backoffs = [1, 2, 3, 4],
       written = [WriteTotalTokens 200 7]\<rparr>)"
    "ForwardGemini trimSpaceASCII (\<lambda>body. 7) (stubService (\<lambda>k. TransportError))
      stubHandlers stubAccount ''gemini-3-flash'' ''countTokens'' False (JSONBody ()) =
     (Inr \<lparr>RequestID = '''', Usage = zeroUsage, ResultModel = ''gemini-3-flash'',
            ResultStream = False, FirstTokenMs = None\<rparr>,
      \<lparr>upstreamCalls = 5, notified = [], backoffs = [1, 2, 3, 4],
       written = [WriteTotalTokens 200 7]\<rparr>)"
    "ForwardGemini trimSpaceASCII (\<lambda>body. 7) (stubService (\<lambda>k. Reply (stubResponse 400)))
      stubHandlers stubAccount ''gemini-3-flash'' ''countTokens'' False (JSONBody ()) =
     (Inr \<lparr>RequestID = '''', Usage = zeroUsage, ResultModel = ''gemini-3-flash'',
            ResultStream = False, FirstTokenMs = None\<rparr>,
      \<lparr>upstreamCalls = 1, notified = [400], backoffs = [],
       written = [WriteTotalTokens 200 7]\<rparr>)"
    using a b c
    by (simp_all add: ForwardGemini_def stub_facts Let_def countTokensFallback_def
        handleUpstreamError_def)
  have pre: "trimSpaceASCII ''gemini-3-flash'' \<noteq> ''''" "trimSpaceASCII ''countTokens'' \<noteq> ''''"
    "trimSpaceASCII (GetCredential stubAccount ''project_id'') \<noteq> ''''"
    by (simp_all add: stub_facts)
  have token: "tokenProvider (stubService replies) = Some (Some ''token'')" for replies
    by (simp add: stub_facts)
  have builds: "requestBuilds (stubService replies)" for replies
    by (simp add: stub_facts)
  have failed:
    "httpUpstream (stubService (\<lambda>k. Reply (stubResponse 503)))
        (upstreamCalls \<lparr>upstreamCalls = 5, notified = [], backoffs = [1, 2, 3, 4],
           written = [WriteTotalTokens 200 7]\<rparr>) = TransportError \<or>
     (\<exists>resp. httpUpstream (stubService (\<lambda>k. Reply (stubResponse 503)))
        (upstreamCalls \<lparr>upstreamCalls = 5, notified = [], backoffs = [1, 2, 3, 4],
           written = [WriteTotalTokens 200 7]\<rparr>) = Reply resp \<and> StatusCode resp \<ge> 400)"
    "httpUpstream (stubService (\<lambda>k. TransportError))
        (upstreamCalls \<lparr>upstreamCalls = 5, notified = [], backoffs = [1, 2, 3, 4],
           written = [WriteTotalTokens 200 7]\<rparr>) = TransportError \<or>
     (\<exists>resp. httpUpstream (stubService (\<lambda>k. TransportError))
        (upstreamCalls \<lparr>upstreamCalls = 5, notified = [], backoffs = [1, 2, 3, 4],
           written = [WriteTotalTokens 200 7]\<rparr>) = Reply resp \<and> StatusCode resp \<ge> 400)"
    "httpUpstream (stubService (\<lambda>k. Reply (stubResponse 400)))
        (upstreamCalls \<lparr>upstreamCalls = 1, notified = [400], backoffs = [],
           written = [WriteTotalTokens 200 7]\<rparr>) = TransportError \<or>
     (\<exists>resp. httpUpstream (stubService (\<lambda>k. Reply (stubResponse 400)))
        (upstreamCalls \<lparr>upstreamCalls = 1, notified = [400], backoffs = [],
           written = [WriteTotalTokens 200 7]\<rparr>) = Reply resp \<and> StatusCode resp \<ge> 400)"
    by (simp_all add: stub_facts)
  note r1 = ForwardGemini_countTokens_degrades[OF pre(1) refl pre(2) refl token pre(3) builds
      runs(1) failed(1)]
  note r2 = ForwardGemini_countTokens_degrades[OF pre(1) refl pre(2) refl token pre(3) builds
      runs(2) failed(2)]
  note r3 = ForwardGemini_countTokens_degrades[OF pre(1) refl pre(2) refl token pre(3) builds
      runs(3) failed(3)]
  show ?thesis
    using runs r1 r2 r3 by simp
qed

theorem Forward_notifies_only_when_loop_ends_witness:
  "notified (snd (Forward trimSpaceASCII []
      (stubService (\<lambda>k. Reply (stubResponse (if k = 1 then 429 else 200))))
      stubHandlers stubAccount (Some stubRequest))) = [] \<and>
   upstreamCalls (snd (Forward trimSpaceASCII []
      (stubService (\<lambda>k. Reply (stubResponse (if k = 1 then 429 else 200))))
      stubHandlers stubAccount (Some stubRequest))) = 2 \<and>
   notified (snd (Forward trimSpaceASCII [] (stubService (\<lambda>k. Reply (stubResponse 429)))
      stubHandlers stubAccount (Some stubRequest))) = [429, 429] \<and>
   notified (snd (Forward trimSpaceASCII [] (stubService (\<lambda>k. Reply (stubResponse 503)))
      stubHandlers stubAccount (Some stubRequest))) = [503] \<and>
   notified (snd (Forward trimSpaceASCII []
      (stubService (\<lambda>k. if k < 3 then Reply (stubResponse 429) else TransportError))
      stubHandlers stubAccount (Some stubRequest))) = []"
proof -
  let ?once = "stubService (\<lambda>k. Reply (stubResponse (if k = 1 then 429 else 200)))"
  let ?limited = "stubService (\<lambda>k. Reply (stubResponse 429))"
  let ?down = "stubService (\<lambda>k. Reply (stubResponse 503))"
  let ?lost = "stubService (\<lambda>k. if k < 3 then Reply (stubResponse 429) else TransportError)"
  have model: "trimSpaceASCII (Model stubRequest) \<noteq> ''''"
    by (simp add: stub_facts)
  have token: "tokenProvider (stubService replies) = Some (Some ''token'')" for replies
    by (simp add: stub_facts)
  have project: "trimSpaceASCII (GetCredential stubAccount ''project_id'') \<noteq> ''''"
    by (simp add: stub_facts)
  have transform: "TransformClaudeToGemini trimSpaceASCII [] stubRequest
        (trimSpaceASCII (GetCredential stubAccount ''project_id''))
        (getMappedModel stubAccount (Model stubRequest)) =
      Inr \<lparr>v1Model = ''claude-sonnet-4-5'',
        Request = \<lparr>Contents = [\<lparr>Role = ''user'', Parts = [zeroPart\<lparr>Text := ''hello''\<rparr>]\<rparr>],
                   GenerationConfig = Some \<lparr>MaxOutputTokens = 64000, StopSequences = [],
                     GenThinkingConfig = None, GenTemperature = None, GenTopP = None,
                     GenTopK = None\<rparr>\<rparr>\<rparr>"
    by (simp add: stub_facts stub_transform)
  have builds: "requestBuilds (stubService replies)" for replies
    by (simp add: stub_facts)
  have two: "1 \<le> (2::nat)" "2 \<le> antigravityMaxRetries"
    and five: "1 \<le> (5::nat)" "5 \<le> antigravityMaxRetries"
    by (simp_all add: antigravityMaxRetries_def)
  have first:
    "\<forall>k. 1 \<le> k \<and> k < 2 \<longrightarrow>
       httpUpstream ?once k = TransportError \<or>
       (\<exists>r. httpUpstream ?once k = Reply r \<and> shouldRetryUpstreamError (StatusCode r))"
    "\<forall>k. 1 \<le> k \<and> k < 5 \<longrightarrow>
       httpUpstream ?limited k = TransportError \<or>
       (\<exists>r. httpUpstream ?limited k = Reply r \<and> shouldRetryUpstreamError (StatusCode r))"
    "\<forall>k. 1 \<le> k \<and> k < 5 \<longrightarrow>
       httpUpstream ?down k = TransportError \<or>
       (\<exists>r. httpUpstream ?down k = Reply r \<and> shouldRetryUpstreamError (StatusCode r))"
    "\<forall>k. 1 \<le> k \<and> k < 5 \<longrightarrow>
       httpUpstream ?lost k = TransportError \<or>
       (\<exists>r. httpUpstream ?lost k = Reply r \<and> shouldRetryUpstreamError (StatusCode r))"
    by (simp_all add: stub_facts shouldRetryUpstreamError_def)
  note once = Forward_notifies_only_when_loop_ends[OF refl model token project transform builds
      two first(1), where h = stubHandlers]
  note limited = Forward_notifies_only_when_loop_ends[OF refl model token project transform builds
      five first(2), where h = stubHandlers]
  note down = Forward_notifies_only_when_loop_ends[OF refl model token project transform builds
      five first(3), where h = stubHandlers]
  note lost = Forward_notifies_only_when_loop_ends[OF refl model token project transform builds
      five first(4), where h = stubHandlers]
  have ended:
    "httpUpstream ?once 2 = Reply (stubResponse 200) \<and>
     \<not> shouldRetryUpstreamError (StatusCode (stubResponse 200))"
    "5 = antigravityMaxRetries \<and> httpUpstream ?limited 5 = Reply (stubResponse 429) \<and>
     shouldRetryUpstreamError (StatusCode (stubResponse 429))"
    "5 = antigravityMaxRetries \<and> httpUpstream ?down 5 = Reply (stubResponse 503) \<and>
     shouldRetryUpstreamError (StatusCode (stubResponse 503))"
    "5 = antigravityMaxRetries \<and> httpUpstream ?lost 5 = TransportError"
    by (simp_all add: stub_facts shouldRetryUpstreamError_def antigravityMaxRetries_def)
  have r1: "notified (snd (Forward trimSpaceASCII [] ?once stubHandlers stubAccount (Some stubRequest))) =
        (if rateLimitService ?once \<and> StatusCode (stubResponse 200) \<ge> 400
         then [StatusCode (stubResponse 200)] else []) \<and>
      upstreamCalls (snd (Forward trimSpaceASCII [] ?once stubHandlers stubAccount (Some stubRequest))) = 2"
    using once ended(1) by blast
  have r2: "notified (snd (Forward trimSpaceASCII [] ?limited stubHandlers stubAccount (Some stubRequest))) =
        (if rateLimitService ?limited
         then (if StatusCode (stubResponse 429) = 429 then [429, 429]
               else [StatusCode (stubResponse 429)])
         else [])"
    using limited ended(2) by blast
  have r3: "notified (snd (Forward trimSpaceASCII [] ?down stubHandlers stubAccount (Some stubRequest))) =
        (if rateLimitService ?down
         then (if StatusCode (stubResponse 503) = 429 then [429, 429]
               else [StatusCode (stubResponse 503)])
         else [])"
    using down ended(3) by blast
  have r4: "notified (snd (Forward trimSpaceASCII [] ?lost stubHandlers stubAccount (Some stubRequest))) = []"
    using lost ended(4) by blast
  show ?thesis
    using r1 r2 r3 r4 by (simp add: stub_facts)
qed

section \<open>The request transformer\<close>

lemma buildBlock_length:
  "length (fst (buildBlock T allow tm b)) = length (fst (buildBlock T allow tm2 b))"
  by (simp add: buildBlock_def Let_def split: option.splits)

lemma buildPartsLoop_length:
  "length (fst (buildPartsLoop T allow bs acc st tm)) =
   length acc + length (fst (buildPartsLoop T allow bs [] st2 tm2))"
proof (induction bs arbitrary: acc st tm st2 tm2)
  case Nil
  show ?case by simp
next
  case (Cons b bs)
  obtain n1 s1 t1 where b1: "buildBlock T allow tm b = (n1, s1, t1)" by (cases "buildBlock T allow tm b")
  obtain n2 s2 t2 where b2: "buildBlock T allow tm2 b = (n2, s2, t2)" by (cases "buildBlock T allow tm2 b")
  have len: "length n1 = length n2"
    using buildBlock_length[of T allow tm b tm2] b1 b2 by simp
  have "length (fst (buildPartsLoop T allow bs (acc @ n1) (st \<or> s1) t1)) =
        length (acc @ n1) + length (fst (buildPartsLoop T allow bs [] False Map.empty))"
    by (rule Cons.IH)
  moreover have "length (fst (buildPartsLoop T allow bs ([] @ n2) (st2 \<or> s2) t2)) =
        length ([] @ n2) + length (fst (buildPartsLoop T allow bs [] False Map.empty))"
    by (rule Cons.IH)
  ultimately show ?case using b1 b2 len by simp
qed

lemma buildParts_empty_iff:
  assumes "buildParts T c tm allow = Inr (parts, s, tm')"
  shows "(parts = []) = (messageParts T allow \<lparr>msgRole = r, msgContent = c\<rparr> = [])"
proof (cases c)
  case (ContentText t)
  then show ?thesis using assms by (auto simp: buildParts_def messageParts_def split: if_splits)
next
  case (ContentBlocks bs)
  have "length (fst (buildPartsLoop T allow bs [] False tm)) =
        length (fst (buildPartsLoop T allow bs [] False Map.empty))"
    using buildPartsLoop_length[of T allow bs "[]" False tm False Map.empty] by simp
  moreover have "parts = fst (buildPartsLoop T allow bs [] False tm)"
    using assms ContentBlocks by (simp add: buildParts_def)
  moreover have "messageParts T allow \<lparr>msgRole = r, msgContent = c\<rparr> =
      fst (buildPartsLoop T allow bs [] False Map.empty)"
    using ContentBlocks by (simp add: messageParts_def buildParts_def split: prod.splits)
  ultimately show ?thesis by (metis length_0_conv)
next
  case ContentInvalid
  then show ?thesis using assms by (simp add: buildParts_def)
qed

lemma messageParts_cong:
  "messageParts T allow m = messageParts T allow \<lparr>msgRole = r, msgContent = msgContent m\<rparr>"
  by (simp add: messageParts_def)

lemma buildContentsLoop_Cons:
  assumes "buildParts T (msgContent m) tm allow = Inr (parts, s1, tm1)"
  shows "buildContentsLoop T i (m # rest) tm think allow acc st =
     (if withDummy (allow \<and> targetRole m = ''model'' \<and> think \<and> rest = []) parts = [] then
        buildContentsLoop T (Suc i) rest tm1 think allow acc (st \<or> s1)
      else
        buildContentsLoop T (Suc i) rest tm1 think allow
          (acc @ [\<lparr>Role = targetRole m,
                   Parts = withDummy (allow \<and> targetRole m = ''model'' \<and> think \<and> rest = []) parts\<rparr>])
          (st \<or> s1))"
  using assms
  by (subst buildContentsLoop.simps, unfold Let_def withDummy_def targetRole_def) simp

lemma buildContentsLoop_Cons_error:
  assumes "buildParts T (msgContent m) tm allow = Inl err"
  shows "buildContentsLoop T i (m # rest) tm think allow acc st = Inl (BuildPartsForMessage i err)"
  using assms by (simp add: Let_def)

lemma withDummy_empty: "(withDummy final parts = []) = (parts = [])"
  by (auto simp: withDummy_def)

lemma buildContentsLoop_entries:
  assumes "buildContentsLoop T i msgs tm think allow acc st = Inr (contents, st', tm')"
  shows "(list_all (\<lambda>c. Parts c \<noteq> []) acc \<longrightarrow> list_all (\<lambda>c. Parts c \<noteq> []) contents) \<and>
         map Role contents =
           map Role acc @ map targetRole (filter (\<lambda>m. messageParts T allow m \<noteq> []) msgs)"
  using assms
proof (induction msgs arbitrary: i tm acc st)
  case Nil
  then show ?case by simp
next
  case (Cons m rest)
  obtain parts s1 tm1 where bp: "buildParts T (msgContent m) tm allow = Inr (parts, s1, tm1)"
    using Cons.prems by (cases "buildParts T (msgContent m) tm allow")
      (auto simp: buildContentsLoop_Cons_error)
  let ?parts' = "withDummy (allow \<and> targetRole m = ''model'' \<and> think \<and> rest = []) parts"
  have me: "(parts = []) = (messageParts T allow m = [])"
    using buildParts_empty_iff[OF bp, of "msgRole m"] messageParts_cong[of T allow m "msgRole m"]
    by simp
  show ?case
  proof (cases "?parts' = []")
    case True
    then have "buildContentsLoop T (Suc i) rest tm1 think allow acc (st \<or> s1) = Inr (contents, st', tm')"
      using Cons.prems[unfolded buildContentsLoop_Cons[OF bp]] by simp
    from Cons.IH[OF this] show ?thesis
      using True me by (simp add: withDummy_empty)
  next
    case False
    then have "buildContentsLoop T (Suc i) rest tm1 think allow
        (acc @ [\<lparr>Role = targetRole m, Parts = ?parts'\<rparr>]) (st \<or> s1) = Inr (contents, st', tm')"
      using Cons.prems[unfolded buildContentsLoop_Cons[OF bp]] by simp
    from Cons.IH[OF this] show ?thesis
      using False me by (simp add: withDummy_empty)
  qed
qed

lemma buildPartsLoop_nothing:
  "list_all (reducesToNothing T) bs \<Longrightarrow>
   buildPartsLoop T allow bs acc st tm = (acc, st, tm)"
proof (induction bs arbitrary: acc st tm)
  case Nil
  show ?case by simp
next
  case (Cons b bs)
  have "buildBlock T allow tm b = ([], False, tm)"
    using Cons.prems
    by (auto simp: reducesToNothing_def buildBlock_def split: if_splits option.splits)
  then show ?case using Cons by simp
qed

text \<open>
  Claim C10. Every entry of the contents that \<open>buildContents\<close> returns has at least one
  part. The entries are, in order, those of the messages of which \<open>buildParts\<close> makes at
  least one part: a message of which it makes none has no entry. Among these are the
  messages whose text is the sentinel \<open>(no content)\<close> or blank, and those all of whose
  blocks are such text blocks, images without a base64 source, or blocks of a type the
  transformer does not know.
\<close>

theorem buildContents_entries_nonempty:
  assumes "buildContents T msgs tm think allow = Inr (contents, stripped, tm')"
  shows "list_all (\<lambda>c. Parts c \<noteq> []) contents \<and>
         map Role contents =
           map targetRole (filter (\<lambda>m. messageParts T allow m \<noteq> []) msgs) \<and>
         (\<forall>m\<in>set msgs.
            (case msgContent m of
               ContentText t \<Rightarrow> t = ''(no content)'' \<or> T t = ''''
             | ContentBlocks bs \<Rightarrow> list_all (reducesToNothing T) bs
             | ContentInvalid \<Rightarrow> False) \<longrightarrow>
            messageParts T allow m = [])"
proof -
  have "list_all (\<lambda>c. Parts c \<noteq> []) contents \<and>
        map Role contents = map targetRole (filter (\<lambda>m. messageParts T allow m \<noteq> []) msgs)"
    using buildContentsLoop_entries[OF assms[unfolded buildContents_def]] by simp
  moreover have "messageParts T allow m = []"
    if "case msgContent m of
               ContentText t \<Rightarrow> t = ''(no content)'' \<or> T t = ''''
             | ContentBlocks bs \<Rightarrow> list_all (reducesToNothing T) bs
             | ContentInvalid \<Rightarrow> False" for m :: "'a ClaudeMessage"
    using that
    by (cases "msgContent m")
      (auto simp: messageParts_def buildParts_def buildPartsLoop_nothing)
  ultimately show ?thesis by blast
qed

lemma buildContentsLoop_append:
  assumes "rest \<noteq> []"
  shows "buildContentsLoop T i (pre @ rest) tm think allow acc st =
     (case buildContentsLoop T i pre tm False allow acc st of
        Inl err \<Rightarrow> Inl err
      | Inr (contents, stripped, tm') \<Rightarrow>
          buildContentsLoop T (i + length pre) rest tm' think allow contents stripped)"
proof (induction pre arbitrary: i tm acc st)
  case Nil
  show ?case by simp
next
  case (Cons m pre)
  show ?case
  proof (cases "buildParts T (msgContent m) tm allow")
    case (Inl err)
    then show ?thesis
      by (simp del: buildContentsLoop.simps add: buildContentsLoop_Cons_error)
  next
    case (Inr r)
    obtain parts s1 tm1 where r: "r = (parts, s1, tm1)" by (cases r)
    note bp = Inr[unfolded r]
    have l: "buildContentsLoop T i ((m # pre) @ rest) tm think allow acc st =
        (if parts = [] then buildContentsLoop T (Suc i) (pre @ rest) tm1 think allow acc (st \<or> s1)
         else buildContentsLoop T (Suc i) (pre @ rest) tm1 think allow
               (acc @ [\<lparr>Role = targetRole m, Parts = parts\<rparr>]) (st \<or> s1))"
      using buildContentsLoop_Cons[OF bp, of i "pre @ rest" think acc st] assms
      by (simp del: buildContentsLoop.simps add: withDummy_def)
    have r: "buildContentsLoop T i (m # pre) tm False allow acc st =
        (if parts = [] then buildContentsLoop T (Suc i) pre tm1 False allow acc (st \<or> s1)
         else buildContentsLoop T (Suc i) pre tm1 False allow
               (acc @ [\<lparr>Role = targetRole m, Parts = parts\<rparr>]) (st \<or> s1))"
      using buildContentsLoop_Cons[OF bp, of i pre False acc st]
      by (simp del: buildContentsLoop.simps add: withDummy_def)
    show ?thesis
      unfolding l r using Cons.IH
      by (simp del: buildContentsLoop.simps split: sum.splits prod.splits)
  qed
qed

lemma buildContentsLoop_plain:
  assumes "buildContentsLoop T i msgs tm False allow acc st = Inr (contents, st', tm')"
  shows "\<exists>new. contents = acc @ new \<and>
           list_all2 (\<lambda>c m. Role c = targetRole m \<and>
                        (\<exists>tm0 s0 tm1. buildParts T (msgContent m) tm0 allow = Inr (Parts c, s0, tm1)))
             new (filter (\<lambda>m. messageParts T allow m \<noteq> []) msgs)"
  using assms
proof (induction msgs arbitrary: i tm acc st)
  case Nil
  then show ?case by simp
next
  case (Cons m rest)
  obtain parts s1 tm1 where bp: "buildParts T (msgContent m) tm allow = Inr (parts, s1, tm1)"
    using Cons.prems by (cases "buildParts T (msgContent m) tm allow")
      (auto simp: buildContentsLoop_Cons_error)
  have me: "(parts = []) = (messageParts T allow m = [])"
    using buildParts_empty_iff[OF bp, of "msgRole m"] messageParts_cong[of T allow m "msgRole m"]
    by simp
  note step = Cons.prems[unfolded buildContentsLoop_Cons[OF bp]]
  show ?case
  proof (cases "parts = []")
    case True
    then have "buildContentsLoop T (Suc i) rest tm1 False allow acc (st \<or> s1) = Inr (contents, st', tm')"
      using step by (simp add: withDummy_def)
    from Cons.IH[OF this] show ?thesis
      using True me by simp
  next
    case False
    then have "buildContentsLoop T (Suc i) rest tm1 False allow
        (acc @ [\<lparr>Role = targetRole m, Parts = parts\<rparr>]) (st \<or> s1) = Inr (contents, st', tm')"
      using step by (simp add: withDummy_def)
    from Cons.IH[OF this] obtain new where new: "contents = (acc @ [\<lparr>Role = targetRole m, Parts = parts\<rparr>]) @ new"
      "list_all2 (\<lambda>c m. Role c = targetRole m \<and>
                        (\<exists>tm0 s0 tm1. buildParts T (msgContent m) tm0 allow = Inr (Parts c, s0, tm1)))
             new (filter (\<lambda>m. messageParts T allow m \<noteq> []) rest)"
      by blast
    have "contents = acc @ (\<lparr>Role = targetRole m, Parts = parts\<rparr> # new)"
      using new(1) by simp
    moreover have "list_all2 (\<lambda>c m. Role c = targetRole m \<and>
                        (\<exists>tm0 s0 tm1. buildParts T (msgContent m) tm0 allow = Inr (Parts c, s0, tm1)))
             (\<lparr>Role = targetRole m, Parts = parts\<rparr> # new)
             (filter (\<lambda>m. messageParts T allow m \<noteq> []) (m # rest))"
      using new(2) False me bp by auto
    ultimately show ?thesis by blast
  qed
qed

text \<open>
  Claim C4, amended. Let the resolved backend model be in the \<open>gemini-\<close> family and
  thinking be requested, and let the message list end in the message \<open>m\<close>, after the
  messages \<open>pre\<close>. Then the contents of the request are the entries of \<open>pre\<close>,
  followed by what the transformer makes of \<open>m\<close>. If \<open>buildParts\<close> makes no part of
  \<open>m\<close>, that is nothing: no entry and no synthetic part. If \<open>m\<close> is an assistant
  message (target role \<open>model\<close>) with at least one part and no thought part, it is one
  entry: the synthetic thought part \<open>Thinking...\<close> with the fixed dummy signature, then
  the parts of \<open>m\<close>. In every other case it is one entry with the parts of \<open>m\<close>.
  The entries of \<open>pre\<close> are the ones that these messages yield with thinking not
  requested, where the transformer prepends nothing: there is one for each message of
  \<open>pre\<close> with at least one part, in order, and its parts are exactly the ones that
  \<open>buildParts\<close> makes of that message. So no message before the last receives the
  synthetic part, whatever the last message is.
\<close>

theorem synthetic_thought_only_on_final_message:
  assumes policy: "HasPrefix mappedModel ''gemini-''"
    and thinking: "Thinking claudeReq = Some t" "thinkingType t = ''enabled''"
    and msgs: "Messages claudeReq = pre @ [m]"
    and pre: "buildContents T pre Map.empty False True = Inr (contentsPre, strippedPre, tmPre)"
    and parts: "buildParts T (msgContent m) tmPre True = Inr (parts, strippedM, tmM)"
  shows "(\<exists>v1Req.
           TransformClaudeToGeminiWithOptions T stops claudeReq projectID mappedModel = Inr v1Req \<and>
           Contents (Request v1Req) =
             contentsPre @
               (if parts = [] then []
                else [\<lparr>Role = targetRole m,
                       Parts =
                         (if targetRole m = ''model'' \<and> \<not> list_ex Thought parts
                          then zeroPart\<lparr>Text := ''Thinking...'', Thought := True,
                                        ThoughtSignature := dummyThoughtSignature\<rparr> # parts
                          else parts)\<rparr>])) \<and>
         list_all2 (\<lambda>c msg. Role c = targetRole msg \<and>
                      (\<exists>tm0 s0 tm1. buildParts T (msgContent msg) tm0 True = Inr (Parts c, s0, tm1)))
           contentsPre (filter (\<lambda>msg. messageParts T True msg \<noteq> []) pre)"
proof -
  let ?final = "if parts = [] then []
                else [\<lparr>Role = targetRole m,
                       Parts =
                         (if targetRole m = ''model'' \<and> \<not> list_ex Thought parts
                          then zeroPart\<lparr>Text := ''Thinking...'', Thought := True,
                                        ThoughtSignature := dummyThoughtSignature\<rparr> # parts
                          else parts)\<rparr>]"
  have "buildContentsLoop T 0 (pre @ [m]) Map.empty True True [] False =
      buildContentsLoop T (0 + length pre) [m] tmPre True True contentsPre strippedPre"
    using buildContentsLoop_append[of "[m]" T 0 pre Map.empty True True "[]" False] pre
    by (simp add: buildContents_def del: buildContentsLoop.simps)
  also have "\<dots> = Inr (contentsPre @ ?final, strippedPre \<or> strippedM, tmM)"
    using buildContentsLoop_Cons[OF parts, of "0 + length pre" "[]" True contentsPre strippedPre]
    by (simp add: withDummy_def)
  finally have bc: "buildContents T (Messages claudeReq) Map.empty True True =
      Inr (contentsPre @ ?final, strippedPre \<or> strippedM, tmM)"
    using msgs by (simp add: buildContents_def)
  have run: "\<exists>v1Req.
           TransformClaudeToGeminiWithOptions T stops claudeReq projectID mappedModel = Inr v1Req \<and>
           Contents (Request v1Req) = contentsPre @ ?final"
    using bc policy thinking
    by (simp add: TransformClaudeToGeminiWithOptions_def Let_def)
  have plain: "list_all2 (\<lambda>c msg. Role c = targetRole msg \<and>
                      (\<exists>tm0 s0 tm1. buildParts T (msgContent msg) tm0 True = Inr (Parts c, s0, tm1)))
           contentsPre (filter (\<lambda>msg. messageParts T True msg \<noteq> []) pre)"
    using buildContentsLoop_plain[OF pre[unfolded buildContents_def]] by simp
  show ?thesis using run plain by (rule conjI)
qed

lemma buildBlock_unsigned_thinking:
  assumes "blockType b = ''thinking''" "blockSignature b = ''''"
  shows "buildBlock T False tm b =
     ((if T (blockThinking b) \<noteq> '''' then [zeroPart\<lparr>Text := blockThinking b\<rparr>] else []),
      True, tm)"
  using assms by (simp add: buildBlock_def Let_def)

lemma buildPartsLoop_mono:
  "set acc \<subseteq> set (fst (buildPartsLoop T allow bs acc st tm)) \<and>
   (st \<longrightarrow> fst (snd (buildPartsLoop T allow bs acc st tm)))"
proof (induction bs arbitrary: acc st tm)
  case Nil
  show ?case by simp
next
  case (Cons b bs)
  obtain n s t where bb: "buildBlock T allow tm b = (n, s, t)" by (cases "buildBlock T allow tm b")
  show ?case using Cons.IH[of "acc @ n" "st \<or> s" t] bb by auto
qed

lemma buildPartsLoop_unsigned_thinking:
  assumes "b \<in> set bs" "blockType b = ''thinking''" "blockSignature b = ''''"
  shows "fst (snd (buildPartsLoop T False bs acc st tm)) \<and>
         (T (blockThinking b) \<noteq> '''' \<longrightarrow>
            zeroPart\<lparr>Text := blockThinking b\<rparr> \<in> set (fst (buildPartsLoop T False bs acc st tm)))"
  using assms(1)
proof (induction bs arbitrary: acc st tm)
  case Nil
  then show ?case by simp
next
  case (Cons x bs)
  obtain n s t where bx: "buildBlock T False tm x = (n, s, t)" by (cases "buildBlock T False tm x")
  show ?case
  proof (cases "x = b")
    case True
    have n: "n = (if T (blockThinking b) \<noteq> '''' then [zeroPart\<lparr>Text := blockThinking b\<rparr>] else [])"
      and s: "s" using bx True buildBlock_unsigned_thinking[OF assms(2,3), of T tm] by simp_all
    show ?thesis
      using buildPartsLoop_mono[of "acc @ n" T False bs "st \<or> s" t] bx n s by auto
  next
    case False
    then have "b \<in> set bs" using Cons.prems by simp
    from Cons.IH[OF this, of "acc @ n" "st \<or> s" t] show ?thesis using bx by simp
  qed
qed

lemma buildContentsLoop_mono:
  assumes "buildContentsLoop T i msgs tm think allow acc st = Inr (contents, st', tm')"
  shows "set acc \<subseteq> set contents \<and> (st \<longrightarrow> st')"
  using assms
proof (induction msgs arbitrary: i tm acc st)
  case Nil
  then show ?case by simp
next
  case (Cons m rest)
  obtain parts s1 tm1 where bp: "buildParts T (msgContent m) tm allow = Inr (parts, s1, tm1)"
    using Cons.prems by (cases "buildParts T (msgContent m) tm allow")
      (auto simp: buildContentsLoop_Cons_error)
  show ?case
    using Cons.prems[unfolded buildContentsLoop_Cons[OF bp]] Cons.IH
    by (fastforce split: if_splits)
qed

lemma buildContentsLoop_unsigned_thinking:
  assumes run: "buildContentsLoop T i msgs tm think False acc st = Inr (contents, st', tm')"
    and m: "m \<in> set msgs" "msgContent m = ContentBlocks bs"
    and b: "b \<in> set bs" "blockType b = ''thinking''" "blockSignature b = ''''"
  shows "st' \<and>
         (T (blockThinking b) \<noteq> '''' \<longrightarrow>
            (\<exists>c\<in>set contents. Role c = targetRole m \<and>
                 zeroPart\<lparr>Text := blockThinking b\<rparr> \<in> set (Parts c)))"
  using run m(1)
proof (induction msgs arbitrary: i tm acc st)
  case Nil
  then show ?case by simp
next
  case (Cons x rest)
  obtain parts s1 tm1 where bp: "buildParts T (msgContent x) tm False = Inr (parts, s1, tm1)"
    using Cons.prems(1) by (cases "buildParts T (msgContent x) tm False")
      (auto simp: buildContentsLoop_Cons_error)
  note step = Cons.prems(1)[unfolded buildContentsLoop_Cons[OF bp]]
  show ?case
  proof (cases "x = m")
    case True
    have loop: "buildPartsLoop T False bs [] False tm = (parts, s1, tm1)"
      using bp True m(2) by (simp add: buildParts_def)
    have s1: "s1" and mem: "T (blockThinking b) \<noteq> '''' \<longrightarrow> zeroPart\<lparr>Text := blockThinking b\<rparr> \<in> set parts"
      using buildPartsLoop_unsigned_thinking[OF b, of T "[]" False tm] loop by simp_all
    show ?thesis
    proof (cases "parts = []")
      case True
      then have "buildContentsLoop T (Suc i) rest tm1 think False acc (st \<or> s1) = Inr (contents, st', tm')"
        using step by (simp add: withDummy_def)
      from buildContentsLoop_mono[OF this] show ?thesis using s1 mem True by simp
    next
      case False
      then have "buildContentsLoop T (Suc i) rest tm1 think False
          (acc @ [\<lparr>Role = targetRole x, Parts = parts\<rparr>]) (st \<or> s1) = Inr (contents, st', tm')"
        using step by (simp add: withDummy_def)
      from buildContentsLoop_mono[OF this] show ?thesis
        using s1 mem \<open>x = m\<close> by force
    qed
  next
    case False
    then have "m \<in> set rest" using Cons.prems(2) by simp
    then show ?thesis
      using step Cons.IH by (auto split: if_splits)
  qed
qed

text \<open>
  Claim C5, amended. Under the genuine-signature policy, let a message hold a thinking
  block with an empty signature, and let the transformer succeed. Then the generation
  config of the request has no thinking config. The block never becomes a thought part:
  if its text is not blank it becomes one plain text part with that text, found in the
  entry of its message; if its text is blank it leaves no part at all.
\<close>

theorem unsigned_thinking_downgraded:
  assumes policy: "\<not> HasPrefix mappedModel ''gemini-''"
    and m: "m \<in> set (Messages claudeReq)" "msgContent m = ContentBlocks bs"
    and b: "b \<in> set bs" "blockType b = ''thinking''" "blockSignature b = ''''"
    and run: "TransformClaudeToGeminiWithOptions T stops claudeReq projectID mappedModel = Inr v1Req"
  shows "(\<exists>config. GenerationConfig (Request v1Req) = Some config \<and> GenThinkingConfig config = None) \<and>
         (T (blockThinking b) \<noteq> '''' \<longrightarrow>
            (\<exists>c\<in>set (Contents (Request v1Req)). Role c = targetRole m \<and>
                 zeroPart\<lparr>Text := blockThinking b\<rparr> \<in> set (Parts c))) \<and>
         fst (buildBlock T False tm b) =
           (if T (blockThinking b) \<noteq> '''' then [zeroPart\<lparr>Text := blockThinking b\<rparr>] else [])"
proof -
  let ?think = "case Thinking claudeReq of Some t \<Rightarrow> thinkingType t = ''enabled'' | None \<Rightarrow> False"
  obtain contents stripped tm' where bc:
    "buildContents T (Messages claudeReq) Map.empty ?think False = Inr (contents, stripped, tm')"
    using run policy
    by (cases "buildContents T (Messages claudeReq) Map.empty ?think False")
      (auto simp: TransformClaudeToGeminiWithOptions_def Let_def)
  have facts: "stripped \<and>
         (T (blockThinking b) \<noteq> '''' \<longrightarrow>
            (\<exists>c\<in>set contents. Role c = targetRole m \<and>
                 zeroPart\<lparr>Text := blockThinking b\<rparr> \<in> set (Parts c)))"
    using buildContentsLoop_unsigned_thinking[OF bc[unfolded buildContents_def] m b] .
  have v: "v1Req = \<lparr>v1Model = mappedModel,
       Request = \<lparr>Contents = contents,
          GenerationConfig = Some (buildGenerationConfig stops (claudeReq\<lparr>Thinking := None\<rparr>))\<rparr>\<rparr>"
    using run policy bc facts
    by (simp add: TransformClaudeToGeminiWithOptions_def Let_def)
  have "GenThinkingConfig (buildGenerationConfig stops (claudeReq\<lparr>Thinking := None\<rparr>)) = None"
    by (simp add: buildGenerationConfig_def Let_def)
  then show ?thesis
    using v facts buildBlock_unsigned_thinking[OF b(2,3), of T tm] by simp
qed

section \<open>Concrete runs of the transformer\<close>

lemmas transform_eval = TransformClaudeToGeminiWithOptions_def buildContents_def buildParts_def
  buildBlock_def buildGenerationConfig_def trimSpaceASCII_def isSpaceByte_def zeroBlock_def
  dummyThoughtSignature_def Let_def

text \<open>
  Claim C4, as stated, fails when the last assistant message leaves no part. The
  transformer prepends the synthetic thought part only if \<open>len(parts) > 0\<close>; a last
  assistant message whose only text is the sentinel \<open>(no content)\<close> gets no entry, and
  the request below has no thought part anywhere.
\<close>

theorem final_assistant_without_parts_counterexample:
  "TransformClaudeToGeminiWithOptions trimSpaceASCII []
     \<lparr>Model = ''gemini-3-flash'',
      Messages = [\<lparr>msgRole = ''user'', msgContent = ContentText ''hello''\<rparr>,
                  \<lparr>msgRole = ''assistant'',
                   msgContent = ContentBlocks
                     [zeroBlock\<lparr>blockType := ''text'', blockText := ''(no content)''\<rparr>]\<rparr>],
      Thinking = Some \<lparr>thinkingType = ''enabled'', BudgetTokens = 1024\<rparr>,
      Temperature = None :: unit option, TopP = None, TopK = None, Stream = False\<rparr>
     ''project-1'' ''gemini-3-flash'' =
   Inr \<lparr>v1Model = ''gemini-3-flash'',
        Request =
          \<lparr>Contents = [\<lparr>Role = ''user'', Parts = [zeroPart\<lparr>Text := ''hello''\<rparr>]\<rparr>],
           GenerationConfig =
             Some \<lparr>MaxOutputTokens = 64000, StopSequences = [],
                   GenThinkingConfig = Some \<lparr>IncludeThoughts = True, ThinkingBudget = 1024\<rparr>,
                   GenTemperature = None, GenTopP = None, GenTopK = None\<rparr>\<rparr>\<rparr>"
  by (simp add: transform_eval)

text \<open>
  Claim C5, as stated, fails for a thinking block whose text is blank: \<open>buildParts\<close>
  appends the text part only if \<open>strings.TrimSpace(block.Thinking) != ""\<close>. The block
  below has the text of one space and an empty signature; no part of the request carries
  its text. Thinking mode is disabled all the same.
\<close>

theorem unsigned_blank_thinking_counterexample:
  "TransformClaudeToGeminiWithOptions trimSpaceASCII []
     \<lparr>Model = ''claude-sonnet-4-5'',
      Messages = [\<lparr>msgRole = ''user'', msgContent = ContentText ''hello''\<rparr>,
                  \<lparr>msgRole = ''assistant'',
                   msgContent = ContentBlocks
                     [zeroBlock\<lparr>blockType := ''thinking'', blockThinking := '' ''\<rparr>,
                      zeroBlock\<lparr>blockType := ''text'', blockText := ''Sure.''\<rparr>]\<rparr>],
      Thinking = Some \<lparr>thinkingType = ''enabled'', BudgetTokens = 1024\<rparr>,
      Temperature = None :: unit option, TopP = None, TopK = None, Stream = False\<rparr>
     ''project-1'' ''claude-sonnet-4-5'' =
   Inr \<lparr>v1Model = ''claude-sonnet-4-5'',
        Request =
          \<lparr>Contents = [\<lparr>Role = ''user'', Parts = [zeroPart\<lparr>Text := ''hello''\<rparr>]\<rparr>,
                       \<lparr>Role = ''model'', Parts = [zeroPart\<lparr>Text := ''Sure.''\<rparr>]\<rparr>],
           GenerationConfig =
             Some \<lparr>MaxOutputTokens = 64000, StopSequences = [],
                   GenThinkingConfig = None,
                   GenTemperature = None, GenTopP = None, GenTopK = None\<rparr>\<rparr>\<rparr>"
  by (simp add: transform_eval)

text \<open>
  Claim C6 against the code. \<open>buildGenerationConfig\<close> tests \<open>req.Model\<close>, the model the
  caller asked for, and not the resolved backend model. With an account that maps
  \<open>claude-haiku-4-5\<close> to \<open>gemini-2.5-flash\<close>, a budget of 32000 goes out to
  \<open>gemini-2.5-flash\<close> unclamped. With an account that maps \<open>gemini-2.5-flash\<close> to
  \<open>gemini-3-pro-high\<close>, a budget of 32000 is cut to 24576 for a backend that is not a
  flash variant.
\<close>

theorem budget_clamp_reads_requested_model:
  "getMappedModel
     \<lparr>GetMappedModel = (\<lambda>m. if m = ''claude-haiku-4-5'' then ''gemini-2.5-flash'' else m),
      GetCredential = (\<lambda>key. ''project-1'')\<rparr> ''claude-haiku-4-5'' = ''gemini-2.5-flash'' \<and>
   TransformClaudeToGemini trimSpaceASCII []
     \<lparr>Model = ''claude-haiku-4-5'',
      Messages = [\<lparr>msgRole = ''user'', msgContent = (ContentText ''hello'' :: unit message_content)\<rparr>],
      Thinking = Some \<lparr>thinkingType = ''enabled'', BudgetTokens = 32000\<rparr>,
      Temperature = None :: unit option, TopP = None, TopK = None, Stream = False\<rparr>
     ''project-1'' ''gemini-2.5-flash'' =
   Inr \<lparr>v1Model = ''gemini-2.5-flash'',
        Request =
          \<lparr>Contents = [\<lparr>Role = ''user'', Parts = [zeroPart\<lparr>Text := ''hello''\<rparr>]\<rparr>],
           GenerationConfig =
             Some \<lparr>MaxOutputTokens = 64000, StopSequences = [],
                   GenThinkingConfig = Some \<lparr>IncludeThoughts = True, ThinkingBudget = 32000\<rparr>,
                   GenTemperature = None, GenTopP = None, GenTopK = None\<rparr>\<rparr>\<rparr> \<and>
   getMappedModel
     \<lparr>GetMappedModel = (\<lambda>m. if m = ''gemini-2.5-flash'' then ''gemini-3-pro-high'' else m),
      GetCredential = (\<lambda>key. ''project-1'')\<rparr> ''gemini-2.5-flash'' = ''gemini-3-pro-high'' \<and>
   TransformClaudeToGemini trimSpaceASCII []
     \<lparr>Model = ''gemini-2.5-flash'',
      Messages = [\<lparr>msgRole = ''user'', msgContent = (ContentText ''hello'' :: unit message_content)\<rparr>],
      Thinking = Some \<lparr>thinkingType = ''enabled'', BudgetTokens = 32000\<rparr>,
      Temperature = None :: unit option, TopP = None, TopK = None, Stream = False\<rparr>
     ''project-1'' ''gemini-3-pro-high'' =
   Inr \<lparr>v1Model = ''gemini-3-pro-high'',
        Request =
          \<lparr>Contents = [\<lparr>Role = ''user'', Parts = [zeroPart\<lparr>Text := ''hello''\<rparr>]\<rparr>],
           GenerationConfig =
             Some \<lparr>MaxOutputTokens = 64000, StopSequences = [],
                   GenThinkingConfig = Some \<lparr>IncludeThoughts = True, ThinkingBudget = 24576\<rparr>,
                   GenTemperature = None, GenTopP = None, GenTopK = None\<rparr>\<rparr>\<rparr>"
  by (simp add: transform_eval TransformClaudeToGemini_def getMappedModel_def
      antigravityModelMapping_def antigravitySupportedModels_def)

theorem buildContents_entries_nonempty_witness:
  "buildContents trimSpaceASCII
     [\<lparr>msgRole = ''user'', msgContent = ContentText ''(no content)''\<rparr>,
      \<lparr>msgRole = ''assistant'',
       msgContent = ContentBlocks
         [zeroBlock\<lparr>blockType := ''image'',
                    blockSource := Some \<lparr>sourceType = ''url'', MediaType = ''image/png'',
                                         sourceData = ''https://example.com/a.png''\<rparr>\<rparr>,
          zeroBlock\<lparr>blockType := ''redacted_thinking''\<rparr>,
          zeroBlock\<lparr>blockType := ''text'', blockText := ''  ''\<rparr>]\<rparr>,
      \<lparr>msgRole = ''user'', msgContent = ContentText ''hello''\<rparr>]
     Map.empty True True =
   Inr ([\<lparr>Role = ''user'', Parts = [zeroPart\<lparr>Text := ''hello''\<rparr>]\<rparr>], False, Map.empty) \<and>
   list_all (\<lambda>c. Parts c \<noteq> [])
     [\<lparr>Role = ''user'', Parts = [zeroPart\<lparr>Text := ''hello''\<rparr> :: unit GeminiPart]\<rparr>] \<and>
   list_all (reducesToNothing trimSpaceASCII)
     [zeroBlock\<lparr>blockType := ''image'',
                blockSource := Some \<lparr>sourceType = ''url'', MediaType = ''image/png'',
                                     sourceData = ''https://example.com/a.png''\<rparr>\<rparr>,
      zeroBlock\<lparr>blockType := ''redacted_thinking''\<rparr>,
      zeroBlock\<lparr>blockType := ''text'', blockText := ''  ''\<rparr>] \<and>
   messageParts trimSpaceASCII True
     \<lparr>msgRole = ''assistant'',
      msgContent = ContentBlocks
        [zeroBlock\<lparr>blockType := ''image'',
                   blockSource := Some \<lparr>sourceType = ''url'', MediaType = ''image/png'',
                                        sourceData = ''https://example.com/a.png''\<rparr>\<rparr>,
         zeroBlock\<lparr>blockType := ''redacted_thinking''\<rparr>,
         zeroBlock\<lparr>blockType := ''text'', blockText := ''  ''\<rparr>]\<rparr> = []"
proof -
  have run: "buildContents trimSpaceASCII
     [\<lparr>msgRole = ''user'', msgContent = ContentText ''(no content)''\<rparr>,
      \<lparr>msgRole = ''assistant'',
       msgContent = ContentBlocks
         [zeroBlock\<lparr>blockType := ''image'',
                    blockSource := Some \<lparr>sourceType = ''url'', MediaType = ''image/png'',
                                         sourceData = ''https://example.com/a.png''\<rparr>\<rparr>,
          zeroBlock\<lparr>blockType := ''redacted_thinking''\<rparr>,
          zeroBlock\<lparr>blockType := ''text'', blockText := ''  ''\<rparr>]\<rparr>,
      \<lparr>msgRole = ''user'', msgContent = ContentText ''hello''\<rparr>]
     Map.empty True True =
   Inr ([\<lparr>Role = ''user'', Parts = [zeroPart\<lparr>Text := ''hello''\<rparr>]\<rparr>], False, Map.empty)"
    by (simp add: transform_eval)
  have nothing: "list_all (reducesToNothing trimSpaceASCII)
     [zeroBlock\<lparr>blockType := ''image'',
                blockSource := Some \<lparr>sourceType = ''url'', MediaType = ''image/png'',
                                     sourceData = ''https://example.com/a.png''\<rparr>\<rparr>,
      zeroBlock\<lparr>blockType := ''redacted_thinking''\<rparr>,
      zeroBlock\<lparr>blockType := ''text'', blockText := ''  ''\<rparr>]"
    by (simp add: reducesToNothing_def zeroBlock_def trimSpaceASCII_def isSpaceByte_def)
  have none: "messageParts trimSpaceASCII True
     \<lparr>msgRole = ''assistant'',
      msgContent = ContentBlocks
        [zeroBlock\<lparr>blockType := ''image'',
                   blockSource := Some \<lparr>sourceType = ''url'', MediaType = ''image/png'',
                                        sourceData = ''https://example.com/a.png''\<rparr>\<rparr>,
         zeroBlock\<lparr>blockType := ''redacted_thinking''\<rparr>,
         zeroBlock\<lparr>blockType := ''text'', blockText := ''  ''\<rparr>]\<rparr> = []"
    by (simp add: messageParts_def transform_eval)
  have "list_all (\<lambda>c. Parts c \<noteq> [])
     [\<lparr>Role = ''user'', Parts = [zeroPart\<lparr>Text := ''hello''\<rparr> :: unit GeminiPart]\<rparr>]"
    using buildContents_entries_nonempty[OF run] by (elim conjE)
  then show ?thesis
    using run nothing none
    by (simp add: reducesToNothing_def zeroBlock_def trimSpaceASCII_def isSpaceByte_def)
qed

theorem synthetic_thought_only_on_final_message_witness:
  "HasPrefix ''gemini-3-flash'' ''gemini-'' \<and>
   (\<exists>v1Req.
      TransformClaudeToGeminiWithOptions trimSpaceASCII []
        \<lparr>Model = ''gemini-3-flash'',
         Messages = [\<lparr>msgRole = ''user'', msgContent = ContentText ''hello''\<rparr>,
                     \<lparr>msgRole = ''assistant'', msgContent = ContentText ''Sure.''\<rparr>],
         Thinking = Some \<lparr>thinkingType = ''enabled'', BudgetTokens = 1024\<rparr>,
         Temperature = None :: unit option, TopP = None, TopK = None, Stream = False\<rparr>
        ''project-1'' ''gemini-3-flash'' = Inr v1Req \<and>
      Contents (Request v1Req) =
        [\<lparr>Role = ''user'', Parts = [zeroPart\<lparr>Text := ''hello''\<rparr> :: unit GeminiPart]\<rparr>,
         \<lparr>Role = ''model'',
          Parts = [zeroPart\<lparr>Text := ''Thinking...'', Thought := True,
                            ThoughtSignature := dummyThoughtSignature\<rparr>,
                   zeroPart\<lparr>Text := ''Sure.''\<rparr>]\<rparr>]) \<and>
   (\<exists>v1Req.
      TransformClaudeToGeminiWithOptions trimSpaceASCII []
        \<lparr>Model = ''gemini-3-flash'',
         Messages = [\<lparr>msgRole = ''assistant'', msgContent = ContentText ''Sure.''\<rparr>,
                     \<lparr>msgRole = ''user'', msgContent = ContentText ''hello''\<rparr>],
         Thinking = Some \<lparr>thinkingType = ''enabled'', BudgetTokens = 1024\<rparr>,
         Temperature = None :: unit option, TopP = None, TopK = None, Stream = False\<rparr>
        ''project-1'' ''gemini-3-flash'' = Inr v1Req \<and>
      Contents (Request v1Req) =
        [\<lparr>Role = ''model'', Parts = [zeroPart\<lparr>Text := ''Sure.''\<rparr> :: unit GeminiPart]\<rparr>,
         \<lparr>Role = ''user'', Parts = [zeroPart\<lparr>Text := ''hello''\<rparr>]\<rparr>]) \<and>
   (\<exists>v1Req.
      TransformClaudeToGeminiWithOptions trimSpaceASCII []
        \<lparr>Model = ''gemini-3-flash'',
         Messages = [\<lparr>msgRole = ''user'', msgContent = ContentText ''hello''\<rparr>,
                     \<lparr>msgRole = ''assistant'',
                      msgContent = ContentBlocks
                        [zeroBlock\<lparr>blockType := ''text'', blockText := ''(no content)''\<rparr>]\<rparr>],
         Thinking = Some \<lparr>thinkingType = ''enabled'', BudgetTokens = 1024\<rparr>,
         Temperature = None :: unit option, TopP = None, TopK = None, Stream = False\<rparr>
        ''project-1'' ''gemini-3-flash'' = Inr v1Req \<and>
      Contents (Request v1Req) =
        [\<lparr>Role = ''user'', Parts = [zeroPart\<lparr>Text := ''hello''\<rparr> :: unit GeminiPart]\<rparr>])"
proof -
  let ?user = "\<lparr>msgRole = ''user'', msgContent = (ContentText ''hello'' :: unit message_content)\<rparr>"
  let ?sure = "\<lparr>msgRole = ''assistant'', msgContent = (ContentText ''Sure.'' :: unit message_content)\<rparr>"
  let ?none = "\<lparr>msgRole = ''assistant'',
                msgContent = ContentBlocks
                  [zeroBlock\<lparr>blockType := ''text'', blockText := ''(no content)''\<rparr>]\<rparr>"
  let ?think = "\<lparr>thinkingType = ''enabled'', BudgetTokens = 1024\<rparr>"
  let ?req = "\<lambda>msgs. \<lparr>Model = ''gemini-3-flash'', Messages = msgs, Thinking = Some ?think,
         Temperature = None :: unit option, TopP = None, TopK = None, Stream = False\<rparr>"
  have policy: "HasPrefix ''gemini-3-flash'' ''gemini-''"
    by simp
  have thinking: "Thinking (?req msgs) = Some ?think" "thinkingType ?think = ''enabled''" for msgs
    by simp_all
  have msgs: "Messages (?req (pre @ [m])) = pre @ [m]" for pre m
    by simp
  have preUser: "buildContents trimSpaceASCII [?user] Map.empty False True =
      Inr ([\<lparr>Role = ''user'', Parts = [zeroPart\<lparr>Text := ''hello''\<rparr>]\<rparr>], False, Map.empty)"
    by (simp add: transform_eval)
  have preSure: "buildContents trimSpaceASCII [?sure] Map.empty False True =
      Inr ([\<lparr>Role = ''model'', Parts = [zeroPart\<lparr>Text := ''Sure.''\<rparr>]\<rparr>], False, Map.empty)"
    by (simp add: transform_eval)
  have partsUser: "buildParts trimSpaceASCII (msgContent ?user) Map.empty True =
      Inr ([zeroPart\<lparr>Text := ''hello''\<rparr>], False, Map.empty)"
    by (simp add: transform_eval)
  have partsSure: "buildParts trimSpaceASCII (msgContent ?sure) Map.empty True =
      Inr ([zeroPart\<lparr>Text := ''Sure.''\<rparr>], False, Map.empty)"
    by (simp add: transform_eval)
  have partsNone: "buildParts trimSpaceASCII (msgContent ?none) Map.empty True =
      Inr ([], False, Map.empty)"
    by (simp add: transform_eval)
  note final = synthetic_thought_only_on_final_message[OF policy thinking msgs preUser partsSure,
      of "[]" "''project-1''"]
  note inner = synthetic_thought_only_on_final_message[OF policy thinking msgs preSure partsUser,
      of "[]" "''project-1''"]
  note empty = synthetic_thought_only_on_final_message[OF policy thinking msgs preUser partsNone,
      of "[]" "''project-1''"]
  show ?thesis
    using policy final inner empty
    by (simp add: targetRole_def zeroPart_def)
qed

theorem unsigned_thinking_downgraded_witness:
  "\<not> HasPrefix ''claude-sonnet-4-5'' ''gemini-'' \<and>
   TransformClaudeToGeminiWithOptions trimSpaceASCII []
     \<lparr>Model = ''claude-sonnet-4-5'',
      Messages = [\<lparr>msgRole = ''user'', msgContent = ContentText ''hello''\<rparr>,
                  \<lparr>msgRole = ''assistant'',
                   msgContent = ContentBlocks
                     [zeroBlock\<lparr>blockType := ''thinking'', blockThinking := ''plan''\<rparr>,
                      zeroBlock\<lparr>blockType := ''text'', blockText := ''Sure.''\<rparr>]\<rparr>],
      Thinking = Some \<lparr>thinkingType = ''enabled'', BudgetTokens = 1024\<rparr>,
      Temperature = None :: unit option, TopP = None, TopK = None, Stream = False\<rparr>
     ''project-1'' ''claude-sonnet-4-5'' =
   Inr \<lparr>v1Model = ''claude-sonnet-4-5'',
        Request =
          \<lparr>Contents = [\<lparr>Role = ''user'', Parts = [zeroPart\<lparr>Text := ''hello''\<rparr>]\<rparr>,
                       \<lparr>Role = ''model'', Parts = [zeroPart\<lparr>Text := ''plan''\<rparr>,
                                                  zeroPart\<lparr>Text := ''Sure.''\<rparr>]\<rparr>],
           GenerationConfig =
             Some \<lparr>MaxOutputTokens = 64000, StopSequences = [],
                   GenThinkingConfig = None,
                   GenTemperature = None, GenTopP = None, GenTopK = None\<rparr>\<rparr>\<rparr> \<and>
   trimSpaceASCII ''plan'' \<noteq> ''''"
proof -
  let ?block = "zeroBlock\<lparr>blockType := ''thinking'', blockThinking := ''plan''\<rparr>"
  let ?blocks = "[?block, zeroBlock\<lparr>blockType := ''text'', blockText := ''Sure.''\<rparr>]"
  let ?msg = "\<lparr>msgRole = ''assistant'', msgContent = ContentBlocks ?blocks\<rparr>"
  let ?req = "\<lparr>Model = ''claude-sonnet-4-5'',
      Messages = [\<lparr>msgRole = ''user'', msgContent = ContentText ''hello''\<rparr>, ?msg],
      Thinking = Some \<lparr>thinkingType = ''enabled'', BudgetTokens = 1024\<rparr>,
      Temperature = None :: unit option, TopP = None, TopK = None, Stream = False\<rparr>"
  have policy: "\<not> HasPrefix ''claude-sonnet-4-5'' ''gemini-''"
    by simp
  have m: "?msg \<in> set (Messages ?req)" "msgContent ?msg = ContentBlocks ?blocks"
    by simp_all
  have b: "?block \<in> set ?blocks" "blockType ?block = ''thinking''" "blockSignature ?block = ''''"
    by (simp_all add: zeroBlock_def)
  have run: "TransformClaudeToGeminiWithOptions trimSpaceASCII [] ?req
     ''project-1'' ''claude-sonnet-4-5'' =
   Inr \<lparr>v1Model = ''claude-sonnet-4-5'',
        Request =
          \<lparr>Contents = [\<lparr>Role = ''user'', Parts = [zeroPart\<lparr>Text := ''hello''\<rparr>]\<rparr>,
                       \<lparr>Role = ''model'', Parts = [zeroPart\<lparr>Text := ''plan''\<rparr>,
                                                  zeroPart\<lparr>Text := ''Sure.''\<rparr>]\<rparr>],
           GenerationConfig =
             Some \<lparr>MaxOutputTokens = 64000, StopSequences = [],
                   GenThinkingConfig = None,
                   GenTemperature = None, GenTopP = None, GenTopK = None\<rparr>\<rparr>\<rparr>"
    by (simp add: transform_eval)
  have nonblank: "trimSpaceASCII ''plan'' \<noteq> ''''"
    by (simp add: trimSpaceASCII_def isSpaceByte_def)
  show ?thesis
    using unsigned_thinking_downgraded[OF policy m b run] policy run nonblank by simp
qed

end
